theory Spec2Isabelle
  imports Complex_Main
begin

section \<open>JavaScript values\<close>

text \<open>
  The SDK is untyped JavaScript: every argument, every REST or RPC answer and every
  library object is a value of one type. A number is a rational or \<open>NaN\<close>; arithmetic
  on numbers is left to the library oracle below, so no floating-point fact is used
  anywhere.
\<close>

datatype jsval =
    Undefined
  | Null
  | JBool bool
  | JNum rat
  | JNaN
  | JStr string
  | JObj "(string \<times> jsval) list"
  | JArr "jsval list"
  | JFun string nat

text \<open>
  \<open>JObj\<close> is an object by the list of its properties and \<open>JArr\<close> an array by its elements.
  \<open>JFun n a\<close> is a built-in function of the language, by its qualified name and its number
  of formal parameters: the methods that every value inherits (\<open>[].sort\<close> is
  \<open>JFun ''Array.prototype.sort'' 1\<close>) are values of this kind.
\<close>

datatype outcome = Ok jsval | Throw jsval

definition TypeError :: jsval where
  "TypeError = JObj [(''name'', JStr ''TypeError'')]"

definition ReferenceError :: "string \<Rightarrow> jsval" where
  "ReferenceError x =
     JObj [(''name'', JStr ''ReferenceError''), (''message'', JStr (x @ '' is not defined''))]"

text \<open>Truthiness, as tested by \<open>||\<close>, \<open>!\<close>, \<open>? :\<close> and \<open>if\<close>.\<close>

fun truthy :: "jsval \<Rightarrow> bool" where
  "truthy Undefined = False"
| "truthy Null = False"
| "truthy (JBool b) = b"
| "truthy (JNum n) = (n \<noteq> 0)"
| "truthy JNaN = False"
| "truthy (JStr s) = (s \<noteq> [])"
| "truthy (JObj kv) = True"
| "truthy (JArr xs) = True"
| "truthy (JFun n a) = True"

text \<open>\<open>a || b\<close>\<close>

definition js_or :: "jsval \<Rightarrow> jsval \<Rightarrow> jsval" where
  "js_or a b = (if truthy a then a else b)"

text \<open>A default parameter \<open>(x = d)\<close> replaces exactly an \<open>undefined\<close> argument.\<close>

definition dflt :: "jsval \<Rightarrow> jsval \<Rightarrow> jsval" where
  "dflt v d = (if v = Undefined then d else v)"

text \<open>A positional argument; an argument that the caller leaves out is \<open>undefined\<close>.\<close>

definition arg :: "jsval list \<Rightarrow> nat \<Rightarrow> jsval" where
  "arg args i = (if i < length args then args ! i else Undefined)"

section \<open>Property reads\<close>

text \<open>
  The methods of the built-in prototypes (ECMAScript 2023, with the string methods of its
  annex B), each with the \<open>length\<close> of the function. A read of a name that a value does not
  have itself finds the method of that name of its prototype, then of \<open>Object.prototype\<close>.
\<close>

definition Object_prototype :: "(string \<times> nat) list" where
  "Object_prototype =
     [(''hasOwnProperty'', 1), (''isPrototypeOf'', 1), (''propertyIsEnumerable'', 1),
      (''toLocaleString'', 0), (''toString'', 0), (''valueOf'', 0),
      (''__defineGetter__'', 2), (''__defineSetter__'', 2),
      (''__lookupGetter__'', 1), (''__lookupSetter__'', 1)]"

definition Array_prototype :: "(string \<times> nat) list" where
  "Array_prototype =
     [(''at'', 1), (''concat'', 1), (''copyWithin'', 2), (''entries'', 0), (''every'', 1),
      (''fill'', 1), (''filter'', 1), (''find'', 1), (''findIndex'', 1), (''findLast'', 1),
      (''findLastIndex'', 1), (''flat'', 0), (''flatMap'', 1), (''forEach'', 1),
      (''includes'', 1), (''indexOf'', 1), (''join'', 1), (''keys'', 0), (''lastIndexOf'', 1),
      (''map'', 1), (''pop'', 0), (''push'', 1), (''reduce'', 1), (''reduceRight'', 1),
      (''reverse'', 0), (''shift'', 0), (''slice'', 2), (''some'', 1), (''sort'', 1),
      (''splice'', 2), (''toLocaleString'', 0), (''toReversed'', 0), (''toSorted'', 1),
      (''toSpliced'', 2), (''toString'', 0), (''unshift'', 1), (''values'', 0), (''with'', 2)]"

definition String_prototype :: "(string \<times> nat) list" where
  "String_prototype =
     [(''at'', 1), (''charAt'', 1), (''charCodeAt'', 1), (''codePointAt'', 1), (''concat'', 1),
      (''endsWith'', 1), (''includes'', 1), (''indexOf'', 1), (''lastIndexOf'', 1),
      (''localeCompare'', 1), (''match'', 1), (''matchAll'', 1), (''normalize'', 0),
      (''padEnd'', 1), (''padStart'', 1), (''repeat'', 1), (''replace'', 2),
      (''replaceAll'', 2), (''search'', 1), (''slice'', 2), (''split'', 2),
      (''startsWith'', 1), (''substring'', 2), (''toLocaleLowerCase'', 0),
      (''toLocaleUpperCase'', 0), (''toLowerCase'', 0), (''toString'', 0),
      (''toUpperCase'', 0), (''trim'', 0), (''trimEnd'', 0), (''trimStart'', 0),
      (''valueOf'', 0), (''substr'', 2), (''anchor'', 1), (''big'', 0), (''blink'', 0),
      (''bold'', 0), (''fixed'', 0), (''fontcolor'', 1), (''fontsize'', 1), (''italics'', 0),
      (''link'', 1), (''small'', 0), (''strike'', 0), (''sub'', 0), (''sup'', 0),
      (''trimLeft'', 0), (''trimRight'', 0)]"

definition Number_prototype :: "(string \<times> nat) list" where
  "Number_prototype =
     [(''toExponential'', 1), (''toFixed'', 1), (''toLocaleString'', 0), (''toPrecision'', 1),
      (''toString'', 1), (''valueOf'', 0)]"

definition Boolean_prototype :: "(string \<times> nat) list" where
  "Boolean_prototype = [(''toString'', 0), (''valueOf'', 0)]"

definition Function_prototype :: "(string \<times> nat) list" where
  "Function_prototype = [(''apply'', 2), (''bind'', 1), (''call'', 1), (''toString'', 0)]"

fun arity_of :: "(string \<times> nat) list \<Rightarrow> string \<Rightarrow> nat option" where
  "arity_of [] k = None"
| "arity_of ((k', a) # t) k = (if k = k' then Some a else arity_of t k)"

text \<open>
  \<open>inherited proto ctor owner table k\<close>: what a read of \<open>k\<close> finds in a prototype with the
  methods \<open>table\<close>, whose \<open>__proto__\<close> reads as \<open>proto\<close> and whose constructor is \<open>ctor\<close>; a
  name that is not there is looked up further with \<open>rest\<close>.
\<close>

definition inherited ::
    "jsval \<Rightarrow> string \<Rightarrow> (string \<times> nat) list \<Rightarrow> jsval \<Rightarrow> string \<Rightarrow> jsval" where
  "inherited proto ctor table rest k =
     (if k = ''__proto__'' then proto
      else if k = ''constructor'' then JFun ctor 1
      else case arity_of table k of
             Some a \<Rightarrow> JFun (ctor @ ''.prototype.'' @ k) a
           | None \<Rightarrow> rest)"

definition from_Object :: "string \<Rightarrow> jsval" where
  "from_Object k = inherited (JObj []) ''Object'' Object_prototype Undefined k"

text \<open>A prototype as an object of its methods.\<close>

definition prototype_object :: "string \<Rightarrow> (string \<times> nat) list \<Rightarrow> jsval" where
  "prototype_object ctor table =
     JObj (map (\<lambda>na. (fst na, JFun (ctor @ ''.prototype.'' @ fst na) (snd na))) table)"

text \<open>The number that a string of decimal digits denotes, and the names that are indices.\<close>

definition digit :: "char \<Rightarrow> nat" where
  "digit c = of_char c - of_char CHR ''0''"

definition decimal :: "string \<Rightarrow> nat" where
  "decimal ds = foldl (\<lambda>n c. 10 * n + digit c) 0 ds"

definition index_name :: "string \<Rightarrow> nat option" where
  "index_name k =
     (if k \<noteq> [] \<and> list_all (\<lambda>c. c \<in> set ''0123456789'') k \<and> (length k = 1 \<or> hd k \<noteq> CHR ''0'')
      then Some (decimal k) else None)"

text \<open>The simple name of a built-in function: what follows the last dot.\<close>

definition simple_name :: "string \<Rightarrow> string" where
  "simple_name n = rev (takeWhile (\<lambda>c. c \<noteq> CHR ''.'') (rev n))"

text \<open>
  Property read \<open>v.k\<close> (also one name of a destructuring \<open>const {k} = v\<close>): a TypeError
  on \<open>undefined\<close> and \<open>null\<close>; on an object the listed property, else what it inherits from
  \<open>Object.prototype\<close>; on an array and a string \<open>length\<close>, an element by its index, else
  what is inherited; on a number, a boolean and a function what is inherited (a function
  has a \<open>length\<close> and a \<open>name\<close>; its \<open>caller\<close> and \<open>arguments\<close> throw). An object lists
  every property that can be read from it apart from those of \<open>Object.prototype\<close>.
\<close>

fun lookup :: "(string \<times> jsval) list \<Rightarrow> string \<Rightarrow> jsval" where
  "lookup [] k = from_Object k"
| "lookup ((k', v) # kv) k = (if k = k' then v else lookup kv k)"

fun js_prop :: "jsval \<Rightarrow> string \<Rightarrow> outcome" where
  "js_prop Undefined k = Throw TypeError"
| "js_prop Null k = Throw TypeError"
| "js_prop (JObj kv) k = Ok (lookup kv k)"
| "js_prop (JArr xs) k =
     (if k = ''length'' then Ok (JNum (of_nat (length xs)))
      else case index_name k of
             Some i \<Rightarrow> Ok (if i < length xs then xs ! i else Undefined)
           | None \<Rightarrow> Ok (inherited (JArr []) ''Array'' Array_prototype (from_Object k) k))"
| "js_prop (JStr s) k =
     (if k = ''length'' then Ok (JNum (of_nat (length s)))
      else case index_name k of
             Some i \<Rightarrow> Ok (if i < length s then JStr [s ! i] else Undefined)
           | None \<Rightarrow> Ok (inherited (prototype_object ''String'' String_prototype) ''String''
                          String_prototype (from_Object k) k))"
| "js_prop (JNum n) k =
     Ok (inherited (prototype_object ''Number'' Number_prototype) ''Number'' Number_prototype
           (from_Object k) k)"
| "js_prop JNaN k =
     Ok (inherited (prototype_object ''Number'' Number_prototype) ''Number'' Number_prototype
           (from_Object k) k)"
| "js_prop (JBool b) k =
     Ok (inherited (prototype_object ''Boolean'' Boolean_prototype) ''Boolean''
           Boolean_prototype (from_Object k) k)"
| "js_prop (JFun n a) k =
     (if k = ''length'' then Ok (JNum (of_nat a))
      else if k = ''name'' then Ok (JStr (simple_name n))
      else if k = ''caller'' \<or> k = ''arguments'' then Throw TypeError
      else Ok (inherited (JFun ''Function.prototype'' 0) ''Function'' Function_prototype
                 (from_Object k) k))"

text \<open>
  Property write \<open>v.k = x\<close> on a local object, returning the updated object. Module code
  is strict, so a write to a primitive throws as a write to \<open>undefined\<close> does. The arrays of
  this model and its built-in functions carry no named properties of their own, so a write
  of one to an array or a function is an error here as well; none of the objects that the
  SDK writes to (transactions, account lists, fetched accounts, \<open>hubParams\<close>) is one.
\<close>

fun obj_update :: "string \<Rightarrow> jsval \<Rightarrow> (string \<times> jsval) list \<Rightarrow> (string \<times> jsval) list" where
  "obj_update k x [] = [(k, x)]"
| "obj_update k x ((k', v) # kv) = (if k = k' then (k, x) # kv else (k', v) # obj_update k x kv)"

fun set_prop :: "jsval \<Rightarrow> string \<Rightarrow> jsval \<Rightarrow> outcome" where
  "set_prop (JObj kv) k x = Ok (JObj (obj_update k x kv))"
| "set_prop v k x = Throw TypeError"

text \<open>
  Array destructuring \<open>const [a, b] = v\<close> reads position \<open>i\<close> of an iterable; a value that
  is not iterable throws.
\<close>

fun elem :: "jsval \<Rightarrow> nat \<Rightarrow> outcome" where
  "elem (JArr xs) i = (if i < length xs then Ok (xs ! i) else Ok Undefined)"
| "elem (JStr s) i = (if i < length s then Ok (JStr [s ! i]) else Ok Undefined)"
| "elem v i = Throw TypeError"

section \<open>The outside world\<close>

text \<open>
  Everything the SDK does not compute itself is a call to code outside \<open>src/\<close>: the REST
  client, the wallet, the RPC connection, the Anchor program object, the console. Each such
  call is an effect: it is written to the trace together with its answer, and the answer
  (a value or a thrown error) is chosen by the world from the history so far.
\<close>

datatype call =
    NinaClient_get jsval jsval jsval
      \<comment> \<open>\<open>NinaClient.get(url, query, withAccountData)\<close>\<close>
  | Axios_get jsval
      \<comment> \<open>\<open>axios.get(url)\<close>\<close>
  | Axios_post jsval jsval
      \<comment> \<open>\<open>axios.post(url, body)\<close>\<close>
  | UseProgram jsval
      \<comment> \<open>\<open>client.useProgram()\<close>\<close>
  | Program_at jsval jsval
      \<comment> \<open>\<open>anchor.Program.at(programId, provider)\<close>\<close>
  | Account_fetch jsval string jsval
      \<comment> \<open>\<open>program.account.NAME.fetch(publicKey)\<close>\<close>
  | Account_createInstruction jsval string jsval
      \<comment> \<open>\<open>program.account.NAME.createInstruction(keypair)\<close>\<close>
  | FindOrCreateAssociatedTokenAccount "jsval list"
      \<comment> \<open>\<open>findOrCreateAssociatedTokenAccount(connection, payer, owner, systemProgram, rent, mint, ...)\<close>\<close>
  | CreateMintInstructions "jsval list"
      \<comment> \<open>\<open>createMintInstructions(provider, payer, mint, decimals)\<close>\<close>
  | GetUsdcBalance jsval jsval
      \<comment> \<open>\<open>getUsdcBalance(publicKey, connection)\<close>\<close>
  | Keypair_generate
      \<comment> \<open>\<open>anchor.web3.Keypair.generate()\<close>\<close>
  | Methods_transaction jsval string "jsval list" jsval jsval jsval
      \<comment> \<open>\<open>program.methods.NAME(args).accounts(a).preInstructions(i).signers(g).transaction()\<close>;
          an absent \<open>preInstructions\<close> or \<open>signers\<close> is \<open>Undefined\<close>\<close>
  | Methods_rpc jsval string "jsval list" jsval jsval
      \<comment> \<open>\<open>program.methods.NAME(args).accounts(a).preInstructions(i).rpc()\<close>\<close>
  | GetRecentBlockhash jsval
      \<comment> \<open>\<open>connection.getRecentBlockhash()\<close>\<close>
  | PartialSign jsval jsval
      \<comment> \<open>\<open>tx.partialSign(signer)\<close>\<close>
  | SendTransaction jsval jsval jsval
      \<comment> \<open>\<open>wallet.sendTransaction(tx, connection)\<close>, as wallet, tx, connection\<close>
  | GetConfirmTransaction jsval jsval
      \<comment> \<open>\<open>getConfirmTransaction(txid, connection)\<close>\<close>
  | GetParsedTransaction jsval jsval jsval
      \<comment> \<open>\<open>connection.getParsedTransaction(txid, commitment)\<close>, as connection, txid, commitment\<close>
  | GetParsedTokenAccountsByOwner jsval jsval jsval
      \<comment> \<open>\<open>connection.getParsedTokenAccountsByOwner(owner, filter)\<close>\<close>
  | Date_now
      \<comment> \<open>\<open>Date.now()\<close>\<close>
  | New_Date
      \<comment> \<open>\<open>new Date()\<close>\<close>
  | Console string "jsval list"
      \<comment> \<open>\<open>console.log\<close>, \<open>console.warn\<close>, \<open>console.error\<close>\<close>

type_synonym event = "call \<times> outcome"

text \<open>
  Library functions without side effects (constructors, encoders, address derivation,
  arithmetic and text conversion of numbers and objects) answer by their arguments alone.
\<close>

datatype libcall =
    New string "jsval list"
      \<comment> \<open>\<open>new C(args)\<close>\<close>
  | Func string "jsval list"
      \<comment> \<open>\<open>f(args)\<close>\<close>
  | Method jsval string "jsval list"
      \<comment> \<open>\<open>receiver.m(args)\<close>\<close>
  | Arith string jsval jsval
      \<comment> \<open>a binary operator on numbers\<close>
  | ToString jsval
      \<comment> \<open>text of a number or an object inside a template literal\<close>

text \<open>
  The environment of a call: the world, the library, the library's constants
  (\<open>anchor.web3.SystemProgram.programId\<close>, \<open>TOKEN_PROGRAM_ID\<close>, ...), the imported
  \<open>NinaClient\<close> object (its \<open>ids\<close> table) and \<open>process.env\<close>.
\<close>

record env =
  world :: "event list \<Rightarrow> call \<Rightarrow> outcome"
  lib :: "libcall \<Rightarrow> outcome"
  libconst :: "string \<Rightarrow> jsval"
  NinaClient :: jsval
  process_env :: jsval

record state =
  trace :: "event list"
  heap :: "nat \<Rightarrow> jsval"

type_synonym js = "env \<Rightarrow> state \<Rightarrow> outcome \<times> state"

definition ret :: "jsval \<Rightarrow> js" where
  "ret v = (\<lambda>e s. (Ok v, s))"

definition thrw :: "jsval \<Rightarrow> js" where
  "thrw x = (\<lambda>e s. (Throw x, s))"

definition lift :: "outcome \<Rightarrow> js" where
  "lift r = (\<lambda>e s. (r, s))"

definition bnd :: "js \<Rightarrow> (jsval \<Rightarrow> js) \<Rightarrow> js" where
  "bnd m k = (\<lambda>e s. case m e s of (Ok v, s') \<Rightarrow> k v e s' | (Throw x, s') \<Rightarrow> (Throw x, s'))"

definition call :: "call \<Rightarrow> js" where
  "call c = (\<lambda>e s. (world e (trace s) c,
                     s\<lparr>trace := trace s @ [(c, world e (trace s) c)]\<rparr>))"

definition libc :: "libcall \<Rightarrow> js" where
  "libc c = (\<lambda>e s. (lib e c, s))"

text \<open>\<open>try { body } catch (error) { handler }\<close>\<close>

definition try_catch :: "js \<Rightarrow> (jsval \<Rightarrow> js) \<Rightarrow> js" where
  "try_catch body handler =
     (\<lambda>e s. case body e s of (Ok v, s') \<Rightarrow> (Ok v, s') | (Throw x, s') \<Rightarrow> handler x e s')"

text \<open>
  The text of a value inside a template literal. Strings, \<open>undefined\<close>, \<open>null\<close> and booleans
  have a fixed text; a number's or an object's text is the library's (\<open>toString\<close>).
\<close>

definition to_str :: "jsval \<Rightarrow> js" where
  "to_str v =
     (case v of
        JStr s \<Rightarrow> ret (JStr s)
      | Undefined \<Rightarrow> ret (JStr ''undefined'')
      | Null \<Rightarrow> ret (JStr ''null'')
      | JBool b \<Rightarrow> ret (JStr (if b then ''true'' else ''false''))
      | _ \<Rightarrow> bnd (libc (ToString v))
                 (\<lambda>t. case t of JStr s \<Rightarrow> ret (JStr s) | _ \<Rightarrow> thrw TypeError))"

text \<open>Concatenation of two pieces of text that are already strings.\<close>

fun cat :: "jsval \<Rightarrow> jsval \<Rightarrow> jsval" where
  "cat (JStr a) (JStr b) = JStr (a @ b)"
| "cat a b = Undefined"

fun cats :: "jsval list \<Rightarrow> jsval" where
  "cats [] = JStr []"
| "cats (x # xs) = cat x (cats xs)"

text \<open>Property reads, chains of them (\<open>a.b.c\<close>), indexing and writes as steps of a function.\<close>

fun js_path :: "jsval \<Rightarrow> string list \<Rightarrow> outcome" where
  "js_path v [] = Ok v"
| "js_path v (k # ks) = (case js_prop v k of Ok x \<Rightarrow> js_path x ks | Throw x \<Rightarrow> Throw x)"

text \<open>\<open>v[i]\<close>: unlike destructuring, indexing a value that is no array gives \<open>undefined\<close>.\<close>

fun js_index :: "jsval \<Rightarrow> nat \<Rightarrow> outcome" where
  "js_index Undefined i = Throw TypeError"
| "js_index Null i = Throw TypeError"
| "js_index (JArr xs) i = (if i < length xs then Ok (xs ! i) else Ok Undefined)"
| "js_index (JStr s) i = (if i < length s then Ok (JStr [s ! i]) else Ok Undefined)"
| "js_index v i = Ok Undefined"

text \<open>The elements of an iterable, for \<open>...v\<close> and \<open>for (x of v)\<close>; other values throw.\<close>

fun spread :: "jsval \<Rightarrow> outcome" where
  "spread (JArr xs) = Ok (JArr xs)"
| "spread (JStr s) = Ok (JArr (map (\<lambda>c. JStr [c]) s))"
| "spread v = Throw TypeError"

text \<open>\<open>v.substring(0, n)\<close>: defined on strings; on another value the call throws.\<close>

fun substring0 :: "nat \<Rightarrow> jsval \<Rightarrow> outcome" where
  "substring0 n (JStr s) = Ok (JStr (take n s))"
| "substring0 n v = Throw TypeError"

definition prp :: "jsval \<Rightarrow> string \<Rightarrow> js" where
  "prp v k = lift (js_prop v k)"

definition pth :: "jsval \<Rightarrow> string list \<Rightarrow> js" where
  "pth v ks = lift (js_path v ks)"

definition el :: "jsval \<Rightarrow> nat \<Rightarrow> js" where
  "el v i = lift (elem v i)"

definition setp :: "jsval \<Rightarrow> string \<Rightarrow> jsval \<Rightarrow> js" where
  "setp v k x = lift (set_prop v k x)"

text \<open>\<open>NinaClient.a.b.c\<close>, \<open>process.env.K\<close> and a constant of the library.\<close>

definition nina :: "string list \<Rightarrow> js" where
  "nina ks = (\<lambda>e s. (js_path (NinaClient e) ks, s))"

definition process_env_get :: "string \<Rightarrow> js" where
  "process_env_get k = (\<lambda>e s. (js_prop (process_env e) k, s))"

definition konst :: "string \<Rightarrow> js" where
  "konst name = (\<lambda>e s. (Ok (libconst e name), s))"

text \<open>
  A caller's object that the function writes to is held in the heap and passed by its
  address, so that the writes outlive the call, also when the call ends in an error.
\<close>

definition heap_obj :: "nat \<Rightarrow> js" where
  "heap_obj a = (\<lambda>e s. (Ok (heap s a), s))"

definition heap_prp :: "nat \<Rightarrow> string \<Rightarrow> js" where
  "heap_prp a k = (\<lambda>e s. (js_prop (heap s a) k, s))"

definition heap_setp :: "nat \<Rightarrow> string \<Rightarrow> jsval \<Rightarrow> js" where
  "heap_setp a k x =
     (\<lambda>e s. case set_prop (heap s a) k x of
               Ok v \<Rightarrow> (Ok x, s\<lparr>heap := (heap s)(a := v)\<rparr>)
             | Throw t \<Rightarrow> (Throw t, s))"

text \<open>The console never fails; the line is kept in the trace.\<close>

definition console :: "string \<Rightarrow> jsval list \<Rightarrow> js" where
  "console level args =
     (\<lambda>e s. (Ok Undefined, s\<lparr>trace := trace s @ [(Console level args, Ok Undefined)]\<rparr>))"

text \<open>A method of a library object: a TypeError on \<open>undefined\<close> and \<open>null\<close>.\<close>

definition meth :: "jsval \<Rightarrow> string \<Rightarrow> jsval list \<Rightarrow> js" where
  "meth recv m args =
     (if recv = Undefined \<or> recv = Null then thrw TypeError else libc (Method recv m args))"

text \<open>Strict equality \<open>===\<close> of two values computed apart: objects are never identical.\<close>

fun strict_eq :: "jsval \<Rightarrow> jsval \<Rightarrow> bool" where
  "strict_eq (JObj a) b = False"
| "strict_eq (JArr a) b = False"
| "strict_eq JNaN b = False"
| "strict_eq a b = (a = b)"

text \<open>Evaluation of a list of expressions from left to right.\<close>

fun seq :: "js list \<Rightarrow> (jsval list \<Rightarrow> js) \<Rightarrow> js" where
  "seq [] k = k []"
| "seq (m # ms) k = bnd m (\<lambda>v. seq ms (\<lambda>vs. k (v # vs)))"

text \<open>An object literal \<open>{k1: e1, k2: e2, ...}\<close>.\<close>

definition obj :: "(string \<times> js) list \<Rightarrow> js" where
  "obj kes = seq (map snd kes) (\<lambda>vs. ret (JObj (zip (map fst kes) vs)))"

section \<open>Idioms of the request builders\<close>

definition new_PublicKey :: "jsval \<Rightarrow> js" where
  "new_PublicKey x = libc (New ''anchor.web3.PublicKey'' [x])"

definition new_BN :: "jsval \<Rightarrow> js" where
  "new_BN x = libc (New ''anchor.BN'' [x])"

definition arith :: "string \<Rightarrow> jsval \<Rightarrow> jsval \<Rightarrow> js" where
  "arith opr a b = libc (Arith opr a b)"

text \<open>\<open>Buffer.from(anchor.utils.bytes.utf8.encode(x))\<close>\<close>

definition utf8_buffer :: "jsval \<Rightarrow> js" where
  "utf8_buffer x =
     bnd (libc (Func ''anchor.utils.bytes.utf8.encode'' [x])) (\<lambda>b.
     libc (Func ''Buffer.from'' [b]))"

text \<open>\<open>x.toBuffer()\<close> and \<open>x.toBase58()\<close>\<close>

definition toBuffer :: "jsval \<Rightarrow> js" where
  "toBuffer x = meth x ''toBuffer'' []"

definition toBase58 :: "jsval \<Rightarrow> js" where
  "toBase58 x = meth x ''toBase58'' []"

text \<open>
  \<open>await anchor.web3.PublicKey.findProgramAddress([seed, ...], programId)\<close>: the seeds
  are evaluated in order, then the program id, then the address is derived. The answer
  is the pair of the address and its bump.
\<close>

definition findProgramAddress :: "js list \<Rightarrow> js \<Rightarrow> js" where
  "findProgramAddress seeds programId =
     seq seeds (\<lambda>bs.
     bnd programId (\<lambda>pid.
     libc (Func ''anchor.web3.PublicKey.findProgramAddress'' [JArr bs, pid])))"

text \<open>\<open>provider.wallet.publicKey\<close> and \<open>provider.connection\<close>\<close>

definition wallet_publicKey :: "jsval \<Rightarrow> js" where
  "wallet_publicKey provider = pth provider [''wallet'', ''publicKey'']"

definition connection :: "jsval \<Rightarrow> js" where
  "connection provider = prp provider ''connection''"

text \<open>
  \<open>await findOrCreateAssociatedTokenAccount(provider.connection, provider.wallet.publicKey,
  OWNER, anchor.web3.SystemProgram.programId, anchor.web3.SYSVAR_RENT_PUBKEY, MINT, ...)\<close>
\<close>

definition findOrCreateAssociatedTokenAccount :: "jsval \<Rightarrow> js \<Rightarrow> js \<Rightarrow> js list \<Rightarrow> js" where
  "findOrCreateAssociatedTokenAccount provider owner mint extra =
     seq ([connection provider, wallet_publicKey provider, owner,
           konst ''anchor.web3.SystemProgram.programId'',
           konst ''anchor.web3.SYSVAR_RENT_PUBKEY'', mint] @ extra)
       (\<lambda>args. call (FindOrCreateAssociatedTokenAccount args))"

text \<open>
  \<open>await program.methods.NAME(args).accounts({...}).preInstructions(pre).signers(sg).transaction()\<close>
\<close>

definition methods_transaction ::
    "jsval \<Rightarrow> string \<Rightarrow> js list \<Rightarrow> js \<Rightarrow> js \<Rightarrow> js \<Rightarrow> js" where
  "methods_transaction program name args accounts pre sg =
     seq args (\<lambda>as.
     bnd accounts (\<lambda>acc.
     bnd pre (\<lambda>p.
     bnd sg (\<lambda>g.
     call (Methods_transaction program name as acc p g)))))"

text \<open>
  \<open>tx.recentBlockhash = (await provider.connection.getRecentBlockhash()).blockhash;
  tx.feePayer = provider.wallet.publicKey;\<close>
\<close>

definition stamp :: "jsval \<Rightarrow> jsval \<Rightarrow> js" where
  "stamp provider tx =
     bnd (connection provider) (\<lambda>conn.
     bnd (call (GetRecentBlockhash conn)) (\<lambda>r.
     bnd (prp r ''blockhash'') (\<lambda>blockhash.
     bnd (setp tx ''recentBlockhash'' blockhash) (\<lambda>tx1.
     bnd (wallet_publicKey provider) (\<lambda>payer.
     setp tx1 ''feePayer'' payer)))))"

text \<open>\<open>await provider.wallet.sendTransaction(tx, provider.connection)\<close>\<close>

definition sendTransaction :: "jsval \<Rightarrow> jsval \<Rightarrow> js" where
  "sendTransaction provider tx =
     bnd (prp provider ''wallet'') (\<lambda>wallet.
     bnd (connection provider) (\<lambda>conn.
     call (SendTransaction wallet tx conn)))"

text \<open>\<open>await getConfirmTransaction(txid, provider.connection)\<close>\<close>

definition getConfirmTransaction :: "jsval \<Rightarrow> jsval \<Rightarrow> js" where
  "getConfirmTransaction txid provider =
     bnd (connection provider) (\<lambda>conn. call (GetConfirmTransaction txid conn))"

text \<open>\<open>await provider.connection.getParsedTransaction(txid, commitment)\<close>\<close>

definition getParsedTransaction :: "jsval \<Rightarrow> jsval \<Rightarrow> string \<Rightarrow> js" where
  "getParsedTransaction provider txid commitment =
     bnd (connection provider) (\<lambda>conn. call (GetParsedTransaction conn txid (JStr commitment)))"

section \<open>Fetch helpers\<close>

text \<open>Hub module (\<open>hubs.js\<close>), lines 18 to 40.\<close>

definition Hub_fetchAll :: "jsval \<Rightarrow> jsval \<Rightarrow> js" where
  "Hub_fetchAll pagination0 withAccountData0 =
     (let pagination = dflt pagination0 (JObj []);
          withAccountData = dflt withAccountData0 (JBool False)
      in bnd (lift (js_prop pagination ''limit'')) (\<lambda>limit.
         bnd (lift (js_prop pagination ''offset'')) (\<lambda>offset.
         bnd (lift (js_prop pagination ''sort'')) (\<lambda>sort.
         call (NinaClient_get (JStr ''/hubs'')
                 (JObj [(''limit'', js_or limit (JNum 20)),
                        (''offset'', js_or offset (JNum 0)),
                        (''sort'', js_or sort (JStr ''desc''))])
                 withAccountData)))))"

definition Hub_fetch :: "jsval \<Rightarrow> jsval \<Rightarrow> js" where
  "Hub_fetch publicKeyOrHandle withAccountData0 =
     (let withAccountData = dflt withAccountData0 (JBool False)
      in bnd (to_str publicKeyOrHandle) (\<lambda>p.
         call (NinaClient_get (cat (JStr ''/hubs/'') p) Undefined withAccountData)))"

text \<open>Release module (\<open>releases.js\<close>), lines 28 to 51.\<close>

definition Release_fetchAll :: "jsval \<Rightarrow> jsval \<Rightarrow> js" where
  "Release_fetchAll pagination0 withAccountData0 =
     (let pagination = dflt pagination0 (JObj []);
          withAccountData = dflt withAccountData0 (JBool False)
      in bnd (lift (js_prop pagination ''limit'')) (\<lambda>limit.
         bnd (lift (js_prop pagination ''offset'')) (\<lambda>offset.
         bnd (lift (js_prop pagination ''sort'')) (\<lambda>sort.
         call (NinaClient_get (JStr ''/releases'')
                 (JObj [(''limit'', js_or limit (JNum 20)),
                        (''offset'', js_or offset (JNum 0)),
                        (''sort'', js_or sort (JStr ''desc''))])
                 withAccountData)))))"

definition Release_fetch :: "jsval \<Rightarrow> jsval \<Rightarrow> js" where
  "Release_fetch publicKey withAccountData0 =
     (let withAccountData = dflt withAccountData0 (JBool False)
      in bnd (to_str publicKey) (\<lambda>p.
         call (NinaClient_get (cat (JStr ''/releases/'') p) Undefined withAccountData)))"

text \<open>Exchange module (\<open>exchanges.js\<close>), lines 935 to 960 of the unnamed part.\<close>

definition Exchange_fetchAll :: "jsval \<Rightarrow> jsval \<Rightarrow> js" where
  "Exchange_fetchAll pagination0 withAccountData0 =
     (let pagination = dflt pagination0 (JObj []);
          withAccountData = dflt withAccountData0 (JBool False)
      in bnd (lift (js_prop pagination ''limit'')) (\<lambda>limit.
         bnd (lift (js_prop pagination ''offset'')) (\<lambda>offset.
         bnd (lift (js_prop pagination ''sort'')) (\<lambda>sort.
         call (NinaClient_get (JStr ''/exchanges'')
                 (JObj [(''limit'', js_or limit (JNum 20)),
                        (''offset'', js_or offset (JNum 0)),
                        (''sort'', js_or sort (JStr ''desc''))])
                 withAccountData)))))"

definition Exchange_fetch :: "jsval \<Rightarrow> jsval \<Rightarrow> jsval \<Rightarrow> js" where
  "Exchange_fetch publicKey withAccountData0 transactionId0 =
     (let withAccountData = dflt withAccountData0 (JBool False);
          transactionId = dflt transactionId0 Undefined
      in bnd (to_str publicKey) (\<lambda>p.
         call (NinaClient_get (cat (JStr ''/exchanges/'') p)
                 (if truthy transactionId then JObj [(''transactionId'', transactionId)]
                  else Undefined)
                 withAccountData)))"


text \<open>
  The other fetch helpers. Hub module, lines 49 to 122: \<open>fetchCollaborators\<close> passes the path
  alone; \<open>fetchHubRelease\<close> and the unexported \<open>fetchHubCollaborator\<close> are with the
  transactions below.
\<close>

definition Hub_fetchCollaborators :: "jsval \<Rightarrow> js" where
  "Hub_fetchCollaborators publicKeyOrHandle =
     bnd (to_str publicKeyOrHandle) (\<lambda>p.
     call (NinaClient_get (cats [JStr ''/hubs/'', p, JStr ''/collaborators''])
             Undefined Undefined))"

definition Hub_fetchReleases :: "jsval \<Rightarrow> jsval \<Rightarrow> js" where
  "Hub_fetchReleases publicKeyOrHandle withAccountData0 =
     (let withAccountData = dflt withAccountData0 (JBool False)
      in bnd (to_str publicKeyOrHandle) (\<lambda>p.
         call (NinaClient_get (cats [JStr ''/hubs/'', p, JStr ''/releases''])
                 Undefined withAccountData)))"

definition Hub_fetchPosts :: "jsval \<Rightarrow> jsval \<Rightarrow> js" where
  "Hub_fetchPosts publicKeyOrHandle withAccountData0 =
     (let withAccountData = dflt withAccountData0 (JBool False)
      in bnd (to_str publicKeyOrHandle) (\<lambda>p.
         call (NinaClient_get (cats [JStr ''/hubs/'', p, JStr ''/posts''])
                 Undefined withAccountData)))"

definition Hub_fetchHubPost :: "jsval \<Rightarrow> jsval \<Rightarrow> jsval \<Rightarrow> js" where
  "Hub_fetchHubPost publicKeyOrHandle hubPostPublicKey withAccountData0 =
     (let withAccountData = dflt withAccountData0 (JBool False)
      in bnd (to_str publicKeyOrHandle) (\<lambda>p.
         bnd (to_str hubPostPublicKey) (\<lambda>h.
         call (NinaClient_get (cats [JStr ''/hubs/'', p, JStr ''/hubPosts/'', h])
                 Undefined withAccountData))))"

definition Hub_fetchSubscriptions :: "jsval \<Rightarrow> jsval \<Rightarrow> js" where
  "Hub_fetchSubscriptions publicKeyOrHandle withAccountData0 =
     (let withAccountData = dflt withAccountData0 (JBool False)
      in bnd (to_str publicKeyOrHandle) (\<lambda>p.
         call (NinaClient_get (cats [JStr ''/hubs/'', p, JStr ''/subscriptions''])
                 Undefined withAccountData)))"

text \<open>Release module, lines 62 to 104.\<close>

definition Release_fetchCollectors :: "jsval \<Rightarrow> jsval \<Rightarrow> js" where
  "Release_fetchCollectors publicKey withCollection0 =
     (let withCollection = dflt withCollection0 (JBool False)
      in bnd (to_str publicKey) (\<lambda>p.
         call (NinaClient_get
                 (cats [JStr ''/releases/'', p, JStr ''/collectors'',
                        JStr (if truthy withCollection then ''?withCollection=true'' else [])])
                 Undefined Undefined)))"

definition Release_fetchHubs :: "jsval \<Rightarrow> jsval \<Rightarrow> js" where
  "Release_fetchHubs publicKey withAccountData0 =
     (let withAccountData = dflt withAccountData0 (JBool False)
      in bnd (to_str publicKey) (\<lambda>p.
         call (NinaClient_get (cats [JStr ''/releases/'', p, JStr ''/hubs''])
                 Undefined withAccountData)))"

definition Release_fetchExchanges :: "jsval \<Rightarrow> jsval \<Rightarrow> jsval \<Rightarrow> js" where
  "Release_fetchExchanges publicKey withAccountData0 pagination =
     (let withAccountData = dflt withAccountData0 (JBool False)
      in bnd (to_str publicKey) (\<lambda>p.
         call (NinaClient_get (cats [JStr ''/releases/'', p, JStr ''/exchanges''])
                 pagination withAccountData)))"

definition Release_fetchRevenueShareRecipients :: "jsval \<Rightarrow> jsval \<Rightarrow> js" where
  "Release_fetchRevenueShareRecipients publicKey withAccountData0 =
     (let withAccountData = dflt withAccountData0 (JBool False)
      in bnd (to_str publicKey) (\<lambda>p.
         call (NinaClient_get (cats [JStr ''/releases/'', p, JStr ''/revenueShareRecipients''])
                 Undefined withAccountData)))"

section \<open>Hub module: transactions\<close>

text \<open>
  \<open>hubInit(client, hubParams)\<close>, lines 133 to 209. \<open>hubParams\<close> is the caller's object, held
  at a heap address. The handler logs and falls off the end, so the result is \<open>undefined\<close>.
\<close>

definition hubInit_body :: "jsval \<Rightarrow> nat \<Rightarrow> js" where
  "hubInit_body client hubParams =
     bnd (prp client ''provider'') (\<lambda>provider.
     bnd (call (UseProgram client)) (\<lambda>program.
     bnd (nina [''ids'', ''mints'', ''usdc'']) (\<lambda>usdc.
     bnd (new_PublicKey usdc) (\<lambda>USDC_MINT.
     bnd (nina [''ids'', ''mints'', ''wsol'']) (\<lambda>wsol.
     bnd (new_PublicKey wsol) (\<lambda>WRAPPED_SOL_MINT.
     bnd (nina [''ids'', ''mints'', ''hubCredit'']) (\<lambda>hubCredit.
     bnd (new_PublicKey hubCredit) (\<lambda>HUB_CREDIT_MINT.
     bnd (heap_prp hubParams ''publishFee'') (\<lambda>publishFee.
     bnd (arith ''*'' publishFee (JNum 10000)) (\<lambda>publishFee1.
     bnd (new_BN publishFee1) (\<lambda>publishFeeBN.
     bnd (heap_setp hubParams ''publishFee'' publishFeeBN) (\<lambda>_.
     bnd (heap_prp hubParams ''referralFee'') (\<lambda>referralFee.
     bnd (arith ''*'' referralFee (JNum 10000)) (\<lambda>referralFee1.
     bnd (new_BN referralFee1) (\<lambda>referralFeeBN.
     bnd (heap_setp hubParams ''referralFee'' referralFeeBN) (\<lambda>_.
     bnd (findProgramAddress
            [utf8_buffer (JStr ''nina-hub''),
             bnd (heap_prp hubParams ''handle'') utf8_buffer]
            (prp program ''programId'')) (\<lambda>r1.
     bnd (el r1 0) (\<lambda>hub.
     bnd (findProgramAddress
            [utf8_buffer (JStr ''nina-hub-signer''), toBuffer hub]
            (prp program ''programId'')) (\<lambda>r2.
     bnd (el r2 0) (\<lambda>hubSigner.
     bnd (el r2 1) (\<lambda>hubSignerBump.
     bnd (heap_setp hubParams ''hubSignerBump'' hubSignerBump) (\<lambda>_.
     bnd (findProgramAddress
            [utf8_buffer (JStr ''nina-hub-collaborator''), toBuffer hub,
             bnd (wallet_publicKey provider) toBuffer]
            (prp program ''programId'')) (\<lambda>r3.
     bnd (el r3 0) (\<lambda>hubCollaborator.
     bnd (findOrCreateAssociatedTokenAccount provider (ret hubSigner) (ret USDC_MINT) []) (\<lambda>r4.
     bnd (el r4 1) (\<lambda>usdcVaultIx.
     bnd (findOrCreateAssociatedTokenAccount provider (ret hubSigner) (ret WRAPPED_SOL_MINT) []) (\<lambda>r5.
     bnd (el r5 1) (\<lambda>wrappedSolVaultIx.
     bnd (methods_transaction program ''hubInit'' [heap_obj hubParams]
            (obj [(''authority'', wallet_publicKey provider),
             (''hub'', ret hub),
             (''hubSigner'', ret hubSigner),
             (''hubCollaborator'', ret hubCollaborator),
             (''hubCreditMint'', ret HUB_CREDIT_MINT),
             (''systemProgram'', konst ''anchor.web3.SystemProgram.programId''),
             (''tokenProgram'', nina [''ids'', ''programs'', ''token'']),
             (''rent'', konst ''anchor.web3.SYSVAR_RENT_PUBKEY'')])
            (ret (JArr [usdcVaultIx, wrappedSolVaultIx])) (ret Undefined)) (\<lambda>tx.
     bnd (stamp provider tx) (\<lambda>tx.
     bnd (sendTransaction provider tx) (\<lambda>txid.
     bnd (getConfirmTransaction txid provider) (\<lambda>_.
     bnd (bnd (toBase58 hub) (\<lambda>h. Hub_fetch h Undefined)) (\<lambda>createdHub.
     ret createdHub)))))))))))))))))))))))))))))))))"

definition hubInit :: "jsval \<Rightarrow> nat \<Rightarrow> js" where
  "hubInit client hubParams =
     try_catch (hubInit_body client hubParams)
       (\<lambda>error. bnd (console ''warn'' [error]) (\<lambda>_. ret Undefined))"

text \<open>
  The fetch helpers that the transactions call: \<open>fetchHubCollaborator\<close> (lines 60 to 63,
  not exported) and \<open>fetchHubRelease\<close> (lines 95 to 101).
\<close>

definition Hub_fetchHubCollaborator :: "jsval \<Rightarrow> jsval \<Rightarrow> js" where
  "Hub_fetchHubCollaborator publicKeyOrHandle collaboratorPubkey =
     bnd (to_str publicKeyOrHandle) (\<lambda>p.
     bnd (to_str collaboratorPubkey) (\<lambda>c.
     call (NinaClient_get (cats [JStr ''/hubs/'', p, JStr ''/collaborators/'', c])
             Undefined Undefined)))"

definition Hub_fetchHubRelease :: "jsval \<Rightarrow> jsval \<Rightarrow> jsval \<Rightarrow> js" where
  "Hub_fetchHubRelease publicKeyOrHandle hubReleasePublicKey withAccountData0 =
     (let withAccountData = dflt withAccountData0 (JBool False)
      in bnd (to_str publicKeyOrHandle) (\<lambda>p.
         bnd (to_str hubReleasePublicKey) (\<lambda>h.
         call (NinaClient_get (cats [JStr ''/hubs/'', p, JStr ''/hubReleases/'', h])
                 Undefined withAccountData))))"

text \<open>\<open>hubUpdateConfig(client, hubPubkey, uri, publishFee, referralFee)\<close>, lines 222 to 248.\<close>

definition hubUpdateConfig_body :: "jsval \<Rightarrow> jsval \<Rightarrow> jsval \<Rightarrow> jsval \<Rightarrow> jsval \<Rightarrow> js" where
  "hubUpdateConfig_body client hubPubkey0 uri publishFee referralFee =
     bnd (prp client ''provider'') (\<lambda>provider.
     bnd (call (UseProgram client)) (\<lambda>program.
     bnd (Hub_fetch hubPubkey0 Undefined) (\<lambda>fetched.
     bnd (prp fetched ''hub'') (\<lambda>hub.
     bnd (new_PublicKey hubPubkey0) (\<lambda>hubPubkey.
     bnd (methods_transaction program ''hubUpdateConfig''
            [ret uri, prp hub ''handle'',
             bnd (arith ''*'' publishFee (JNum 10000)) new_BN,
             bnd (arith ''*'' referralFee (JNum 10000)) new_BN]
            (obj [(''authority'', wallet_publicKey provider),
             (''hub'', ret hubPubkey)])
            (ret Undefined) (ret Undefined)) (\<lambda>tx.
     bnd (stamp provider tx) (\<lambda>tx.
     bnd (sendTransaction provider tx) (\<lambda>txid.
     bnd (getConfirmTransaction txid provider) (\<lambda>_.
     bnd (process_env_get ''NINA_API_ENDPOINT'') (\<lambda>api.
     bnd (to_str api) (\<lambda>api.
     bnd (toBase58 hubPubkey) (\<lambda>h.
     bnd (to_str h) (\<lambda>h.
     bnd (to_str txid) (\<lambda>t.
     bnd (call (Axios_get (cats [api, JStr ''/hubs/'', h, JStr ''/tx/'', t]))) (\<lambda>_.
     bnd (bnd (toBase58 hubPubkey) (\<lambda>h. Hub_fetch h Undefined)) (\<lambda>updatedHub.
     ret updatedHub))))))))))))))))"

definition hubUpdateConfig :: "jsval \<Rightarrow> jsval \<Rightarrow> jsval \<Rightarrow> jsval \<Rightarrow> jsval \<Rightarrow> js" where
  "hubUpdateConfig client hubPubkey uri publishFee referralFee =
     try_catch (hubUpdateConfig_body client hubPubkey uri publishFee referralFee)
       (\<lambda>error. bnd (console ''log'' [error]) (\<lambda>_. ret (JBool False)))"

text \<open>
  \<open>hubAddCollaborator(client, hubPubkey, collaboratorPubkey, canAddContent,
  canAddCollaborator, allowance)\<close>, lines 262 to 317.
\<close>

definition hubAddCollaborator_body ::
    "jsval \<Rightarrow> jsval \<Rightarrow> jsval \<Rightarrow> jsval \<Rightarrow> jsval \<Rightarrow> jsval \<Rightarrow> js" where
  "hubAddCollaborator_body client hubPubkey0 collaboratorPubkey0 canAddContent
       canAddCollaborator allowance =
     bnd (prp client ''provider'') (\<lambda>provider.
     bnd (prp client ''endpoints'') (\<lambda>endpoints.
     bnd (call (UseProgram client)) (\<lambda>program.
     bnd (Hub_fetch hubPubkey0 Undefined) (\<lambda>fetched.
     bnd (prp fetched ''hub'') (\<lambda>hub.
     bnd (new_PublicKey hubPubkey0) (\<lambda>hubPubkey.
     bnd (new_PublicKey collaboratorPubkey0) (\<lambda>collaboratorPubkey.
     bnd (findProgramAddress
            [utf8_buffer (JStr ''nina-hub-collaborator''), toBuffer hubPubkey,
             toBuffer collaboratorPubkey]
            (prp program ''programId'')) (\<lambda>r1.
     bnd (el r1 0) (\<lambda>hubCollaborator.
     bnd (findProgramAddress
            [utf8_buffer (JStr ''nina-hub-collaborator''), toBuffer hubPubkey,
             bnd (wallet_publicKey provider) toBuffer]
            (prp program ''programId'')) (\<lambda>r2.
     bnd (el r2 0) (\<lambda>authorityHubCollaborator.
     bnd (methods_transaction program ''hubAddCollaborator''
            [ret canAddContent, ret canAddCollaborator, ret allowance, prp hub ''handle'']
            (obj [(''authority'', wallet_publicKey provider),
             (''authorityHubCollaborator'', ret authorityHubCollaborator),
             (''hub'', ret hubPubkey),
             (''hubCollaborator'', ret hubCollaborator),
             (''collaborator'', ret collaboratorPubkey),
             (''systemProgram'', konst ''anchor.web3.SystemProgram.programId''),
             (''rent'', konst ''anchor.web3.SYSVAR_RENT_PUBKEY'')])
            (ret Undefined) (ret Undefined)) (\<lambda>tx.
     bnd (stamp provider tx) (\<lambda>tx.
     bnd (sendTransaction provider tx) (\<lambda>txid.
     bnd (getConfirmTransaction txid provider) (\<lambda>_.
     bnd (prp endpoints ''api'') (\<lambda>api.
     bnd (to_str hubPubkey) (\<lambda>h.
     bnd (toBase58 hubCollaborator) (\<lambda>c.
     bnd (to_str c) (\<lambda>c.
     bnd (to_str api) (\<lambda>api.
     bnd (call (Axios_get (cats [api, JStr ''/hubs/'', h, JStr ''/collaborators/'', c]))) (\<lambda>_.
     bnd (bnd (prp hub ''handle'') (\<lambda>handle.
          bnd (toBase58 collaboratorPubkey) (\<lambda>c.
          Hub_fetchHubCollaborator handle c))) (\<lambda>collaborator.
     bnd (console ''log'' [JStr ''collaborator'', collaborator]) (\<lambda>_.
     ret collaborator)))))))))))))))))))))))"

definition hubAddCollaborator ::
    "jsval \<Rightarrow> jsval \<Rightarrow> jsval \<Rightarrow> jsval \<Rightarrow> jsval \<Rightarrow> jsval \<Rightarrow> js" where
  "hubAddCollaborator client hubPubkey collaboratorPubkey canAddContent canAddCollaborator
       allowance =
     try_catch (hubAddCollaborator_body client hubPubkey collaboratorPubkey canAddContent
                  canAddCollaborator allowance)
       (\<lambda>error. bnd (console ''log'' [error]) (\<lambda>_. ret (JBool False)))"

text \<open>\<open>hubUpdateCollaboratorPermission\<close>, lines 330 to 384.\<close>

definition hubUpdateCollaboratorPermission_body ::
    "jsval \<Rightarrow> jsval \<Rightarrow> jsval \<Rightarrow> jsval \<Rightarrow> jsval \<Rightarrow> jsval \<Rightarrow> js" where
  "hubUpdateCollaboratorPermission_body client hubPubkey0 collaboratorPubkey0 canAddContent
       canAddCollaborator allowance =
     bnd (prp client ''provider'') (\<lambda>provider.
     bnd (call (UseProgram client)) (\<lambda>program.
     bnd (Hub_fetch hubPubkey0 Undefined) (\<lambda>fetched.
     bnd (prp fetched ''hub'') (\<lambda>hub.
     bnd (new_PublicKey hubPubkey0) (\<lambda>hubPubkey.
     bnd (new_PublicKey collaboratorPubkey0) (\<lambda>collaboratorPubkey.
     bnd (findProgramAddress
            [utf8_buffer (JStr ''nina-hub-collaborator''), toBuffer hubPubkey,
             toBuffer collaboratorPubkey]
            (prp program ''programId'')) (\<lambda>r1.
     bnd (el r1 0) (\<lambda>hubCollaborator.
     bnd (findProgramAddress
            [utf8_buffer (JStr ''nina-hub-collaborator''), toBuffer hubPubkey,
             bnd (wallet_publicKey provider) toBuffer]
            (prp program ''programId'')) (\<lambda>r2.
     bnd (el r2 0) (\<lambda>authorityHubCollaborator.
     bnd (methods_transaction program ''hubUpdateCollaboratorPermissions''
            [ret canAddContent, ret canAddCollaborator, ret allowance, prp hub ''handle'']
            (obj [(''authority'', wallet_publicKey provider),
             (''authorityHubCollaborator'', ret authorityHubCollaborator),
             (''hub'', ret hubPubkey),
             (''hubCollaborator'', ret hubCollaborator),
             (''collaborator'', ret collaboratorPubkey)])
            (ret Undefined) (ret Undefined)) (\<lambda>tx.
     bnd (stamp provider tx) (\<lambda>tx.
     bnd (sendTransaction provider tx) (\<lambda>txid.
     bnd (getConfirmTransaction txid provider) (\<lambda>_.
     bnd (bnd (prp hub ''handle'') (\<lambda>handle.
          bnd (toBase58 collaboratorPubkey) (\<lambda>c.
          Hub_fetchHubCollaborator handle c))) (\<lambda>collaborator.
     bnd (console ''log'' [JStr ''collaborator'', collaborator]) (\<lambda>_.
     ret collaborator))))))))))))))))"

definition hubUpdateCollaboratorPermission ::
    "jsval \<Rightarrow> jsval \<Rightarrow> jsval \<Rightarrow> jsval \<Rightarrow> jsval \<Rightarrow> jsval \<Rightarrow> js" where
  "hubUpdateCollaboratorPermission client hubPubkey collaboratorPubkey canAddContent
       canAddCollaborator allowance =
     try_catch (hubUpdateCollaboratorPermission_body client hubPubkey collaboratorPubkey
                  canAddContent canAddCollaborator allowance)
       (\<lambda>error. bnd (console ''log'' [error]) (\<lambda>_. ret (JBool False)))"

text \<open>\<open>hubRemoveCollaborator(client, hubPubkey, collaboratorPubkey)\<close>, lines 395 to 435.\<close>

definition hubRemoveCollaborator_body :: "jsval \<Rightarrow> jsval \<Rightarrow> jsval \<Rightarrow> js" where
  "hubRemoveCollaborator_body client hubPubkey0 collaboratorPubkey0 =
     bnd (prp client ''provider'') (\<lambda>provider.
     bnd (prp client ''endpoints'') (\<lambda>endpoints.
     bnd (call (UseProgram client)) (\<lambda>program.
     bnd (Hub_fetch hubPubkey0 Undefined) (\<lambda>fetched.
     bnd (prp fetched ''hub'') (\<lambda>hub.
     bnd (new_PublicKey hubPubkey0) (\<lambda>hubPubkey.
     bnd (new_PublicKey collaboratorPubkey0) (\<lambda>collaboratorPubkey.
     bnd (findProgramAddress
            [utf8_buffer (JStr ''nina-hub-collaborator''), toBuffer hubPubkey,
             toBuffer collaboratorPubkey]
            (prp program ''programId'')) (\<lambda>r1.
     bnd (el r1 0) (\<lambda>hubCollaborator.
     bnd (methods_transaction program ''hubRemoveCollaborator''
            [prp hub ''handle'']
            (obj [(''authority'', wallet_publicKey provider),
             (''hub'', ret hubPubkey),
             (''hubCollaborator'', ret hubCollaborator),
             (''collaborator'', ret collaboratorPubkey),
             (''systemProgram'', konst ''anchor.web3.SystemProgram.programId'')])
            (ret Undefined) (ret Undefined)) (\<lambda>tx.
     bnd (stamp provider tx) (\<lambda>tx.
     bnd (sendTransaction provider tx) (\<lambda>txid.
     bnd (getConfirmTransaction txid provider) (\<lambda>_.
     bnd (prp endpoints ''api'') (\<lambda>api.
     bnd (to_str hubPubkey) (\<lambda>h.
     bnd (toBase58 hubCollaborator) (\<lambda>c.
     bnd (to_str c) (\<lambda>c.
     bnd (to_str api) (\<lambda>api.
     bnd (call (Axios_get (cats [api, JStr ''/hubs/'', h, JStr ''/collaborators/'', c]))) (\<lambda>_.
     bnd (bnd (prp hub ''handle'') (\<lambda>handle.
          bnd (toBase58 collaboratorPubkey) (\<lambda>c.
          Hub_fetchHubCollaborator handle c))) (\<lambda>collaborator.
     bnd (console ''log'' [JStr ''collaborator'', collaborator]) (\<lambda>_.
     ret collaborator)))))))))))))))))))))"

definition hubRemoveCollaborator :: "jsval \<Rightarrow> jsval \<Rightarrow> jsval \<Rightarrow> js" where
  "hubRemoveCollaborator client hubPubkey collaboratorPubkey =
     try_catch (hubRemoveCollaborator_body client hubPubkey collaboratorPubkey)
       (\<lambda>error. bnd (console ''log'' [error]) (\<lambda>_. ret (JBool False)))"

text \<open>
  \<open>hubContentToggleVisibility(client, hubPubkey, contentAccountPubkey, type)\<close>, lines 447 to
  495. The confirmation is one \<open>getParsedTransaction(txid, 'finalized')\<close>; the result is the
  derived address of the hub's child account.
\<close>

definition hubContentToggleVisibility_body :: "jsval \<Rightarrow> jsval \<Rightarrow> jsval \<Rightarrow> jsval \<Rightarrow> js" where
  "hubContentToggleVisibility_body client hubPubkey0 contentAccountPubkey0 type =
     bnd (prp client ''provider'') (\<lambda>provider.
     bnd (call (UseProgram client)) (\<lambda>program.
     bnd (Hub_fetch hubPubkey0 Undefined) (\<lambda>fetched.
     bnd (prp fetched ''hub'') (\<lambda>hub.
     bnd (new_PublicKey hubPubkey0) (\<lambda>hubPubkey.
     bnd (new_PublicKey contentAccountPubkey0) (\<lambda>contentAccountPubkey.
     bnd (findProgramAddress
            [utf8_buffer (JStr ''nina-hub-content''), toBuffer hubPubkey,
             toBuffer contentAccountPubkey]
            (prp program ''programId'')) (\<lambda>r1.
     bnd (el r1 0) (\<lambda>hubContent.
     bnd (findProgramAddress
            [bnd (meth type ''toLowerCase'' []) (\<lambda>lower.
             bnd (to_str lower) (\<lambda>lower.
             utf8_buffer (cats [JStr ''nina-hub-'', lower]))),
             toBuffer hubPubkey, toBuffer contentAccountPubkey]
            (prp program ''programId'')) (\<lambda>r2.
     bnd (el r2 0) (\<lambda>hubChildPublicKey.
     bnd (methods_transaction program ''hubContentToggleVisibility''
            [prp hub ''handle'']
            (obj [(''authority'', wallet_publicKey provider),
             (''hub'', ret hubPubkey),
             (''hubContent'', ret hubContent),
             (''contentAccount'', ret contentAccountPubkey),
             (''systemProgram'', konst ''anchor.web3.SystemProgram.programId'')])
            (ret Undefined) (ret Undefined)) (\<lambda>tx.
     bnd (stamp provider tx) (\<lambda>tx.
     bnd (sendTransaction provider tx) (\<lambda>txid.
     bnd (getParsedTransaction provider txid ''finalized'') (\<lambda>_.
     ret hubChildPublicKey))))))))))))))"

definition hubContentToggleVisibility :: "jsval \<Rightarrow> jsval \<Rightarrow> jsval \<Rightarrow> jsval \<Rightarrow> js" where
  "hubContentToggleVisibility client hubPubkey contentAccountPubkey type =
     try_catch (hubContentToggleVisibility_body client hubPubkey contentAccountPubkey type)
       (\<lambda>error. bnd (console ''log'' [error]) (\<lambda>_. ret (JBool False)))"

text \<open>
  \<open>hubAddRelease(client, hubPubkey, releasePubkey, fromHub)\<close>, lines 507 to 568. No
  \<open>request\<close> is declared in this function or in the module, so the branch taken for a
  truthy \<open>fromHub\<close> throws a ReferenceError.
\<close>

definition hubAddRelease_body :: "jsval \<Rightarrow> jsval \<Rightarrow> jsval \<Rightarrow> jsval \<Rightarrow> js" where
  "hubAddRelease_body client hubPubkey0 releasePubkey0 fromHub =
     bnd (prp client ''provider'') (\<lambda>provider.
     bnd (call (UseProgram client)) (\<lambda>program.
     bnd (Hub_fetch hubPubkey0 Undefined) (\<lambda>fetched.
     bnd (prp fetched ''hub'') (\<lambda>hub.
     bnd (new_PublicKey hubPubkey0) (\<lambda>hubPubkey.
     bnd (new_PublicKey releasePubkey0) (\<lambda>releasePubkey.
     bnd (findProgramAddress
            [utf8_buffer (JStr ''nina-hub-release''), toBuffer hubPubkey, toBuffer releasePubkey]
            (prp program ''programId'')) (\<lambda>r1.
     bnd (el r1 0) (\<lambda>hubRelease.
     bnd (findProgramAddress
            [utf8_buffer (JStr ''nina-hub-content''), toBuffer hubPubkey, toBuffer releasePubkey]
            (prp program ''programId'')) (\<lambda>r2.
     bnd (el r2 0) (\<lambda>hubContent.
     bnd (findProgramAddress
            [utf8_buffer (JStr ''nina-hub-collaborator''), toBuffer hubPubkey,
             bnd (wallet_publicKey provider) toBuffer]
            (prp program ''programId'')) (\<lambda>r3.
     bnd (el r3 0) (\<lambda>hubCollaborator.
     bnd (if truthy fromHub then thrw (ReferenceError ''request'') else ret Undefined) (\<lambda>_.
     bnd (methods_transaction program ''hubAddRelease''
            [prp hub ''handle'']
            (obj [(''authority'', wallet_publicKey provider),
             (''hub'', ret hubPubkey),
             (''hubRelease'', ret hubRelease),
             (''hubContent'', ret hubContent),
             (''hubCollaborator'', ret hubCollaborator),
             (''release'', ret releasePubkey),
             (''systemProgram'', konst ''anchor.web3.SystemProgram.programId''),
             (''rent'', konst ''anchor.web3.SYSVAR_RENT_PUBKEY'')])
            (ret Undefined) (ret Undefined)) (\<lambda>tx.
     bnd (stamp provider tx) (\<lambda>tx.
     bnd (sendTransaction provider tx) (\<lambda>txid.
     bnd (getConfirmTransaction txid provider) (\<lambda>_.
     bnd (bnd (toBase58 hubPubkey) (\<lambda>h.
          bnd (toBase58 hubRelease) (\<lambda>r.
          Hub_fetchHubRelease h r Undefined))) (\<lambda>hubReleaseData.
     ret hubReleaseData))))))))))))))))))"

definition hubAddRelease :: "jsval \<Rightarrow> jsval \<Rightarrow> jsval \<Rightarrow> jsval \<Rightarrow> js" where
  "hubAddRelease client hubPubkey releasePubkey fromHub =
     try_catch (hubAddRelease_body client hubPubkey releasePubkey fromHub)
       (\<lambda>error. bnd (console ''log'' [error]) (\<lambda>_. ret (JBool False)))"

text \<open>
  \<open>postInitViaHub(client, hubPubkey, slug, uri, referenceRelease, fromHub)\<close>, lines 583 to
  690. Here \<open>request\<close> is a local object. The result holds the derived \<open>hubPost\<close> address.
\<close>

definition postInitViaHub_body ::
    "jsval \<Rightarrow> jsval \<Rightarrow> jsval \<Rightarrow> jsval \<Rightarrow> jsval \<Rightarrow> jsval \<Rightarrow> js" where
  "postInitViaHub_body client hubPubkey0 slug uri referenceRelease0 fromHub = 
     bnd (prp client ''provider'') (\<lambda>provider.
     bnd (call (UseProgram client)) (\<lambda>program.
     bnd (Hub_fetch hubPubkey0 Undefined) (\<lambda>fetched.
     bnd (prp fetched ''hub'') (\<lambda>hub.
     bnd (new_PublicKey hubPubkey0) (\<lambda>hubPubkey.
     bnd (if truthy referenceRelease0 then new_PublicKey referenceRelease0
          else ret referenceRelease0) (\<lambda>referenceRelease.
     bnd (libc (Func ''MD5'' [slug])) (\<lambda>md5.
     bnd (meth md5 ''toString'' []) (\<lambda>md5str.
     bnd (meth md5str ''slice'' [JNum 0, JNum 32]) (\<lambda>slugHash.
     bnd (findProgramAddress
            [utf8_buffer (JStr ''nina-post''), toBuffer hubPubkey, utf8_buffer slugHash]
            (prp program ''programId'')) (\<lambda>r1.
     bnd (el r1 0) (\<lambda>post.
     bnd (findProgramAddress
            [utf8_buffer (JStr ''nina-hub-post''), toBuffer hubPubkey, toBuffer post]
            (prp program ''programId'')) (\<lambda>r2.
     bnd (el r2 0) (\<lambda>hubPost.
     bnd (findProgramAddress
            [utf8_buffer (JStr ''nina-hub-content''), toBuffer hubPubkey, toBuffer post]
            (prp program ''programId'')) (\<lambda>r3.
     bnd (el r3 0) (\<lambda>hubContent.
     bnd (findProgramAddress
            [utf8_buffer (JStr ''nina-hub-collaborator''), toBuffer hubPubkey,
             bnd (wallet_publicKey provider) toBuffer]
            (prp program ''programId'')) (\<lambda>r4.
     bnd (el r4 0) (\<lambda>hubCollaborator.
     bnd (prp hub ''handle'') (\<lambda>handle.
     bnd (obj [(''author'', wallet_publicKey provider),
               (''hub'', ret hubPubkey),
               (''post'', ret post),
               (''hubPost'', ret hubPost),
               (''hubContent'', ret hubContent),
               (''hubCollaborator'', ret hubCollaborator),
               (''systemProgram'', konst ''anchor.web3.SystemProgram.programId''),
               (''rent'', konst ''anchor.web3.SYSVAR_RENT_PUBKEY'')]) (\<lambda>accounts.
     bnd (if truthy fromHub then new_PublicKey fromHub else ret Undefined) (\<lambda>_.
     if truthy referenceRelease then 
       bnd (setp accounts ''referenceRelease'' referenceRelease) (\<lambda>accounts.
       bnd (findProgramAddress
              [utf8_buffer (JStr ''nina-hub-release''), toBuffer hubPubkey,
               toBuffer referenceRelease]
              (prp program ''programId'')) (\<lambda>r5.
       bnd (el r5 0) (\<lambda>referenceReleaseHubRelease.
       bnd (setp accounts ''referenceReleaseHubRelease'' referenceReleaseHubRelease) (\<lambda>accounts.
       bnd (findProgramAddress
              [utf8_buffer (JStr ''nina-hub-content''), toBuffer hubPubkey,
               toBuffer referenceRelease]
              (prp program ''programId'')) (\<lambda>r6.
       bnd (el r6 0) (\<lambda>referenceReleaseHubContent.
       bnd (setp accounts ''referenceReleaseHubContent'' referenceReleaseHubContent) (\<lambda>accounts.
       bnd (methods_transaction program ''postInitViaHubWithReferenceRelease''
              [ret handle, ret slugHash, ret uri] (ret accounts)
              (ret Undefined) (ret Undefined)) (\<lambda>tx.
       bnd (stamp provider tx) (\<lambda>tx.
       bnd (sendTransaction provider tx) (\<lambda>txid.
       bnd (getConfirmTransaction txid provider) (\<lambda>_.
       ret (JObj [(''hubPost'', hubPost),
                  (''referenceReleaseHubRelease'', referenceReleaseHubRelease)]))))))))))))
     else 
       bnd (methods_transaction program ''postInitViaHub''
              [ret handle, ret slugHash, ret uri] (ret accounts)
              (ret Undefined) (ret Undefined)) (\<lambda>tx.
       bnd (stamp provider tx) (\<lambda>tx.
       bnd (sendTransaction provider tx) (\<lambda>txid.
       bnd (getConfirmTransaction txid provider) (\<lambda>_.
       ret (JObj [(''hubPost'', hubPost),
                  (''referenceReleaseHubRelease'', Undefined)])))))))))))))))))))))))))"

definition postInitViaHub ::
    "jsval \<Rightarrow> jsval \<Rightarrow> jsval \<Rightarrow> jsval \<Rightarrow> jsval \<Rightarrow> jsval \<Rightarrow> js" where
  "postInitViaHub client hubPubkey slug uri referenceRelease fromHub = 
     try_catch (postInitViaHub_body client hubPubkey slug uri referenceRelease fromHub)
       (\<lambda>error. bnd (console ''log'' [error]) (\<lambda>_. ret (JBool False)))"

text \<open>
  \<open>postUpdateViaHub(client, hubPubkey, slug, uri)\<close>, lines 705 to 754. The function reads
  \<open>hub.handle\<close>, but no \<open>hub\<close> is declared in it or in the module: once the method
  \<open>program.methods.postUpdateViaHubPost\<close> has been looked up, the first argument throws a
  ReferenceError, and every call ends in the handler.
\<close>

definition postUpdateViaHub_body :: "jsval \<Rightarrow> jsval \<Rightarrow> jsval \<Rightarrow> jsval \<Rightarrow> js" where
  "postUpdateViaHub_body client hubPubkey0 slug uri = 
     bnd (prp client ''provider'') (\<lambda>provider.
     bnd (call (UseProgram client)) (\<lambda>program.
     bnd (new_PublicKey hubPubkey0) (\<lambda>hubPubkey.
     bnd (findProgramAddress
            [utf8_buffer (JStr ''nina-post''), toBuffer hubPubkey, utf8_buffer slug]
            (prp program ''programId'')) (\<lambda>r1.
     bnd (el r1 0) (\<lambda>post.
     bnd (findProgramAddress
            [utf8_buffer (JStr ''nina-hub-post''), toBuffer hubPubkey, toBuffer post]
            (prp program ''programId'')) (\<lambda>r2.
     bnd (el r2 0) (\<lambda>hubPost.
     bnd (findProgramAddress
            [utf8_buffer (JStr ''nina-hub-collaborator''), toBuffer hubPubkey,
             bnd (wallet_publicKey provider) toBuffer]
            (prp program ''programId'')) (\<lambda>r3.
     bnd (el r3 0) (\<lambda>hubCollaborator.
     bnd (pth program [''methods'', ''postUpdateViaHubPost'']) (\<lambda>_.
     thrw (ReferenceError ''hub'')))))))))))"

definition postUpdateViaHub :: "jsval \<Rightarrow> jsval \<Rightarrow> jsval \<Rightarrow> jsval \<Rightarrow> js" where
  "postUpdateViaHub client hubPubkey slug uri = 
     try_catch (postUpdateViaHub_body client hubPubkey slug uri)
       (\<lambda>error. bnd (console ''log'' [error]) (\<lambda>_. ret (JBool False)))"

text \<open>
  \<open>collectRoyaltyForReleaseViaHub(client, releasePubkey, hubPubkey, slug, uri)\<close>, lines 769
  to 824. \<open>release.royaltyRecipients.find(...)\<close> is the loop \<open>find_recipient\<close>.
\<close>

fun find_recipient :: "jsval \<Rightarrow> jsval list \<Rightarrow> js" where
  "find_recipient hub [] = ret Undefined"
| "find_recipient hub (recipient # rest) =
     bnd (bnd (prp recipient ''recipientAuthority'') toBase58) (\<lambda>a.
     bnd (bnd (prp hub ''hubSigner'') toBase58) (\<lambda>b.
     if strict_eq a b then ret recipient else find_recipient hub rest))"

definition royaltyRecipients_find :: "jsval \<Rightarrow> jsval \<Rightarrow> js" where
  "royaltyRecipients_find hub royaltyRecipients = 
     (case royaltyRecipients of JArr xs \<Rightarrow> find_recipient hub xs | _ \<Rightarrow> thrw TypeError)"

definition collectRoyaltyForReleaseViaHub_body ::
    "jsval \<Rightarrow> jsval \<Rightarrow> jsval \<Rightarrow> jsval \<Rightarrow> jsval \<Rightarrow> js" where
  "collectRoyaltyForReleaseViaHub_body client releasePubkey0 hubPubkey0 slug uri = 
     bnd (prp client ''provider'') (\<lambda>provider.
     bnd (call (UseProgram client)) (\<lambda>program.
     bnd (new_PublicKey releasePubkey0) (\<lambda>releasePubkey.
     bnd (new_PublicKey hubPubkey0) (\<lambda>hubPubkey.
     bnd (call (Account_fetch program ''hub'' hubPubkey)) (\<lambda>hub.
     bnd (call (Account_fetch program ''release'' releasePubkey)) (\<lambda>release.
     bnd (console ''log'' [JStr ''release'', release]) (\<lambda>_.
     bnd (Hub_fetch hubPubkey Undefined) (\<lambda>hubMetadata.
     bnd (bnd (prp release ''royaltyRecipients'') (royaltyRecipients_find hub)) (\<lambda>recipient.
     bnd (console ''log'' [JStr ''recipient'', recipient]) (\<lambda>_.
     bnd (findOrCreateAssociatedTokenAccount provider
            (bnd (prp hub ''hubSigner'') new_PublicKey)
            (prp release ''paymentMint'') []) (\<lambda>r1.
     bnd (el r1 0) (\<lambda>hubWallet.
     bnd (findProgramAddress
            [utf8_buffer (JStr ''nina-hub-release''), toBuffer hubPubkey, toBuffer releasePubkey]
            (prp program ''programId'')) (\<lambda>r2.
     bnd (el r2 0) (\<lambda>hubRelease.
     bnd (pth hubMetadata [''hub'', ''handle'']) (\<lambda>handle.
     bnd (console ''log'' [JStr ''hub'', handle]) (\<lambda>_.
     bnd (methods_transaction program ''releaseRevenueShareCollectViaHub''
            [pth hubMetadata [''hub'', ''handle'']]
            (obj [(''authority'', wallet_publicKey provider),
                  (''royaltyTokenAccount'', prp release ''royaltyTokenAccount''),
                  (''release'', ret releasePubkey),
                  (''releaseSigner'', prp release ''releaseSigner''),
                  (''releaseMint'', prp release ''releaseMint''),
                  (''hub'', ret hubPubkey),
                  (''hubRelease'', ret hubRelease),
                  (''hubSigner'', prp hub ''hubSigner''),
                  (''hubWallet'', ret hubWallet),
                  (''tokenProgram'', nina [''ids'', ''programs'', ''token''])])
            (ret Undefined) (ret Undefined)) (\<lambda>tx.
     bnd (stamp provider tx) (\<lambda>tx.
     bnd (sendTransaction provider tx) (\<lambda>txid.
     bnd (getConfirmTransaction txid provider) (\<lambda>_.
     bnd (prp release ''paymentMint'') (\<lambda>paymentMint.
     bnd (console ''log'' [JStr ''hubRelease, recipient, paymentMint'',
                           hubRelease, recipient, paymentMint]) (\<lambda>_.
     ret (JObj [(''hubRelease'', hubRelease), (''recipient'', recipient),
                (''paymentMint'', paymentMint)])))))))))))))))))))))))"

definition collectRoyaltyForReleaseViaHub ::
    "jsval \<Rightarrow> jsval \<Rightarrow> jsval \<Rightarrow> jsval \<Rightarrow> jsval \<Rightarrow> js" where
  "collectRoyaltyForReleaseViaHub client releasePubkey hubPubkey slug uri = 
     try_catch (collectRoyaltyForReleaseViaHub_body client releasePubkey hubPubkey slug uri)
       (\<lambda>error. bnd (console ''log'' [error]) (\<lambda>_. ret (JBool False)))"

text \<open>\<open>hubWithdraw(client, hubPubkey)\<close>, lines 839 to 898. The result is \<open>true\<close>.\<close>

definition hubWithdraw_body :: "jsval \<Rightarrow> jsval \<Rightarrow> js" where
  "hubWithdraw_body client hubPubkey0 = 
     bnd (prp client ''provider'') (\<lambda>provider.
     bnd (call (UseProgram client)) (\<lambda>program.
     bnd (Hub_fetch hubPubkey0 Undefined) (\<lambda>fetched.
     bnd (prp fetched ''hub'') (\<lambda>hub.
     bnd (new_PublicKey hubPubkey0) (\<lambda>hubPubkey.
     bnd (bnd (nina [''ids'', ''mints'', ''usdc'']) new_PublicKey) (\<lambda>USDC_MINT.
     bnd (findProgramAddress
            [utf8_buffer (JStr ''nina-hub-signer''), toBuffer hubPubkey]
            (prp program ''programId'')) (\<lambda>r1.
     bnd (el r1 0) (\<lambda>hubSigner.
     bnd (findOrCreateAssociatedTokenAccount provider (ret hubSigner) (ret USDC_MINT) []) (\<lambda>r2.
     bnd (el r2 0) (\<lambda>withdrawTarget.
     bnd (findOrCreateAssociatedTokenAccount provider (wallet_publicKey provider)
            (ret USDC_MINT) []) (\<lambda>r3.
     bnd (el r3 0) (\<lambda>withdrawDestination.
     bnd (bnd (connection provider) (\<lambda>conn.
          call (GetParsedTokenAccountsByOwner conn hubSigner
                  (JObj [(''mint'', USDC_MINT)])))) (\<lambda>tokenAccounts.
     bnd (prp tokenAccounts ''value'') (\<lambda>val.
     bnd (lift (js_index val 0)) (\<lambda>first.
     bnd (pth first [''account'', ''data'', ''parsed'', ''info'', ''tokenAmount'', ''amount''])
       (\<lambda>withdrawAmount.
     bnd (methods_transaction program ''hubWithdraw''
            [new_BN withdrawAmount, prp hub ''handle'']
            (obj [(''authority'', wallet_publicKey provider),
                  (''hub'', ret hubPubkey),
                  (''hubSigner'', ret hubSigner),
                  (''withdrawTarget'', ret withdrawTarget),
                  (''withdrawDestination'', ret withdrawDestination),
                  (''withdrawMint'', ret USDC_MINT),
                  (''tokenProgram'', nina [''ids'', ''programs'', ''token''])])
            (ret Undefined) (ret Undefined)) (\<lambda>tx.
     bnd (stamp provider tx) (\<lambda>tx.
     bnd (sendTransaction provider tx) (\<lambda>txid.
     bnd (getConfirmTransaction txid provider) (\<lambda>_.
     ret (JBool True)))))))))))))))))))))"

definition hubWithdraw :: "jsval \<Rightarrow> jsval \<Rightarrow> js" where
  "hubWithdraw client hubPubkey = 
     try_catch (hubWithdraw_body client hubPubkey)
       (\<lambda>error. bnd (console ''log'' [error]) (\<lambda>_. ret (JBool False)))"

section \<open>Exchange module: transactions\<close>

text \<open>
  \<open>exchangeInit(client, amount, isSelling, releasePublicKey)\<close>, lines 971 to 1102 of the
  unnamed part. \<open>wrapSol\<close> is neither imported nor declared in the module, so the branch
  that calls it throws a ReferenceError. The confirmation is one
  \<open>getParsedTransaction(txid, 'confirmed')\<close>.
\<close>

definition exchangeInit_body :: "jsval \<Rightarrow> jsval \<Rightarrow> jsval \<Rightarrow> jsval \<Rightarrow> js" where
  "exchangeInit_body client amount isSelling releasePublicKey = 
     bnd (prp client ''provider'') (\<lambda>provider.
     bnd (call (UseProgram client)) (\<lambda>program.
     bnd (new_PublicKey releasePublicKey) (\<lambda>release.
     bnd (call (Account_fetch program ''release'' release)) (\<lambda>releaseAccount.
     bnd (prp releaseAccount ''releaseMint'') (\<lambda>releaseMint.
     bnd (if truthy isSelling
          then bnd (new_BN amount) (\<lambda>expectedAmount.
               bnd (new_BN (JNum 1)) (\<lambda>initializerAmount.
               bnd (prp releaseAccount ''paymentMint'') (\<lambda>initializerExpectedMint.
               ret (JArr [expectedAmount, releaseMint, initializerAmount,
                          initializerExpectedMint]))))
          else bnd (new_BN (JNum 1)) (\<lambda>expectedAmount.
               bnd (prp releaseAccount ''paymentMint'') (\<lambda>initializerSendingMint.
               bnd (new_BN amount) (\<lambda>initializerAmount.
               ret (JArr [expectedAmount, initializerSendingMint, initializerAmount,
                          releaseMint]))))) (\<lambda>chosen.
     bnd (el chosen 0) (\<lambda>expectedAmount.
     bnd (el chosen 1) (\<lambda>initializerSendingMint.
     bnd (el chosen 2) (\<lambda>initializerAmount.
     bnd (el chosen 3) (\<lambda>initializerExpectedMint.
     bnd (call Keypair_generate) (\<lambda>exchange.
     bnd (findProgramAddress [bnd (prp exchange ''publicKey'') toBuffer]
            (prp program ''programId'')) (\<lambda>r1.
     bnd (el r1 0) (\<lambda>exchangeSigner.
     bnd (el r1 1) (\<lambda>bump.
     bnd (findOrCreateAssociatedTokenAccount provider (wallet_publicKey provider)
            (ret initializerSendingMint) []) (\<lambda>r2.
     bnd (el r2 0) (\<lambda>initializerSendingTokenAccount.
     bnd (el r2 1) (\<lambda>initializerSendingTokenAccountIx.
     bnd (findOrCreateAssociatedTokenAccount provider (ret exchangeSigner)
            (ret initializerSendingMint) []) (\<lambda>r3.
     bnd (el r3 0) (\<lambda>exchangeEscrowTokenAccount.
     bnd (el r3 1) (\<lambda>exchangeEscrowTokenAccountIx.
     bnd (findOrCreateAssociatedTokenAccount provider (wallet_publicKey provider)
            (ret initializerExpectedMint) []) (\<lambda>r4.
     bnd (el r4 0) (\<lambda>initializerExpectedTokenAccount.
     bnd (el r4 1) (\<lambda>initializerExpectedTokenAccountIx.
     bnd (call (Account_createInstruction program ''exchange'' exchange)) (\<lambda>exchangeCreateIx.
     bnd (obj [(''initializer'', wallet_publicKey provider),
               (''releaseMint'', ret releaseMint),
               (''initializerExpectedTokenAccount'', ret initializerExpectedTokenAccount),
               (''initializerSendingTokenAccount'', ret initializerSendingTokenAccount),
               (''initializerExpectedMint'', ret initializerExpectedMint),
               (''initializerSendingMint'', ret initializerSendingMint),
               (''exchangeEscrowTokenAccount'', ret exchangeEscrowTokenAccount),
               (''exchangeSigner'', ret exchangeSigner),
               (''exchange'', prp exchange ''publicKey''),
               (''release'', ret release),
               (''systemProgram'', konst ''anchor.web3.SystemProgram.programId''),
               (''tokenProgram'', konst ''TOKEN_PROGRAM_ID''),
               (''rent'', konst ''anchor.web3.SYSVAR_RENT_PUBKEY'')]) (\<lambda>accounts.
     bnd (ret (JArr ([exchangeCreateIx, exchangeEscrowTokenAccountIx]
                 @ (if truthy initializerExpectedTokenAccountIx
                    then [initializerExpectedTokenAccountIx] else [])
                 @ (if truthy initializerSendingTokenAccountIx
                    then [initializerSendingTokenAccountIx] else [])))) (\<lambda>instructions.
     bnd (bnd (prp releaseAccount ''paymentMint'') (\<lambda>paymentMint.
          meth client ''isSol'' [paymentMint])) (\<lambda>isSol.
     bnd (if truthy isSol \<and> \<not> truthy isSelling
          then thrw (ReferenceError ''wrapSol'') else ret Undefined) (\<lambda>_.
     bnd (ret (JObj [(''expectedAmount'', expectedAmount),
                     (''initializerAmount'', initializerAmount),
                     (''isSelling'', isSelling)])) (\<lambda>config.
     bnd (methods_transaction program ''exchangeInit'' [ret config, ret bump]
            (ret accounts) (ret instructions) (ret (JArr [exchange]))) (\<lambda>tx.
     bnd (stamp provider tx) (\<lambda>tx.
     bnd (call (PartialSign tx exchange)) (\<lambda>_.
     bnd (sendTransaction provider tx) (\<lambda>txid.
     bnd (getParsedTransaction provider txid ''confirmed'') (\<lambda>_.
     bnd (prp exchange ''publicKey'') (\<lambda>publicKey.
     ret (JObj [(''txid'', txid), (''releaseAccount'', releaseAccount),
                (''publicKey'', publicKey), (''releaseMint'', releaseMint)]))))))))))))))))))))))))))))))))))))"

definition exchangeInit :: "jsval \<Rightarrow> jsval \<Rightarrow> jsval \<Rightarrow> jsval \<Rightarrow> js" where
  "exchangeInit client amount isSelling releasePublicKey =
     try_catch (exchangeInit_body client amount isSelling releasePublicKey)
       (\<lambda>err. bnd (console ''error'' [err]) (\<lambda>_. ret (JBool False)))"

text \<open>
  \<open>exchangeAccept(client, exchange, releasePublicKey)\<close>, lines 1112 to 1219. The result is
  the transaction id.
\<close>

definition exchangeAccept_body :: "jsval \<Rightarrow> jsval \<Rightarrow> jsval \<Rightarrow> js" where
  "exchangeAccept_body client exchange releasePublicKey = 
     bnd (prp client ''provider'') (\<lambda>provider.
     bnd (call (UseProgram client)) (\<lambda>program.
     bnd (bnd (nina [''ids'', ''accounts'', ''vault'']) new_PublicKey) (\<lambda>VAULT_ID.
     bnd (new_PublicKey releasePublicKey) (\<lambda>releaseKey.
     bnd (call (Account_fetch program ''release'' releaseKey)) (\<lambda>release.
     bnd (bnd (prp exchange ''publicKey'') new_PublicKey) (\<lambda>exchangePubkey.
     bnd (call (Account_fetch program ''exchange'' exchangePubkey)) (\<lambda>exchangeAccount.
     bnd (findOrCreateAssociatedTokenAccount provider (wallet_publicKey provider)
            (prp exchangeAccount ''initializerExpectedMint'') []) (\<lambda>r1.
     bnd (el r1 0) (\<lambda>takerSendingTokenAccount.
     bnd (el r1 1) (\<lambda>takerSendingTokenAccountIx.
     bnd (findOrCreateAssociatedTokenAccount provider (wallet_publicKey provider)
            (prp exchangeAccount ''initializerSendingMint'') []) (\<lambda>r2.
     bnd (el r2 0) (\<lambda>takerExpectedTokenAccount.
     bnd (el r2 1) (\<lambda>takerExpectedTokenAccountIx.
     bnd (findOrCreateAssociatedTokenAccount provider (prp exchangeAccount ''initializer'')
            (prp exchangeAccount ''initializerExpectedMint'') []) (\<lambda>r3.
     bnd (el r3 0) (\<lambda>initializerExpectedTokenAccount.
     bnd (el r3 1) (\<lambda>initializerExpectedTokenAccountIx.
     bnd (call Keypair_generate) (\<lambda>exchangeHistory.
     bnd (call (Account_createInstruction program ''exchangeHistory'' exchangeHistory))
       (\<lambda>createExchangeHistoryIx.
     bnd (obj [(''initializer'', prp exchangeAccount ''initializer''),
               (''initializerExpectedTokenAccount'', ret initializerExpectedTokenAccount),
               (''takerExpectedTokenAccount'', ret takerExpectedTokenAccount),
               (''takerSendingTokenAccount'', ret takerSendingTokenAccount),
               (''exchangeEscrowTokenAccount'', prp exchangeAccount ''exchangeEscrowTokenAccount''),
               (''exchangeSigner'', prp exchangeAccount ''exchangeSigner''),
               (''taker'', wallet_publicKey provider),
               (''exchange'', bnd (prp exchange ''publicKey'') new_PublicKey),
               (''exchangeHistory'', prp exchangeHistory ''publicKey''),
               (''release'', new_PublicKey releasePublicKey),
               (''royaltyTokenAccount'', prp release ''royaltyTokenAccount''),
               (''tokenProgram'', konst ''TOKEN_PROGRAM_ID''),
               (''systemProgram'', konst ''anchor.web3.SystemProgram.programId''),
               (''rent'', konst ''anchor.web3.SYSVAR_RENT_PUBKEY'')]) (\<lambda>accounts.
     bnd (ret (JArr ([createExchangeHistoryIx]
                 @ (if truthy takerSendingTokenAccountIx
                    then [takerSendingTokenAccountIx] else [])
                 @ (if truthy takerExpectedTokenAccountIx
                    then [takerExpectedTokenAccountIx] else [])
                 @ (if truthy initializerExpectedTokenAccountIx
                    then [initializerExpectedTokenAccountIx] else [])))) (\<lambda>instructions.
     bnd (bnd (prp release ''paymentMint'') (\<lambda>paymentMint.
          meth client ''isSol'' [paymentMint])) (\<lambda>isSol.
     bnd (if truthy isSol then prp exchange ''isSelling'' else ret isSol) (\<lambda>wrap.
     bnd (if truthy wrap then thrw (ReferenceError ''wrapSol'') else ret Undefined) (\<lambda>_.
     bnd (obj [(''expectedAmount'', prp exchangeAccount ''expectedAmount''),
               (''initializerAmount'', prp exchangeAccount ''initializerAmount''),
               (''resalePercentage'', prp release ''resalePercentage''),
               (''datetime'', bnd (call Date_now) (\<lambda>now.
                              bnd (arith ''/'' now (JNum 1000)) new_BN))]) (\<lambda>params.
     bnd (methods_transaction program ''exchangeAccept'' [ret params]
            (ret accounts) (ret instructions) (ret (JArr [exchangeHistory]))) (\<lambda>tx.
     bnd (stamp provider tx) (\<lambda>tx.
     bnd (console ''log'' [JStr ''tx'', tx]) (\<lambda>_.
     bnd (call (PartialSign tx exchangeHistory)) (\<lambda>_.
     bnd (sendTransaction provider tx) (\<lambda>txid.
     bnd (getParsedTransaction provider txid ''finalized'') (\<lambda>_.
     ret txid))))))))))))))))))))))))))))))"

definition exchangeAccept :: "jsval \<Rightarrow> jsval \<Rightarrow> jsval \<Rightarrow> js" where
  "exchangeAccept client exchange releasePublicKey =
     try_catch (exchangeAccept_body client exchange releasePublicKey)
       (\<lambda>err. bnd (console ''error'' [err]) (\<lambda>_. ret (JBool False)))"

text \<open>
  \<open>exchangeCancel(client, exchange, releasePublicKey)\<close>, lines 1229 to 1282. The function
  has no \<open>try\<close>: whatever a step throws is the outcome of the call.
\<close>

definition exchangeCancel :: "jsval \<Rightarrow> jsval \<Rightarrow> jsval \<Rightarrow> js" where
  "exchangeCancel client exchange0 releasePublicKey = 
     bnd (bnd (prp exchange0 ''publicKey'') new_PublicKey) (\<lambda>exchangePubkey.
     bnd (prp client ''provider'') (\<lambda>provider.
     bnd (call (UseProgram client)) (\<lambda>program.
     bnd (call (Account_fetch program ''exchange'' exchangePubkey)) (\<lambda>exchange.
     bnd (findOrCreateAssociatedTokenAccount provider (wallet_publicKey provider)
            (prp exchange ''initializerSendingMint'') []) (\<lambda>r1.
     bnd (el r1 0) (\<lambda>initializerReturnTokenAccount.
     bnd (el r1 1) (\<lambda>initializerReturnTokenAccountIx.
     bnd (obj [(''initializer'', wallet_publicKey provider),
               (''initializerSendingTokenAccount'', ret initializerReturnTokenAccount),
               (''exchangeEscrowTokenAccount'', prp exchange ''exchangeEscrowTokenAccount''),
               (''exchangeSigner'', prp exchange ''exchangeSigner''),
               (''exchange'', ret exchangePubkey),
               (''tokenProgram'', konst ''TOKEN_PROGRAM_ID'')]) (\<lambda>accounts.
     bnd (ret (if truthy initializerReturnTokenAccountIx
               then JArr [initializerReturnTokenAccountIx] else JArr [])) (\<lambda>instructions.
     bnd (bnd (prp exchange ''isSelling'') (\<lambda>isSelling.
          bnd (if truthy isSelling then ret (JNum 1)
               else bnd (prp exchange ''initializerAmount'') (\<lambda>a. meth a ''toNumber'' []))
            new_BN)) (\<lambda>params.
     bnd (bnd (prp exchange ''initializerSendingMint'') (\<lambda>mint.
          meth client ''isSol'' [mint])) (\<lambda>isSol.
     bnd (if truthy isSol
          then methods_transaction program ''exchangeCancelSol'' [ret params]
                 (ret accounts) (ret instructions) (ret (JArr []))
          else methods_transaction program ''exchangeCancel'' [ret params]
                 (ret accounts) (ret instructions) (ret (JArr []))) (\<lambda>tx.
     bnd (stamp provider tx) (\<lambda>tx.
     bnd (sendTransaction provider tx) (\<lambda>txid.
     bnd (getParsedTransaction provider txid ''confirmed'') (\<lambda>_.
     ret (JObj [(''exchangePubkey'', exchangePubkey), (''txid'', txid)]))))))))))))))))"

section \<open>Release module: transactions\<close>

definition MAX_INT :: string where
  "MAX_INT = ''18446744073709551615''"

text \<open>
  The loops of \<open>purchaseViaHub\<close>: \<open>ixs.reduce((count, ix) => (count += ix.keys.length), 0)\<close>
  and the \<open>for await\<close> over the quoted routes, which keeps the instructions of the
  swap transaction with the fewest account keys.
\<close>

fun count_keys :: "jsval \<Rightarrow> jsval list \<Rightarrow> js" where
  "count_keys count [] = ret count"
| "count_keys count (ix # ixs) =
     bnd (pth ix [''keys'', ''length'']) (\<lambda>n.
     bnd (arith ''+'' count n) (\<lambda>count1.
     count_keys count1 ixs))"

definition account_count :: "jsval \<Rightarrow> js" where
  "account_count instructions =
     (case instructions of
        JArr ixs \<Rightarrow> count_keys (JNum 0) ixs
      | _ \<Rightarrow> thrw TypeError)"

definition swap_instructions :: "jsval \<Rightarrow> js" where
  "swap_instructions transactions =
     bnd (pth transactions [''data'', ''swapTransaction'']) (\<lambda>swapTransaction.
     bnd (libc (Func ''Buffer.from'' [swapTransaction, JStr ''base64''])) (\<lambda>buf.
     bnd (libc (Func ''anchor.web3.Transaction.from'' [buf])) (\<lambda>tx.
     prp tx ''instructions'')))"

fun swap_routes :: "jsval \<Rightarrow> jsval \<Rightarrow> jsval list \<Rightarrow> js" where
  "swap_routes provider transactionInstructions [] = ret transactionInstructions"
| "swap_routes provider transactionInstructions (d # ds) =
     bnd (bnd (wallet_publicKey provider) toBase58) (\<lambda>userPublicKey.
     bnd (call (Axios_post (JStr ''https://quote-api.jup.ag/v1/swap'')
                  (JObj [(''route'', d), (''userPublicKey'', userPublicKey)]))) (\<lambda>transactions.
     if \<not> truthy transactionInstructions then
       bnd (swap_instructions transactions) (\<lambda>ixs. swap_routes provider ixs ds)
     else
       bnd (swap_instructions transactions) (\<lambda>ixs.
       bnd (account_count ixs) (\<lambda>accountCount.
       bnd (account_count transactionInstructions) (\<lambda>current.
       bnd (arith ''<'' accountCount current) (\<lambda>fewer.
       if truthy fewer then swap_routes provider ixs ds
       else swap_routes provider transactionInstructions ds))))))"

text \<open>
  \<open>purchaseViaHub(client, releasePublicKey, hubPublicKey)\<close>, lines 116 to 254. No
  \<open>request\<close> is declared, so \<open>request.instructions = instructions\<close> throws a ReferenceError
  whenever an instruction has been collected. The handler returns \<open>{error}\<close>.
\<close>

definition purchaseViaHub_body :: "jsval \<Rightarrow> jsval \<Rightarrow> jsval \<Rightarrow> js" where
  "purchaseViaHub_body client releasePublicKey0 hubPublicKey0 = 
     bnd (prp client ''provider'') (\<lambda>provider.
     bnd (prp client ''endpoints'') (\<lambda>endpoints.
     bnd (call (UseProgram client)) (\<lambda>program.
     bnd (new_PublicKey releasePublicKey0) (\<lambda>releasePublicKey.
     bnd (new_PublicKey hubPublicKey0) (\<lambda>hubPublicKey.
     bnd (call (Account_fetch program ''release'' releasePublicKey)) (\<lambda>release.
     bnd (findOrCreateAssociatedTokenAccount provider (wallet_publicKey provider)
            (prp release ''paymentMint'') []) (\<lambda>r1.
     bnd (el r1 0) (\<lambda>payerTokenAccount.
     bnd (findOrCreateAssociatedTokenAccount provider (wallet_publicKey provider)
            (prp release ''releaseMint'') []) (\<lambda>r2.
     bnd (el r2 0) (\<lambda>receiverReleaseTokenAccount.
     bnd (el r2 1) (\<lambda>receiverReleaseTokenAccountIx.
     bnd (call (Account_fetch program ''hub'' hubPublicKey)) (\<lambda>hub.
     bnd (findProgramAddress
            [utf8_buffer (JStr ''nina-hub-release''), toBuffer hubPublicKey,
             toBuffer releasePublicKey]
            (prp program ''programId'')) (\<lambda>r3.
     bnd (el r3 0) (\<lambda>hubRelease.
     bnd (findProgramAddress
            [utf8_buffer (JStr ''nina-hub-content''), toBuffer hubPublicKey,
             toBuffer releasePublicKey]
            (prp program ''programId'')) (\<lambda>r4.
     bnd (el r4 0) (\<lambda>hubContent.
     bnd (findProgramAddress
            [utf8_buffer (JStr ''nina-hub-signer''), toBuffer hubPublicKey]
            (prp program ''programId'')) (\<lambda>r5.
     bnd (el r5 0) (\<lambda>hubSigner.
     bnd (findOrCreateAssociatedTokenAccount provider (ret hubSigner)
            (prp release ''paymentMint'') []) (\<lambda>r6.
     bnd (el r6 0) (\<lambda>hubWallet.
     bnd (call (Axios_get (JStr ''https://price.jup.ag/v1/price?id=SOL''))) (\<lambda>solPrice.
     bnd (bnd (prp release ''price'') (\<lambda>price. meth price ''toNumber'' [])) (\<lambda>priceNumber.
     bnd (libc (Func ''Math.pow'' [JNum 10, JNum 6])) (\<lambda>million.
     bnd (arith ''/'' priceNumber million) (\<lambda>releasePriceUi.
     bnd (bnd (prp hub ''referralFee'') (\<lambda>fee. meth fee ''toNumber'' [])) (\<lambda>referralFee.
     bnd (arith ''*'' releasePriceUi referralFee) (\<lambda>product.
     bnd (arith ''/'' product (JNum 1000000)) (\<lambda>share.
     bnd (arith ''+'' releasePriceUi share) (\<lambda>convertAmount.
     bnd (bnd (wallet_publicKey provider) (\<lambda>pk.
          bnd (connection provider) (\<lambda>conn.
          call (GetUsdcBalance pk conn)))) (\<lambda>usdcBalance.
     bnd (arith ''<'' usdcBalance convertAmount) (\<lambda>short.
     bnd (if truthy short then 
            bnd (libc (Func ''anchor.web3.ComputeBudgetProgram.requestUnits''
                         [JObj [(''units'', JNum 400000), (''additionalFee'', JNum 0)]]))
              (\<lambda>additionalComputeBudgetInstruction.
            bnd (arith ''-'' convertAmount usdcBalance) (\<lambda>convertAmount.
            bnd (arith ''*'' convertAmount (JNum (1 / 100))) (\<lambda>onePercent.
            bnd (arith ''+'' convertAmount onePercent) (\<lambda>padded.
            bnd (pth solPrice [''data'', ''data'', ''price'']) (\<lambda>price.
            bnd (arith ''/'' padded price) (\<lambda>inSol.
            bnd (libc (Func ''Math.pow'' [JNum 10, JNum 9])) (\<lambda>billion.
            bnd (arith ''*'' inSol billion) (\<lambda>lamports.
            bnd (libc (Func ''Math.round'' [lamports])) (\<lambda>amt.
            bnd (to_str amt) (\<lambda>amtText.
            bnd (call (Axios_get (cats
                   [JStr ''https://quote-api.jup.ag/v1/quote?inputMint=So11111111111111111111111111111111111111112&outputMint=EPjFWdd5AufqSSqeM2qN1xzybapC8G4wEGGkZwyTDt1v&amount='',
                    amtText, JStr ''&slippage=0.5&onlyDirectRoutes=true'']))) (\<lambda>quote.
            bnd (prp quote ''data'') (\<lambda>data.
            bnd (bnd (prp data ''data'') (\<lambda>routes. lift (spread routes))) (\<lambda>routes.
            bnd (case routes of JArr ds \<Rightarrow> swap_routes provider Undefined ds
                 | _ \<Rightarrow> thrw TypeError) (\<lambda>transactionInstructions.
            bnd (lift (spread transactionInstructions)) (\<lambda>swap.
            ret (JArr (additionalComputeBudgetInstruction
                       # (case swap of JArr ixs \<Rightarrow> ixs | _ \<Rightarrow> []))))))))))))))))))
          else ret (JArr [])) (\<lambda>collected.
     bnd (ret (case collected of
                 JArr ixs \<Rightarrow> JArr (ixs @ (if truthy receiverReleaseTokenAccountIx
                                           then [receiverReleaseTokenAccountIx] else []))
               | _ \<Rightarrow> collected)) (\<lambda>instructions.
     bnd (if instructions \<noteq> JArr [] then thrw (ReferenceError ''request'')
          else ret Undefined) (\<lambda>_.
     bnd (methods_transaction program ''releasePurchaseViaHub''
            [prp release ''price'',
             bnd (prp hub ''handle'') (\<lambda>handle.
             libc (Func ''decodeNonEncryptedByteArray'' [handle]))]
            (obj [(''payer'', wallet_publicKey provider),
                  (''receiver'', wallet_publicKey provider),
                  (''release'', ret releasePublicKey),
                  (''releaseSigner'', prp release ''releaseSigner''),
                  (''payerTokenAccount'', ret payerTokenAccount),
                  (''receiverReleaseTokenAccount'', ret receiverReleaseTokenAccount),
                  (''royaltyTokenAccount'', prp release ''royaltyTokenAccount''),
                  (''releaseMint'', prp release ''releaseMint''),
                  (''hub'', ret hubPublicKey),
                  (''hubRelease'', ret hubRelease),
                  (''hubContent'', ret hubContent),
                  (''hubSigner'', ret hubSigner),
                  (''hubWallet'', ret hubWallet),
                  (''tokenProgram'', konst ''anchor.utils.token.TOKEN_PROGRAM_ID'')])
            (ret instructions) (ret Undefined)) (\<lambda>tx.
     bnd (stamp provider tx) (\<lambda>tx.
     bnd (sendTransaction provider tx) (\<lambda>txid.
     bnd (getConfirmTransaction txid provider) (\<lambda>_.
     bnd (prp endpoints ''api'') (\<lambda>api.
     bnd (to_str api) (\<lambda>api.
     bnd (bnd (wallet_publicKey provider) toBase58) (\<lambda>w.
     bnd (to_str w) (\<lambda>w.
     bnd (to_str txid) (\<lambda>t.
     bnd (call (Axios_get (cats [api, JStr ''/accounts/'', w, JStr ''/collected?txId='', t])))
       (\<lambda>_.
     bnd (bnd (toBase58 releasePublicKey) (\<lambda>r. Release_fetch r (JBool True))) (\<lambda>newRelease.
     ret (JObj [(''release'', newRelease)])))))))))))))))))))))))))))))))))))))))))))))"

definition purchaseViaHub :: "jsval \<Rightarrow> jsval \<Rightarrow> jsval \<Rightarrow> js" where
  "purchaseViaHub client releasePublicKey hubPublicKey =
     try_catch (purchaseViaHub_body client releasePublicKey hubPublicKey)
       (\<lambda>error. bnd (console ''warn'' [error]) (\<lambda>_. ret (JObj [(''error'', error)])))"

text \<open>
  \<open>releasePurchase(client, releasePublicKey)\<close>, lines 266 to 351. The test
  \<open>release.price.toNumber === 0\<close> compares the method itself with 0. Its branch calls
  \<open>encodeBase64\<close>, the branch for a payment in SOL calls \<open>wrapSol\<close>, and the request after
  the confirmation reads \<open>endpoints\<close>: none of the three names is declared, so each of
  these places throws a ReferenceError.
\<close>

definition releasePurchase_body :: "jsval \<Rightarrow> jsval \<Rightarrow> js" where
  "releasePurchase_body client releasePublicKey0 = 
     bnd (prp client ''provider'') (\<lambda>provider.
     bnd (call (UseProgram client)) (\<lambda>program.
     bnd (new_PublicKey releasePublicKey0) (\<lambda>releasePublicKey.
     bnd (call (Account_fetch program ''release'' releasePublicKey)) (\<lambda>release.
     bnd (pth release [''price'', ''toNumber'']) (\<lambda>toNumber.
     bnd (if strict_eq toNumber (JNum 0) then
            bnd (libc (New ''TextEncoder'' [])) (\<lambda>encoder.
            bnd (toBase58 releasePublicKey) (\<lambda>text.
            bnd (meth encoder ''encode'' [text]) (\<lambda>message.
            thrw (ReferenceError ''encodeBase64''))))
          else ret Undefined) (\<lambda>_.
     bnd (findOrCreateAssociatedTokenAccount provider (wallet_publicKey provider)
            (prp release ''paymentMint'') []) (\<lambda>r1.
     bnd (el r1 0) (\<lambda>payerTokenAccount.
     bnd (findOrCreateAssociatedTokenAccount provider (wallet_publicKey provider)
            (prp release ''releaseMint'') []) (\<lambda>r2.
     bnd (el r2 0) (\<lambda>receiverReleaseTokenAccount.
     bnd (el r2 1) (\<lambda>receiverReleaseTokenAccountIx.
     bnd (ret (JArr (if truthy receiverReleaseTokenAccountIx
                     then [JObj [(''instructions'', JArr [receiverReleaseTokenAccountIx]),
                                 (''cleanupInstructions'', JArr []),
                                 (''signers'', JArr [])]]
                     else []))) (\<lambda>instructions.
     bnd (bnd (prp release ''paymentMint'') (\<lambda>mint. meth client ''isSol'' [mint])) (\<lambda>isSol.
     bnd (if truthy isSol then thrw (ReferenceError ''wrapSol'') else ret Undefined) (\<lambda>_.
     bnd (methods_transaction program ''releasePurchase''
            [prp release ''price'']
            (obj [(''payer'', wallet_publicKey provider),
                  (''receiver'', wallet_publicKey provider),
                  (''release'', ret releasePublicKey),
                  (''releaseSigner'', prp release ''releaseSigner''),
                  (''payerTokenAccount'', ret payerTokenAccount),
                  (''receiverReleaseTokenAccount'', ret receiverReleaseTokenAccount),
                  (''royaltyTokenAccount'', prp release ''royaltyTokenAccount''),
                  (''releaseMint'', prp release ''releaseMint''),
                  (''tokenProgram'', konst ''TOKEN_PROGRAM_ID'')])
            (ret instructions) (ret Undefined)) (\<lambda>tx.
     bnd (stamp provider tx) (\<lambda>tx.
     bnd (sendTransaction provider tx) (\<lambda>txid.
     bnd (getConfirmTransaction txid provider) (\<lambda>_.
     thrw (ReferenceError ''endpoints'')))))))))))))))))))"

definition releasePurchase :: "jsval \<Rightarrow> jsval \<Rightarrow> js" where
  "releasePurchase client releasePublicKey =
     try_catch (releasePurchase_body client releasePublicKey)
       (\<lambda>error. bnd (console ''warn'' [error]) (\<lambda>_. ret (JObj [(''error'', error)])))"

text \<open>
  The token metadata of a release: the name is the first 32 characters of
  \<open>`${artist} - ${title}`\<close>, the symbol the first 10 of the catalog number, each passed
  through a \<open>Buffer\<close> (\<open>Buffer.from(s).slice(0, n).toString()\<close>).
\<close>

definition buffer_text :: "nat \<Rightarrow> jsval \<Rightarrow> js" where
  "buffer_text n s =
     bnd (libc (Func ''Buffer.from'' [s])) (\<lambda>buf.
     bnd (meth buf ''slice'' [JNum 0, JNum (of_nat n)]) (\<lambda>cut.
     meth cut ''toString'' []))"

definition metadataData :: "jsval \<Rightarrow> jsval \<Rightarrow> jsval \<Rightarrow> jsval \<Rightarrow> jsval \<Rightarrow> js" where
  "metadataData artist title catalogNumber metadataUri resalePercentage =
     bnd (to_str artist) (\<lambda>a.
     bnd (to_str title) (\<lambda>t.
     bnd (lift (substring0 32 (cats [a, JStr '' - '', t]))) (\<lambda>name.
     bnd (buffer_text 32 name) (\<lambda>nameBufString.
     bnd (lift (substring0 10 catalogNumber)) (\<lambda>symbol.
     bnd (buffer_text 10 symbol) (\<lambda>symbolBufString.
     bnd (arith ''*'' resalePercentage (JNum 100)) (\<lambda>sellerFeeBasisPoints.
     ret (JObj [(''name'', nameBufString),
                (''symbol'', symbolBufString),
                (''uri'', metadataUri),
                (''sellerFeeBasisPoints'', sellerFeeBasisPoints)]))))))))"

text \<open>
  \<open>[metadata] = findProgramAddress([Buffer.from('metadata'), metadataProgram.toBuffer(),
  releaseMint.publicKey.toBuffer()], metadataProgram)\<close>
\<close>

definition metadata_address :: "jsval \<Rightarrow> jsval \<Rightarrow> js" where
  "metadata_address metadataProgram releaseMint =
     bnd (findProgramAddress
            [libc (Func ''Buffer.from'' [JStr ''metadata'']), toBuffer metadataProgram,
             bnd (prp releaseMint ''publicKey'') toBuffer]
            (ret metadataProgram)) (\<lambda>r. el r 0)"

text \<open>
  \<open>releaseInitViaHub(client, hubPublicKey, retailPrice, amount, resalePercentage, isUsdc,
  metadataUri, artist, title, catalogNumber, release, releaseBump, releaseMint, isOpen)\<close>,
  lines 375 to 535.
\<close>

definition releaseInitViaHub_body :: "jsval \<Rightarrow> jsval list \<Rightarrow> js" where
  "releaseInitViaHub_body client args = 
     (let hubPublicKey0 = arg args 0; retailPrice = arg args 1; amount = arg args 2;
          resalePercentage = arg args 3; isUsdc = dflt (arg args 4) (JBool True);
          metadataUri = arg args 5; artist = arg args 6; title = arg args 7;
          catalogNumber = arg args 8; release = arg args 9; releaseBump = arg args 10;
          releaseMint = arg args 11; isOpen = arg args 12
      in
     bnd (nina [''ids'']) (\<lambda>ids.
     bnd (prp client ''provider'') (\<lambda>provider.
     bnd (call (UseProgram client)) (\<lambda>program.
     bnd (new_PublicKey hubPublicKey0) (\<lambda>hubPublicKey.
     bnd (call (Account_fetch program ''hub'' hubPublicKey)) (\<lambda>hub.
     bnd (bnd (if truthy isUsdc then pth ids [''mints'', ''usdc'']
               else pth ids [''mints'', ''wsol'']) new_PublicKey) (\<lambda>paymentMint.
     bnd (findProgramAddress [toBuffer release] (prp program ''programId'')) (\<lambda>r1.
     bnd (el r1 0) (\<lambda>releaseSigner.
     bnd (el r1 1) (\<lambda>releaseSignerBump.
     bnd (seq [ret provider, wallet_publicKey provider, prp releaseMint ''publicKey'',
               ret (JNum 0)] (\<lambda>as. call (CreateMintInstructions as))) (\<lambda>releaseMintIx.
     bnd (findOrCreateAssociatedTokenAccount provider (wallet_publicKey provider)
            (ret paymentMint) []) (\<lambda>r2.
     bnd (el r2 0) (\<lambda>authorityTokenAccount.
     bnd (el r2 1) (\<lambda>authorityTokenAccountIx.
     bnd (findOrCreateAssociatedTokenAccount provider (ret releaseSigner)
            (ret paymentMint) [ret (JBool True)]) (\<lambda>r3.
     bnd (el r3 0) (\<lambda>royaltyTokenAccount.
     bnd (el r3 1) (\<lambda>royaltyTokenAccountIx.
     bnd (findProgramAddress
            [utf8_buffer (JStr ''nina-hub-collaborator''), toBuffer hubPublicKey,
             bnd (wallet_publicKey provider) toBuffer]
            (prp program ''programId'')) (\<lambda>r4.
     bnd (el r4 0) (\<lambda>hubCollaborator.
     bnd (findProgramAddress
            [utf8_buffer (JStr ''nina-hub-signer''), toBuffer hubPublicKey]
            (prp program ''programId'')) (\<lambda>r5.
     bnd (el r5 0) (\<lambda>hubSigner.
     bnd (findProgramAddress
            [utf8_buffer (JStr ''nina-hub-release''), toBuffer hubPublicKey, toBuffer release]
            (prp program ''programId'')) (\<lambda>r6.
     bnd (el r6 0) (\<lambda>hubRelease.
     bnd (findProgramAddress
            [utf8_buffer (JStr ''nina-hub-content''), toBuffer hubPublicKey, toBuffer release]
            (prp program ''programId'')) (\<lambda>r7.
     bnd (el r7 0) (\<lambda>hubContent.
     bnd (findOrCreateAssociatedTokenAccount provider (ret hubSigner)
            (ret paymentMint) []) (\<lambda>r8.
     bnd (el r8 0) (\<lambda>hubWallet.
     bnd (lift (spread releaseMintIx)) (\<lambda>mintIxs.
     bnd (ret (JArr ((case mintIxs of JArr ixs \<Rightarrow> ixs | _ \<Rightarrow> [])
                 @ [royaltyTokenAccountIx]
                 @ (if truthy authorityTokenAccountIx
                    then [authorityTokenAccountIx] else [])))) (\<lambda>instructions.
     bnd (ret (if truthy isOpen then JStr MAX_INT else amount)) (\<lambda>editionAmount.
     bnd (obj [(''amountTotalSupply'', new_BN editionAmount),
               (''amountToArtistTokenAccount'', new_BN (JNum 0)),
               (''amountToVaultTokenAccount'', new_BN (JNum 0)),
               (''resalePercentage'',
                  bnd (arith ''*'' resalePercentage (JNum 10000)) new_BN),
               (''price'',
                  bnd (libc (Func ''uiToNative'' [retailPrice, paymentMint])) new_BN),
               (''releaseDatetime'',
                  bnd (call Date_now) (\<lambda>now.
                  bnd (arith ''/'' now (JNum 1000)) new_BN))]) (\<lambda>config.
     bnd (ret (JObj [(''release'', releaseBump), (''signer'', releaseSignerBump)])) (\<lambda>bumps.
     bnd (bnd (pth ids [''programs'', ''metaplex'']) new_PublicKey) (\<lambda>metadataProgram.
     bnd (metadata_address metadataProgram releaseMint) (\<lambda>metadata.
     bnd (metadataData artist title catalogNumber metadataUri resalePercentage) (\<lambda>metadataData.
     bnd (methods_transaction program ''releaseInitViaHub''
            [ret config, ret bumps, ret metadataData,
             bnd (prp hub ''handle'') (\<lambda>handle.
             libc (Func ''decodeNonEncryptedByteArray'' [handle]))]
            (obj [(''authority'', wallet_publicKey provider),
                  (''release'', ret release),
                  (''releaseSigner'', ret releaseSigner),
                  (''hubCollaborator'', ret hubCollaborator),
                  (''hub'', ret hubPublicKey),
                  (''hubRelease'', ret hubRelease),
                  (''hubContent'', ret hubContent),
                  (''hubSigner'', ret hubSigner),
                  (''hubWallet'', ret hubWallet),
                  (''releaseMint'', prp releaseMint ''publicKey''),
                  (''authorityTokenAccount'', ret authorityTokenAccount),
                  (''paymentMint'', ret paymentMint),
                  (''royaltyTokenAccount'', ret royaltyTokenAccount),
                  (''tokenProgram'', bnd (pth ids [''programs'', ''token'']) new_PublicKey),
                  (''metadata'', ret metadata),
                  (''metadataProgram'', ret metadataProgram),
                  (''systemProgram'', konst ''anchor.web3.SystemProgram.programId''),
                  (''rent'', konst ''anchor.web3.SYSVAR_RENT_PUBKEY'')])
            (ret instructions) (ret Undefined)) (\<lambda>tx.
     bnd (stamp provider tx) (\<lambda>tx.
     bnd (call (PartialSign tx releaseMint)) (\<lambda>_.
     bnd (sendTransaction provider tx) (\<lambda>txid.
     bnd (getConfirmTransaction txid provider) (\<lambda>_.
     bnd (bnd (toBase58 hubPublicKey) (\<lambda>h.
          bnd (toBase58 hubRelease) (\<lambda>r.
          Hub_fetchHubRelease h r Undefined))) (\<lambda>createdRelease.
     ret (JObj [(''release'', createdRelease)]))))))))))))))))))))))))))))))))))))))))))"

definition releaseInitViaHub :: "jsval \<Rightarrow> jsval list \<Rightarrow> js" where
  "releaseInitViaHub client args =
     try_catch (releaseInitViaHub_body client args)
       (\<lambda>error. bnd (console ''warn'' [error]) (\<lambda>_. ret (JObj [(''error'', error)])))"

text \<open>
  \<open>initializeReleaseAndMint(client, hubPublicKey)\<close>, lines 546 to 576 (not exported). The
  mint is a fresh keypair; the release address is derived from its public key.
\<close>

definition initializeReleaseAndMint_body :: "jsval \<Rightarrow> jsval \<Rightarrow> js" where
  "initializeReleaseAndMint_body client hubPublicKey = 
     bnd (call (UseProgram client)) (\<lambda>program.
     bnd (call Keypair_generate) (\<lambda>releaseMint.
     bnd (findProgramAddress
            [utf8_buffer (JStr ''nina-release''), bnd (prp releaseMint ''publicKey'') toBuffer]
            (prp program ''programId'')) (\<lambda>r1.
     bnd (el r1 0) (\<lambda>release.
     bnd (el r1 1) (\<lambda>releaseBump.
     bnd (if truthy hubPublicKey then
            bnd (findProgramAddress
                   [utf8_buffer (JStr ''nina-hub-release''),
                    bnd (new_PublicKey hubPublicKey) toBuffer, toBuffer release]
                   (prp program ''programId'')) (\<lambda>r2. el r2 0)
          else ret Undefined) (\<lambda>hubRelease.
     ret (JObj [(''release'', release), (''releaseBump'', releaseBump),
                (''releaseMint'', releaseMint), (''hubRelease'', hubRelease)])))))))"

definition initializeReleaseAndMint :: "jsval \<Rightarrow> jsval \<Rightarrow> js" where
  "initializeReleaseAndMint client hubPublicKey =
     try_catch (initializeReleaseAndMint_body client hubPublicKey)
       (\<lambda>error. bnd (console ''warn'' [error]) (\<lambda>_. ret (JBool False)))"

text \<open>
  \<open>releaseInit(client, retailPrice, amount, resalePercentage, artist, title, catalogNumber,
  metadataUri, isUsdc, release, releaseBump, releaseMint, isOpen)\<close>, lines 599 to 736.
\<close>

definition releaseInit_body :: "jsval \<Rightarrow> jsval list \<Rightarrow> js" where
  "releaseInit_body client args = 
     (let retailPrice = arg args 0; amount = arg args 1; resalePercentage = arg args 2;
          artist = arg args 3; title = arg args 4; catalogNumber = arg args 5;
          metadataUri = arg args 6; isUsdc = dflt (arg args 7) (JBool True);
          release = arg args 8; releaseBump = arg args 9; releaseMint = arg args 10;
          isOpen = arg args 11
      in
     bnd (nina [''ids'']) (\<lambda>ids.
     bnd (prp client ''provider'') (\<lambda>provider.
     bnd (call (UseProgram client)) (\<lambda>program.
     bnd (bnd (if truthy isUsdc then pth ids [''mints'', ''usdc'']
               else pth ids [''mints'', ''wsol'']) new_PublicKey) (\<lambda>paymentMint.
     bnd (bnd (pth ids [''mints'', ''publishingCredit'']) new_PublicKey)
       (\<lambda>publishingCreditMint.
     bnd (findProgramAddress [toBuffer release] (prp program ''programId'')) (\<lambda>r1.
     bnd (el r1 0) (\<lambda>releaseSigner.
     bnd (el r1 1) (\<lambda>releaseSignerBump.
     bnd (seq [ret provider, wallet_publicKey provider, prp releaseMint ''publicKey'',
               ret (JNum 0)] (\<lambda>as. call (CreateMintInstructions as))) (\<lambda>releaseMintIx.
     bnd (findOrCreateAssociatedTokenAccount provider (wallet_publicKey provider)
            (ret paymentMint) []) (\<lambda>r2.
     bnd (el r2 0) (\<lambda>authorityTokenAccount.
     bnd (el r2 1) (\<lambda>authorityTokenAccountIx.
     bnd (findOrCreateAssociatedTokenAccount provider (ret releaseSigner)
            (ret paymentMint) [ret (JBool True)]) (\<lambda>r3.
     bnd (el r3 0) (\<lambda>royaltyTokenAccount.
     bnd (el r3 1) (\<lambda>royaltyTokenAccountIx.
     bnd (findOrCreateAssociatedTokenAccount provider (wallet_publicKey provider)
            (ret publishingCreditMint) []) (\<lambda>r4.
     bnd (el r4 0) (\<lambda>authorityPublishingCreditTokenAccount.
     bnd (el r4 1) (\<lambda>authorityPublishingCreditTokenAccountIx.
     bnd (lift (spread releaseMintIx)) (\<lambda>mintIxs.
     bnd (ret (JArr ((case mintIxs of JArr ixs \<Rightarrow> ixs | _ \<Rightarrow> [])
                 @ [royaltyTokenAccountIx]
                 @ (if truthy authorityTokenAccountIx
                    then [authorityTokenAccountIx] else [])
                 @ (if truthy authorityPublishingCreditTokenAccountIx
                    then [authorityPublishingCreditTokenAccountIx] else []))))
       (\<lambda>instructions.
     bnd (call New_Date) (\<lambda>now.
     bnd (ret (if truthy isOpen then JStr MAX_INT else amount)) (\<lambda>editionAmount.
     bnd (obj [(''amountTotalSupply'', new_BN editionAmount),
               (''amountToArtistTokenAccount'', new_BN (JNum 0)),
               (''amountToVaultTokenAccount'', new_BN (JNum 0)),
               (''resalePercentage'',
                  bnd (arith ''*'' resalePercentage (JNum 10000)) new_BN),
               (''price'',
                  bnd (libc (Func ''uiToNative'' [retailPrice, paymentMint])) new_BN),
               (''releaseDatetime'',
                  bnd (meth now ''getTime'' []) (\<lambda>ms.
                  bnd (arith ''/'' ms (JNum 1000)) new_BN))]) (\<lambda>config.
     bnd (bnd (pth ids [''programs'', ''metaplex'']) new_PublicKey) (\<lambda>metadataProgram.
     bnd (metadata_address metadataProgram releaseMint) (\<lambda>metadata.
     bnd (metadataData artist title catalogNumber metadataUri resalePercentage) (\<lambda>metadataData.
     bnd (ret (JObj [(''release'', releaseBump), (''signer'', releaseSignerBump)])) (\<lambda>bumps.
     bnd (methods_transaction program ''releaseInit''
            [ret config, ret bumps, ret metadataData]
            (obj [(''release'', ret release),
                  (''releaseSigner'', ret releaseSigner),
                  (''releaseMint'', prp releaseMint ''publicKey''),
                  (''payer'', wallet_publicKey provider),
                  (''authority'', wallet_publicKey provider),
                  (''authorityTokenAccount'', ret authorityTokenAccount),
                  (''paymentMint'', ret paymentMint),
                  (''royaltyTokenAccount'', ret royaltyTokenAccount),
                  (''metadata'', ret metadata),
                  (''metadataProgram'', ret metadataProgram),
                  (''systemProgram'', konst ''anchor.web3.SystemProgram.programId''),
                  (''tokenProgram'', konst ''TOKEN_PROGRAM_ID''),
                  (''rent'', konst ''anchor.web3.SYSVAR_RENT_PUBKEY'')])
            (ret instructions) (ret Undefined)) (\<lambda>tx.
     bnd (stamp provider tx) (\<lambda>tx.
     bnd (call (PartialSign tx releaseMint)) (\<lambda>_.
     bnd (sendTransaction provider tx) (\<lambda>txid.
     bnd (getConfirmTransaction txid provider) (\<lambda>_.
     bnd (bnd (toBase58 release) (\<lambda>r. Release_fetch r Undefined)) (\<lambda>createdRelease.
     ret (JObj [(''release'', createdRelease)])))))))))))))))))))))))))))))))))))"

definition releaseInit :: "jsval \<Rightarrow> jsval list \<Rightarrow> js" where
  "releaseInit client args =
     try_catch (releaseInit_body client args)
       (\<lambda>error. bnd (console ''warn'' [error]) (\<lambda>_. ret (JObj [(''error'', error)])))"

text \<open>\<open>closeRelease(client, releasePublicKey)\<close>, lines 747 to 776.\<close>

definition closeRelease_body :: "jsval \<Rightarrow> jsval \<Rightarrow> js" where
  "closeRelease_body client releasePublicKey = 
     bnd (prp client ''provider'') (\<lambda>provider.
     bnd (call (UseProgram client)) (\<lambda>program.
     bnd (bnd (new_PublicKey releasePublicKey) (\<lambda>pk.
          call (Account_fetch program ''release'' pk))) (\<lambda>release.
     bnd (methods_transaction program ''releaseCloseEdition'' []
            (obj [(''authority'', wallet_publicKey provider),
                  (''release'', new_PublicKey releasePublicKey),
                  (''releaseSigner'', prp release ''releaseSigner''),
                  (''releaseMint'', prp release ''releaseMint'')])
            (ret Undefined) (ret Undefined)) (\<lambda>tx.
     bnd (stamp provider tx) (\<lambda>tx.
     bnd (sendTransaction provider tx) (\<lambda>txid.
     bnd (getConfirmTransaction txid provider) (\<lambda>_.
     bnd (Release_fetch releasePublicKey Undefined) (\<lambda>closedRelease.
     ret (JObj [(''release'', closedRelease)])))))))))"

definition closeRelease :: "jsval \<Rightarrow> jsval \<Rightarrow> js" where
  "closeRelease client releasePublicKey =
     try_catch (closeRelease_body client releasePublicKey)
       (\<lambda>error. bnd (console ''warn'' [error]) (\<lambda>_. ret (JObj [(''error'', error)])))"

text \<open>
  \<open>collectRoyaltyForRelease(client, recipient, releasePublicKey)\<close>, lines 788 to 841. The
  guard before the \<open>try\<close> returns \<open>undefined\<close>. The account that the function writes to is
  the one it has just fetched, not an object of the caller.
\<close>

definition collectRoyaltyForRelease_body :: "jsval \<Rightarrow> jsval \<Rightarrow> jsval \<Rightarrow> js" where
  "collectRoyaltyForRelease_body client recipient releasePublicKey = 
     bnd (prp client ''provider'') (\<lambda>provider.
     bnd (call (UseProgram client)) (\<lambda>program.
     bnd (bnd (new_PublicKey releasePublicKey) (\<lambda>pk.
          call (Account_fetch program ''release'' pk))) (\<lambda>release.
     bnd (bnd (prp release ''paymentMint'') new_PublicKey) (\<lambda>paymentMint.
     bnd (setp release ''paymentMint'' paymentMint) (\<lambda>release.
     bnd (findOrCreateAssociatedTokenAccount provider (wallet_publicKey provider)
            (prp release ''paymentMint'') []) (\<lambda>r1.
     bnd (el r1 0) (\<lambda>authorityTokenAccount.
     bnd (el r1 1) (\<lambda>authorityTokenAccountIx.
     bnd (ret (if truthy authorityTokenAccountIx
               then JArr [authorityTokenAccountIx] else JArr [])) (\<lambda>instructions.
     bnd (methods_transaction program ''releaseRevenueShareCollect'' []
            (obj [(''authority'', wallet_publicKey provider),
                  (''authorityTokenAccount'', ret authorityTokenAccount),
                  (''release'', new_PublicKey releasePublicKey),
                  (''releaseMint'', prp release ''releaseMint''),
                  (''releaseSigner'', prp release ''releaseSigner''),
                  (''royaltyTokenAccount'', prp release ''royaltyTokenAccount''),
                  (''tokenProgram'', konst ''anchor.utils.token.TOKEN_PROGRAM_ID'')])
            (ret instructions) (ret Undefined)) (\<lambda>tx.
     bnd (stamp provider tx) (\<lambda>tx.
     bnd (sendTransaction provider tx) (\<lambda>txid.
     bnd (getConfirmTransaction txid provider) (\<lambda>_.
     bnd (Release_fetch releasePublicKey (JBool True)) (\<lambda>collectedRelease.
     ret (JObj [(''release'', collectedRelease)])))))))))))))))"

definition collectRoyaltyForRelease :: "jsval \<Rightarrow> jsval \<Rightarrow> jsval \<Rightarrow> js" where
  "collectRoyaltyForRelease client recipient releasePublicKey =
     (if \<not> truthy releasePublicKey \<or> \<not> truthy recipient then ret Undefined
      else try_catch (collectRoyaltyForRelease_body client recipient releasePublicKey)
             (\<lambda>error. bnd (console ''warn'' [error]) (\<lambda>_. ret (JObj [(''error'', error)]))))"

text \<open>
  \<open>addRoyaltyRecipient(client, recipientAddress, percentShare, releasePublicKey)\<close>, lines 854
  to 918. No \<open>request\<close> is declared: when a token account has to be created, the
  assignment to \<open>request.instructions\<close> throws a ReferenceError.
\<close>

definition addRoyaltyRecipient_body :: "jsval \<Rightarrow> jsval \<Rightarrow> jsval \<Rightarrow> jsval \<Rightarrow> js" where
  "addRoyaltyRecipient_body client recipientAddress percentShare releasePublicKey0 = 
     bnd (prp client ''provider'') (\<lambda>provider.
     bnd (call (UseProgram client)) (\<lambda>program.
     bnd (new_PublicKey releasePublicKey0) (\<lambda>releasePublicKey.
     bnd (call (Account_fetch program ''release'' releasePublicKey)) (\<lambda>release.
     bnd (new_PublicKey recipientAddress) (\<lambda>recipientPublicKey.
     bnd (arith ''*'' percentShare (JNum 10000)) (\<lambda>updateAmount.
     bnd (findOrCreateAssociatedTokenAccount provider (ret recipientPublicKey)
            (bnd (prp release ''paymentMint'') new_PublicKey) []) (\<lambda>r1.
     bnd (el r1 0) (\<lambda>newRoyaltyRecipientTokenAccount.
     bnd (el r1 1) (\<lambda>newRoyaltyRecipientTokenAccountIx.
     bnd (findOrCreateAssociatedTokenAccount provider (wallet_publicKey provider)
            (bnd (prp release ''paymentMint'') new_PublicKey) []) (\<lambda>r2.
     bnd (el r2 0) (\<lambda>authorityTokenAccount.
     bnd (el r2 1) (\<lambda>authorityTokenAccountIx.
     bnd (if truthy newRoyaltyRecipientTokenAccountIx \<or> truthy authorityTokenAccountIx
          then thrw (ReferenceError ''request'') else ret Undefined) (\<lambda>_.
     bnd (methods_transaction program ''releaseRevenueShareTransfer''
            [new_BN updateAmount]
            (obj [(''authority'', wallet_publicKey provider),
                  (''authorityTokenAccount'', ret authorityTokenAccount),
                  (''release'', ret releasePublicKey),
                  (''releaseMint'', bnd (prp release ''releaseMint'') new_PublicKey),
                  (''releaseSigner'', bnd (prp release ''releaseSigner'') new_PublicKey),
                  (''royaltyTokenAccount'', prp release ''royaltyTokenAccount''),
                  (''newRoyaltyRecipient'', ret recipientPublicKey),
                  (''newRoyaltyRecipientTokenAccount'', ret newRoyaltyRecipientTokenAccount),
                  (''tokenProgram'', konst ''TOKEN_PROGRAM_ID''),
                  (''rent'', konst ''anchor.web3.SYSVAR_RENT_PUBKEY'')])
            (ret Undefined) (ret Undefined)) (\<lambda>tx.
     bnd (stamp provider tx) (\<lambda>tx.
     bnd (sendTransaction provider tx) (\<lambda>txid.
     bnd (getConfirmTransaction txid provider) (\<lambda>_.
     bnd (Release_fetch releasePublicKey (JBool True)) (\<lambda>updatedRelease.
     ret (JObj [(''release'', updatedRelease)])))))))))))))))))))"

definition addRoyaltyRecipient :: "jsval \<Rightarrow> jsval \<Rightarrow> jsval \<Rightarrow> jsval \<Rightarrow> js" where
  "addRoyaltyRecipient client recipientAddress percentShare releasePublicKey =
     try_catch (addRoyaltyRecipient_body client recipientAddress percentShare releasePublicKey)
       (\<lambda>error. bnd (console ''warn'' [error]) (\<lambda>_. ret (JObj [(''error'', error)])))"

section \<open>The earlier Hub module: \<open>hubInitWithCredit\<close>\<close>

text \<open>
  \<open>hubInitWithCredit(hubParams, wallet, connection, ids)\<close>, from the earlier copy of
  \<open>hubs.js\<close>. It sends through \<open>rpc()\<close> of the method builder and looks the transaction
  up once. The module is an ES module (\<open>"type": "module"\<close> in \<open>package.json\<close>) and the
  function is an arrow function, so its \<open>this\<close> is \<open>undefined\<close> and \<open>this.fetch\<close> throws
  a TypeError before its argument is evaluated.
\<close>

definition module_this :: jsval where
  "module_this = Undefined"

definition hubInitWithCredit_body :: "nat \<Rightarrow> jsval \<Rightarrow> jsval \<Rightarrow> jsval \<Rightarrow> js" where
  "hubInitWithCredit_body hubParams wallet conn ids = 
     bnd (libc (New ''anchor.AnchorProvider''
                  [conn, wallet, JObj [(''commitment'', JStr ''confirmed''),
                                       (''preflightCommitment'', JStr ''processed'')]]))
       (\<lambda>provider.
     bnd (bnd (pth ids [''programs'', ''nina'']) (\<lambda>programId.
          call (Program_at programId provider))) (\<lambda>program.
     bnd (bnd (pth ids [''mints'', ''usdc'']) new_PublicKey) (\<lambda>USDC_MINT.
     bnd (bnd (pth ids [''mints'', ''wsol'']) new_PublicKey) (\<lambda>WRAPPED_SOL_MINT.
     bnd (bnd (pth ids [''mints'', ''hubCredit'']) new_PublicKey) (\<lambda>HUB_CREDIT_MINT.
     bnd (heap_prp hubParams ''publishFee'') (\<lambda>publishFee.
     bnd (arith ''*'' publishFee (JNum 10000)) (\<lambda>publishFee1.
     bnd (new_BN publishFee1) (\<lambda>publishFeeBN.
     bnd (heap_setp hubParams ''publishFee'' publishFeeBN) (\<lambda>_.
     bnd (heap_prp hubParams ''referralFee'') (\<lambda>referralFee.
     bnd (arith ''*'' referralFee (JNum 10000)) (\<lambda>referralFee1.
     bnd (new_BN referralFee1) (\<lambda>referralFeeBN.
     bnd (heap_setp hubParams ''referralFee'' referralFeeBN) (\<lambda>_.
     bnd (findProgramAddress
            [utf8_buffer (JStr ''nina-hub''),
             bnd (heap_prp hubParams ''handle'') utf8_buffer]
            (prp program ''programId'')) (\<lambda>r1.
     bnd (el r1 0) (\<lambda>hub.
     bnd (findProgramAddress
            [utf8_buffer (JStr ''nina-hub-signer''), toBuffer hub]
            (prp program ''programId'')) (\<lambda>r2.
     bnd (el r2 0) (\<lambda>hubSigner.
     bnd (el r2 1) (\<lambda>hubSignerBump.
     bnd (heap_setp hubParams ''hubSignerBump'' hubSignerBump) (\<lambda>_.
     bnd (findProgramAddress
            [utf8_buffer (JStr ''nina-hub-collaborator''), toBuffer hub,
             bnd (wallet_publicKey provider) toBuffer]
            (prp program ''programId'')) (\<lambda>r3.
     bnd (el r3 0) (\<lambda>hubCollaborator.
     bnd (findOrCreateAssociatedTokenAccount provider (ret hubSigner) (ret USDC_MINT) []) (\<lambda>r4.
     bnd (el r4 1) (\<lambda>usdcVaultIx.
     bnd (findOrCreateAssociatedTokenAccount provider (ret hubSigner)
            (ret WRAPPED_SOL_MINT) []) (\<lambda>r5.
     bnd (el r5 1) (\<lambda>wrappedSolVaultIx.
     bnd (findOrCreateAssociatedTokenAccount provider (wallet_publicKey provider)
            (ret HUB_CREDIT_MINT) []) (\<lambda>r6.
     bnd (el r6 0) (\<lambda>authorityHubCreditTokenAccount.
     bnd (heap_obj hubParams) (\<lambda>params.
     bnd (obj [(''authority'', prp wallet ''publicKey''),
               (''hub'', ret hub),
               (''hubSigner'', ret hubSigner),
               (''hubCollaborator'', ret hubCollaborator),
               (''authorityHubCreditTokenAccount'', ret authorityHubCreditTokenAccount),
               (''hubCreditMint'', ret HUB_CREDIT_MINT),
               (''systemProgram'', konst ''anchor.web3.SystemProgram.programId''),
               (''tokenProgram'', bnd (pth ids [''programs'', ''token'']) new_PublicKey),
               (''rent'', konst ''anchor.web3.SYSVAR_RENT_PUBKEY'')]) (\<lambda>accounts.
     bnd (call (Methods_rpc program ''hubInitWithCredit'' [params] accounts
                  (JArr [usdcVaultIx, wrappedSolVaultIx]))) (\<lambda>txid.
     bnd (call (GetParsedTransaction conn txid (JStr ''confirmed''))) (\<lambda>_.
     bnd (prp module_this ''fetch'') (\<lambda>fetch.
     bnd (bnd (toBase58 hub) (\<lambda>h. Hub_fetch h Undefined)) (\<lambda>_.
     prp hub ''toBase58'')))))))))))))))))))))))))))))))))"

definition hubInitWithCredit :: "nat \<Rightarrow> jsval \<Rightarrow> jsval \<Rightarrow> jsval \<Rightarrow> js" where
  "hubInitWithCredit hubParams wallet conn ids =
     try_catch (hubInitWithCredit_body hubParams wallet conn ids)
       (\<lambda>error. bnd (console ''log'' [error]) (\<lambda>_. ret (JBool False)))"

section \<open>Sample environments\<close>

text \<open>
  Concrete worlds on which the functions are run. In \<open>echo_env\<close> every outside call
  answers with the same text and every library function with \<open>undefined\<close>.
\<close>

definition echo_env :: env where
  "echo_env =
     \<lparr>world = (\<lambda>h c. Ok (JStr ''answer'')), lib = (\<lambda>c. Ok Undefined),
      libconst = (\<lambda>n. JStr n), NinaClient = JObj [], process_env = JObj []\<rparr>"

definition start :: state where
  "start = \<lparr>trace = [], heap = (\<lambda>a. Undefined)\<rparr>"

text \<open>
  In \<open>demo_env k\<close> every outside call succeeds. A public key is its base58 text, a buffer
  is the value it was made from, a derived address is the record of its seeds and its
  program, a provider is the connection and the wallet it was made of, and every other
  library object is the record of how it was made. No token
  account has to be created, the wallet holds enough USDC and no payment is in SOL. The
  parameter \<open>k\<close> is the public key of the keypairs that \<open>Keypair.generate()\<close> returns.
\<close>

definition demo_account :: jsval where
  "demo_account =
     JObj [(''releaseMint'', JStr ''mint1''), (''paymentMint'', JStr ''usdc1''),
           (''price'', JNum 5), (''releaseSigner'', JStr ''releaseSigner1''),
           (''royaltyTokenAccount'', JStr ''royalty1''), (''royaltyRecipients'', JArr []),
           (''resalePercentage'', JNum 10), (''hubSigner'', JStr ''hubSigner1''),
           (''handle'', JStr ''ninas-picks''), (''referralFee'', JNum 0),
           (''initializer'', JStr ''wallet2''), (''initializerSendingMint'', JStr ''mint1''),
           (''initializerExpectedMint'', JStr ''usdc1''), (''expectedAmount'', JNum 5),
           (''initializerAmount'', JNum 1), (''isSelling'', JBool True),
           (''exchangeEscrowTokenAccount'', JStr ''escrow1''),
           (''exchangeSigner'', JStr ''exchangeSigner1'')]"

definition demo_world :: "string \<Rightarrow> event list \<Rightarrow> call \<Rightarrow> outcome" where
  "demo_world k h c =
     (case c of
        UseProgram cl \<Rightarrow> Ok (JObj [(''programId'', JStr ''program1'')])
      | Program_at i p \<Rightarrow> Ok (JObj [(''programId'', i)])
      | NinaClient_get url q w \<Rightarrow>
          Ok (JObj [(''hub'', JObj [(''handle'', JStr ''ninas-picks'')]), (''from'', url)])
      | Account_fetch p n key \<Rightarrow> Ok demo_account
      | FindOrCreateAssociatedTokenAccount as \<Rightarrow>
          Ok (JArr [JObj [(''tokenAccount'', JArr (drop 2 as))], Undefined])
      | Keypair_generate \<Rightarrow> Ok (JObj [(''publicKey'', JStr k)])
      | Methods_transaction p n as acc pre sg \<Rightarrow> Ok (JObj [(''instruction'', JStr n)])
      | Methods_rpc p n as acc pre \<Rightarrow> Ok (JStr ''txid1'')
      | GetRecentBlockhash cn \<Rightarrow> Ok (JObj [(''blockhash'', JStr ''blockhash1'')])
      | SendTransaction w tx cn \<Rightarrow> Ok (JStr ''txid1'')
      | GetParsedTokenAccountsByOwner cn ow f \<Rightarrow>
          Ok (JObj [(''value'', JArr [JObj [(''account'', JObj [(''data'', JObj [(''parsed'',
               JObj [(''info'', JObj [(''tokenAmount'',
                 JObj [(''amount'', JStr ''7'')])])])])])]])])
      | CreateMintInstructions as \<Rightarrow> Ok (JArr [JStr ''createMint1''])
      | GetUsdcBalance p cn \<Rightarrow> Ok (JNum 100)
      | Date_now \<Rightarrow> Ok (JNum 1700000000000)
      | New_Date \<Rightarrow> Ok (JObj [(''time'', JNum 1700000000000)])
      | _ \<Rightarrow> Ok Undefined)"

fun demo_lib :: "libcall \<Rightarrow> outcome" where
  "demo_lib (New n as) =
     (if n = ''anchor.web3.PublicKey'' then Ok (arg as 0)
      else if n = ''anchor.AnchorProvider''
      then Ok (JObj [(''connection'', arg as 0), (''wallet'', arg as 1)])
      else Ok (JObj [(''new'', JStr n), (''of'', JArr as)]))"
| "demo_lib (Func n as) =
     (if n = ''anchor.web3.PublicKey.findProgramAddress''
      then Ok (JArr [JObj [(''derived'', JArr as)], JNum 255])
      else if n = ''anchor.utils.bytes.utf8.encode'' \<or> n = ''Buffer.from'' then Ok (arg as 0)
      else Ok (JObj [(''result'', JStr n), (''of'', JArr as)]))"
| "demo_lib (Method r m as) =
     (if m = ''toBase58'' then (case r of JStr s \<Rightarrow> Ok (JStr s) | _ \<Rightarrow> Ok (JStr ''derived1''))
      else if m = ''isSol'' then Ok (JBool False)
      else Ok r)"
| "demo_lib (Arith opr a b) =
     (if opr = ''<'' then Ok (JBool False)
      else Ok (JObj [(''op'', JStr opr), (''left'', a), (''right'', b)]))"
| "demo_lib (ToString v) = Ok (JStr ''text'')"

definition demo_ids :: jsval where
  "demo_ids =
     JObj [(''mints'', JObj [(''usdc'', JStr ''usdc1''), (''wsol'', JStr ''wsol1''),
                             (''hubCredit'', JStr ''hubCredit1''),
                             (''publishingCredit'', JStr ''publishingCredit1'')]),
           (''programs'', JObj [(''nina'', JStr ''program1''), (''token'', JStr ''token1''),
                                (''metaplex'', JStr ''metaplex1'')]),
           (''accounts'', JObj [(''vault'', JStr ''vault1'')])]"

definition demo_env :: "string \<Rightarrow> env" where
  "demo_env k =
     \<lparr>world = demo_world k, lib = demo_lib, libconst = (\<lambda>n. JStr n),
      NinaClient = JObj [(''ids'', demo_ids)],
      process_env = JObj [(''NINA_API_ENDPOINT'', JStr ''https://api'')]\<rparr>"

definition demo_wallet :: jsval where
  "demo_wallet = JObj [(''publicKey'', JStr ''wallet1'')]"

definition demo_provider :: jsval where
  "demo_provider = JObj [(''wallet'', demo_wallet), (''connection'', JStr ''connection1'')]"

definition demo_client :: jsval where
  "demo_client =
     JObj [(''provider'', demo_provider), (''endpoints'', JObj [(''api'', JStr ''https://api'')])]"

text \<open>In \<open>down_env\<close> every outside call throws \<open>'rpc down'\<close>.\<close>

definition down_env :: env where
  "down_env = (demo_env ''fresh1'')\<lparr>world := (\<lambda>h c. Throw (JStr ''rpc down''))\<rparr>"

text \<open>The value of a field for use in statements: \<open>undefined\<close> where the read would throw.\<close>

definition field :: "jsval \<Rightarrow> string \<Rightarrow> jsval" where
  "field v k = (case js_prop v k of Ok x \<Rightarrow> x | Throw x \<Rightarrow> Undefined)"

section \<open>Error handling: what a handler does with the outcome of its \<open>try\<close> block\<close>

text \<open>
  \<open>handled lvl snt f body\<close>: the call \<open>f\<close> never throws; where \<open>body\<close> returns, \<open>f\<close>
  returns the same; where \<open>body\<close> throws \<open>x\<close>, \<open>f\<close> writes \<open>x\<close> to the console at \<open>lvl\<close>
  and returns \<open>snt x\<close>.
\<close>

definition handled :: "string \<Rightarrow> (jsval \<Rightarrow> jsval) \<Rightarrow> js \<Rightarrow> js \<Rightarrow> bool" where
  "handled lvl snt f body =
     (\<forall>e s. (\<forall>x. fst (f e s) \<noteq> Throw x) \<and>
            (case body e s of
               (Ok v, s') \<Rightarrow> f e s = (Ok v, s')
             | (Throw x, s') \<Rightarrow>
                 f e s = (Ok (snt x),
                          s'\<lparr>trace := trace s' @ [(Console lvl [x], Ok Undefined)]\<rparr>)))"

section \<open>Properties of the events of a call\<close>

text \<open>
  \<open>each e I P m\<close>: run in the environment \<open>e\<close> from a heap that satisfies \<open>I\<close>, the steps
  \<open>m\<close> only add events to the trace, every added event satisfies \<open>P\<close>, and the heap
  satisfies \<open>I\<close> again at the end, whatever the outcome.
\<close>

definition each :: "env \<Rightarrow> ((nat \<Rightarrow> jsval) \<Rightarrow> bool) \<Rightarrow> (event \<Rightarrow> bool) \<Rightarrow> js \<Rightarrow> bool" where
  "each e I P m =
     (\<forall>s r s'. I (heap s) \<longrightarrow> m e s = (r, s') \<longrightarrow>
        I (heap s') \<and> (\<exists>new. trace s' = trace s @ new \<and> list_all P new))"

text \<open>
  The calls by which a transaction is prepared for the wallet and submitted. A call of
  another kind is \<open>quiet\<close>.
\<close>

definition submission :: "call \<Rightarrow> bool" where
  "submission c =
     (case c of
        SendTransaction w tx cn \<Rightarrow> True
      | Methods_rpc p n as acc pre \<Rightarrow> True
      | GetRecentBlockhash cn \<Rightarrow> True
      | _ \<Rightarrow> False)"

definition quiet_event :: "event \<Rightarrow> bool" where
  "quiet_event ev = (\<not> submission (fst ev))"

definition quiet :: "env \<Rightarrow> js \<Rightarrow> bool" where
  "quiet e m = each e (\<lambda>h. True) quiet_event m"

text \<open>
  \<open>confirms c txid\<close>: the call \<open>c\<close> asks for the confirmation of the transaction \<open>txid\<close>,
  through the helper \<open>getConfirmTransaction\<close> or by one \<open>getParsedTransaction\<close>.
\<close>

definition confirms :: "call \<Rightarrow> jsval \<Rightarrow> bool" where
  "confirms c txid =
     (case c of
        GetConfirmTransaction t cn \<Rightarrow> t = txid
      | GetParsedTransaction cn t k \<Rightarrow> t = txid
      | _ \<Rightarrow> False)"

definition followed_by_confirmation :: "jsval \<Rightarrow> event list \<Rightarrow> bool" where
  "followed_by_confirmation txid evs =
     (case evs of [] \<Rightarrow> False | ev # _ \<Rightarrow> confirms (fst ev) txid)"

text \<open>The transaction's fee payer is the public key of the provider's wallet.\<close>

definition fee_payer_set :: "jsval \<Rightarrow> jsval \<Rightarrow> bool" where
  "fee_payer_set provider tx =
     (case js_path provider [''wallet'', ''publicKey''] of
        Ok pk \<Rightarrow> js_prop tx ''feePayer'' = Ok pk
      | Throw x \<Rightarrow> False)"

text \<open>
  The transaction's recent blockhash is the \<open>blockhash\<close> of one of the answers of
  \<open>getRecentBlockhash\<close> received so far.
\<close>

definition blockhash_set :: "jsval list \<Rightarrow> jsval \<Rightarrow> bool" where
  "blockhash_set answers tx =
     list_ex (\<lambda>bh. case js_prop bh ''blockhash'' of
                     Ok b \<Rightarrow> js_prop tx ''recentBlockhash'' = Ok b
                   | Throw x \<Rightarrow> False) answers"

text \<open>
  \<open>submitted provider answers evs\<close> reads the events of a call from the left, with the
  blockhash answers seen before them. Every \<open>wallet.sendTransaction(tx, connection)\<close> is
  made on the provider's wallet and connection with a transaction whose fee payer and
  recent blockhash are set; and whenever a submission (through the wallet, or through
  \<open>rpc()\<close>) returns a transaction id, the next event asks for the confirmation of that id.
\<close>

primrec submitted :: "jsval \<Rightarrow> jsval list \<Rightarrow> event list \<Rightarrow> bool" where
  "submitted provider answers [] = True"
| "submitted provider answers (ev # evs) =
     (case fst ev of
        GetRecentBlockhash cn \<Rightarrow>
          (case snd ev of
             Ok bh \<Rightarrow> submitted provider (bh # answers) evs
           | Throw x \<Rightarrow> submitted provider answers evs)
      | SendTransaction w tx cn \<Rightarrow>
          js_prop provider ''wallet'' = Ok w \<and>
          js_prop provider ''connection'' = Ok cn \<and>
          fee_payer_set provider tx \<and>
          blockhash_set answers tx \<and>
          (case snd ev of
             Ok txid \<Rightarrow> followed_by_confirmation txid evs
           | Throw x \<Rightarrow> True) \<and>
          submitted provider answers evs
      | Methods_rpc p n as acc pre \<Rightarrow>
          (case snd ev of
             Ok txid \<Rightarrow> followed_by_confirmation txid evs
           | Throw x \<Rightarrow> True) \<and>
          submitted provider answers evs
      | _ \<Rightarrow> submitted provider answers evs)"

text \<open>
  \<open>holds e Q m\<close>: run in the environment \<open>e\<close>, the steps \<open>m\<close> only add events to the trace, and
  the outcome and the list of the added events satisfy \<open>Q\<close>.
\<close>

definition holds :: "env \<Rightarrow> (outcome \<Rightarrow> event list \<Rightarrow> bool) \<Rightarrow> js \<Rightarrow> bool" where
  "holds e Q m =
     (\<forall>s r s'. m e s = (r, s') \<longrightarrow> (\<exists>new. trace s' = trace s @ new \<and> Q r new))"

text \<open>
  \<open>succ e S m\<close>: whenever the steps \<open>m\<close> return a value \<open>v\<close>, the value and the list of the
  added events satisfy \<open>S\<close>. Nothing is said about the runs that throw.
\<close>

definition succ :: "env \<Rightarrow> (jsval \<Rightarrow> event list \<Rightarrow> bool) \<Rightarrow> js \<Rightarrow> bool" where
  "succ e S m = holds e (\<lambda>r evs. case r of Ok v \<Rightarrow> S v evs | Throw x \<Rightarrow> True) m"

text \<open>The run \<open>rs\<close> (an outcome and a state) has returned a value: it has not thrown.\<close>

definition returns :: "outcome \<times> state \<Rightarrow> bool" where
  "returns rs = (case fst rs of Ok v \<Rightarrow> True | Throw x \<Rightarrow> False)"

text \<open>
  \<open>tracks e a ob Q m\<close>: started with the object \<open>ob\<close> at the address \<open>a\<close> of the heap, the
  steps \<open>m\<close> only add events to the trace, and the outcome, the list of the added events and
  the object that is at \<open>a\<close> afterwards satisfy \<open>Q\<close>.
\<close>

definition tracks ::
    "env \<Rightarrow> nat \<Rightarrow> jsval \<Rightarrow> (outcome \<Rightarrow> event list \<Rightarrow> jsval \<Rightarrow> bool) \<Rightarrow> js \<Rightarrow> bool" where
  "tracks e a ob Q m =
     (\<forall>s r s'. heap s a = ob \<longrightarrow> m e s = (r, s') \<longrightarrow>
        (\<exists>new. trace s' = trace s @ new \<and> Q r new (heap s' a)))"

section \<open>The transaction functions as one family\<close>

text \<open>
  One constructor for each function of the modules that builds a transaction, with the
  arguments of the call. \<open>hubParams\<close> of \<open>hubInit\<close> and \<open>hubInitWithCredit\<close> is a heap
  address; the arguments of \<open>releaseInit\<close> and \<open>releaseInitViaHub\<close> after \<open>client\<close> are a
  list. \<open>initializeReleaseAndMint\<close> is the one function here that its module does not export.
\<close>

datatype operation =
    HubInit jsval nat
  | HubUpdateConfig jsval jsval jsval jsval jsval
  | HubAddCollaborator jsval jsval jsval jsval jsval jsval
  | HubUpdateCollaboratorPermission jsval jsval jsval jsval jsval jsval
  | HubRemoveCollaborator jsval jsval jsval
  | HubContentToggleVisibility jsval jsval jsval jsval
  | HubAddRelease jsval jsval jsval jsval
  | PostInitViaHub jsval jsval jsval jsval jsval jsval
  | PostUpdateViaHub jsval jsval jsval jsval
  | CollectRoyaltyForReleaseViaHub jsval jsval jsval jsval jsval
  | HubWithdraw jsval jsval
  | ExchangeInit jsval jsval jsval jsval
  | ExchangeAccept jsval jsval jsval
  | ExchangeCancel jsval jsval jsval
  | PurchaseViaHub jsval jsval jsval
  | ReleasePurchase jsval jsval
  | ReleaseInitViaHub jsval "jsval list"
  | InitializeReleaseAndMint jsval jsval
  | ReleaseInit jsval "jsval list"
  | CloseRelease jsval jsval
  | CollectRoyaltyForRelease jsval jsval jsval
  | AddRoyaltyRecipient jsval jsval jsval jsval
  | HubInitWithCredit nat jsval jsval jsval

text \<open>The call of the function.\<close>

primrec run :: "operation \<Rightarrow> js" where
  "run (HubInit c p) = hubInit c p"
| "run (HubUpdateConfig c h u pf rf) = hubUpdateConfig c h u pf rf"
| "run (HubAddCollaborator c h cp cc cl a) = hubAddCollaborator c h cp cc cl a"
| "run (HubUpdateCollaboratorPermission c h cp cc cl a) =
     hubUpdateCollaboratorPermission c h cp cc cl a"
| "run (HubRemoveCollaborator c h cp) = hubRemoveCollaborator c h cp"
| "run (HubContentToggleVisibility c h ca t) = hubContentToggleVisibility c h ca t"
| "run (HubAddRelease c h r f) = hubAddRelease c h r f"
| "run (PostInitViaHub c h sl u r f) = postInitViaHub c h sl u r f"
| "run (PostUpdateViaHub c h sl u) = postUpdateViaHub c h sl u"
| "run (CollectRoyaltyForReleaseViaHub c r h sl u) = collectRoyaltyForReleaseViaHub c r h sl u"
| "run (HubWithdraw c h) = hubWithdraw c h"
| "run (ExchangeInit c a sel r) = exchangeInit c a sel r"
| "run (ExchangeAccept c x r) = exchangeAccept c x r"
| "run (ExchangeCancel c x r) = exchangeCancel c x r"
| "run (PurchaseViaHub c r h) = purchaseViaHub c r h"
| "run (ReleasePurchase c r) = releasePurchase c r"
| "run (ReleaseInitViaHub c as) = releaseInitViaHub c as"
| "run (InitializeReleaseAndMint c h) = initializeReleaseAndMint c h"
| "run (ReleaseInit c as) = releaseInit c as"
| "run (CloseRelease c r) = closeRelease c r"
| "run (CollectRoyaltyForRelease c rc r) = collectRoyaltyForRelease c rc r"
| "run (AddRoyaltyRecipient c ra ps r) = addRoyaltyRecipient c ra ps r"
| "run (HubInitWithCredit p w cn ids) = hubInitWithCredit p w cn ids"

text \<open>
  The steps of the function without its handler: the \<open>try\<close> block, after the guard of
  \<open>collectRoyaltyForRelease\<close>; all of \<open>exchangeCancel\<close>, which has no handler.
\<close>

primrec body :: "operation \<Rightarrow> js" where
  "body (HubInit c p) = hubInit_body c p"
| "body (HubUpdateConfig c h u pf rf) = hubUpdateConfig_body c h u pf rf"
| "body (HubAddCollaborator c h cp cc cl a) = hubAddCollaborator_body c h cp cc cl a"
| "body (HubUpdateCollaboratorPermission c h cp cc cl a) =
     hubUpdateCollaboratorPermission_body c h cp cc cl a"
| "body (HubRemoveCollaborator c h cp) = hubRemoveCollaborator_body c h cp"
| "body (HubContentToggleVisibility c h ca t) = hubContentToggleVisibility_body c h ca t"
| "body (HubAddRelease c h r f) = hubAddRelease_body c h r f"
| "body (PostInitViaHub c h sl u r f) = postInitViaHub_body c h sl u r f"
| "body (PostUpdateViaHub c h sl u) = postUpdateViaHub_body c h sl u"
| "body (CollectRoyaltyForReleaseViaHub c r h sl u) =
     collectRoyaltyForReleaseViaHub_body c r h sl u"
| "body (HubWithdraw c h) = hubWithdraw_body c h"
| "body (ExchangeInit c a sel r) = exchangeInit_body c a sel r"
| "body (ExchangeAccept c x r) = exchangeAccept_body c x r"
| "body (ExchangeCancel c x r) = exchangeCancel c x r"
| "body (PurchaseViaHub c r h) = purchaseViaHub_body c r h"
| "body (ReleasePurchase c r) = releasePurchase_body c r"
| "body (ReleaseInitViaHub c as) = releaseInitViaHub_body c as"
| "body (InitializeReleaseAndMint c h) = initializeReleaseAndMint_body c h"
| "body (ReleaseInit c as) = releaseInit_body c as"
| "body (CloseRelease c r) = closeRelease_body c r"
| "body (CollectRoyaltyForRelease c rc r) =
     (if \<not> truthy r \<or> \<not> truthy rc then ret Undefined
      else collectRoyaltyForRelease_body c rc r)"
| "body (AddRoyaltyRecipient c ra ps r) = addRoyaltyRecipient_body c ra ps r"
| "body (HubInitWithCredit p w cn ids) = hubInitWithCredit_body p w cn ids"

text \<open>The module of the function.\<close>

datatype module = Hub | Exchange | Release | EarlierHub

definition module_of :: "operation \<Rightarrow> module" where
  "module_of op =
     (case op of
        ExchangeInit c a sel r \<Rightarrow> Exchange
      | ExchangeAccept c x r \<Rightarrow> Exchange
      | ExchangeCancel c x r \<Rightarrow> Exchange
      | PurchaseViaHub c r h \<Rightarrow> Release
      | ReleasePurchase c r \<Rightarrow> Release
      | ReleaseInitViaHub c as \<Rightarrow> Release
      | InitializeReleaseAndMint c h \<Rightarrow> Release
      | ReleaseInit c as \<Rightarrow> Release
      | CloseRelease c r \<Rightarrow> Release
      | CollectRoyaltyForRelease c rc r \<Rightarrow> Release
      | AddRoyaltyRecipient c ra ps r \<Rightarrow> Release
      | HubInitWithCredit p w cn ids \<Rightarrow> EarlierHub
      | _ \<Rightarrow> Hub)"

text \<open>
  What the handlers do with a caught error \<open>x\<close>. The console method is \<open>console.log\<close> in
  the Hub modules except in \<open>hubInit\<close>, \<open>console.error\<close> in the Exchange module and
  \<open>console.warn\<close> in \<open>hubInit\<close> and in the Release module. The value returned is \<open>false\<close> in
  the Hub and Exchange modules and in \<open>initializeReleaseAndMint\<close>, \<open>undefined\<close> in \<open>hubInit\<close>,
  and the object \<open>{error: x}\<close> in the other functions of the Release module.
\<close>

definition level :: "operation \<Rightarrow> string" where
  "level op =
     (case op of
        HubInit c p \<Rightarrow> ''warn''
      | _ \<Rightarrow> (case module_of op of
                Exchange \<Rightarrow> ''error'' | Release \<Rightarrow> ''warn'' | _ \<Rightarrow> ''log''))"

definition sentinel :: "operation \<Rightarrow> jsval \<Rightarrow> jsval" where
  "sentinel op =
     (\<lambda>x. case op of
        HubInit c p \<Rightarrow> Undefined
      | InitializeReleaseAndMint c h \<Rightarrow> JBool False
      | _ \<Rightarrow> (case module_of op of
                Release \<Rightarrow> JObj [(''error'', x)] | _ \<Rightarrow> JBool False))"

definition has_handler :: "operation \<Rightarrow> bool" where
  "has_handler op = (case op of ExchangeCancel c x r \<Rightarrow> False | _ \<Rightarrow> True)"

text \<open>
  The provider whose wallet a function sends through: \<open>client.provider\<close> (\<open>undefined\<close> where
  \<open>client\<close> has none). \<open>hubInitWithCredit\<close> makes its own provider from its arguments.
\<close>

definition provider_of :: "operation \<Rightarrow> jsval" where
  "provider_of op =
     (case op of
        HubInit c p \<Rightarrow> field c ''provider''
      | HubUpdateConfig c h u pf rf \<Rightarrow> field c ''provider''
      | HubAddCollaborator c h cp cc cl a \<Rightarrow> field c ''provider''
      | HubUpdateCollaboratorPermission c h cp cc cl a \<Rightarrow> field c ''provider''
      | HubRemoveCollaborator c h cp \<Rightarrow> field c ''provider''
      | HubContentToggleVisibility c h ca t \<Rightarrow> field c ''provider''
      | HubAddRelease c h r f \<Rightarrow> field c ''provider''
      | PostInitViaHub c h sl u r f \<Rightarrow> field c ''provider''
      | PostUpdateViaHub c h sl u \<Rightarrow> field c ''provider''
      | CollectRoyaltyForReleaseViaHub c r h sl u \<Rightarrow> field c ''provider''
      | HubWithdraw c h \<Rightarrow> field c ''provider''
      | ExchangeInit c a sel r \<Rightarrow> field c ''provider''
      | ExchangeAccept c x r \<Rightarrow> field c ''provider''
      | ExchangeCancel c x r \<Rightarrow> field c ''provider''
      | PurchaseViaHub c r h \<Rightarrow> field c ''provider''
      | ReleasePurchase c r \<Rightarrow> field c ''provider''
      | ReleaseInitViaHub c as \<Rightarrow> field c ''provider''
      | InitializeReleaseAndMint c h \<Rightarrow> field c ''provider''
      | ReleaseInit c as \<Rightarrow> field c ''provider''
      | CloseRelease c r \<Rightarrow> field c ''provider''
      | CollectRoyaltyForRelease c rc r \<Rightarrow> field c ''provider''
      | AddRoyaltyRecipient c ra ps r \<Rightarrow> field c ''provider''
      | HubInitWithCredit p w cn ids \<Rightarrow> Undefined)"

definition sends_by_rpc :: "operation \<Rightarrow> bool" where
  "sends_by_rpc op = (case op of HubInitWithCredit p w cn ids \<Rightarrow> True | _ \<Rightarrow> False)"

section \<open>What the release and exchange requests carry\<close>

text \<open>
  \<open>supply_config e amount isOpen config\<close>: the three amounts of \<open>config\<close> are the library's
  big numbers \<open>new anchor.BN(x)\<close>, made in the environment \<open>e\<close>, of \<open>MAX_INT\<close> or \<open>amount\<close> for
  the total supply and of 0 for the artist's and the vault's token accounts.
\<close>

definition supply_config :: "env \<Rightarrow> jsval \<Rightarrow> jsval \<Rightarrow> jsval \<Rightarrow> bool" where
  "supply_config e amount isOpen config =
     (js_prop config ''amountTotalSupply'' =
        lib e (New ''anchor.BN'' [if truthy isOpen then JStr MAX_INT else amount])
      \<and> js_prop config ''amountToArtistTokenAccount'' = lib e (New ''anchor.BN'' [JNum 0])
      \<and> js_prop config ''amountToVaultTokenAccount'' = lib e (New ''anchor.BN'' [JNum 0]))"

text \<open>
  The event is no request for a transaction, or the first argument of the request (the
  \<open>config\<close> of \<open>program.methods.releaseInit(config, ...)\<close>) has these amounts.
\<close>

definition sends_supply :: "env \<Rightarrow> jsval \<Rightarrow> jsval \<Rightarrow> event \<Rightarrow> bool" where
  "sends_supply e amount isOpen ev =
     (case fst ev of
        Methods_transaction p n as acc pre sg \<Rightarrow> supply_config e amount isOpen (arg as 0)
      | _ \<Rightarrow> True)"

text \<open>The requests for a transaction among the events.\<close>

definition requests :: "event list \<Rightarrow> event list" where
  "requests evs =
     filter (\<lambda>ev. case fst ev of Methods_transaction p n as acc pre sg \<Rightarrow> True | _ \<Rightarrow> False) evs"

text \<open>Arguments of a sample call of \<open>releaseInit\<close>: an open edition of a release in USDC.\<close>

definition open_release :: "jsval list" where
  "open_release =
     [JNum 5, JNum 100, JNum 10, JStr ''artist'', JStr ''title'', JStr ''CAT1'', JStr ''uri'',
      Undefined, JStr ''release1'', JNum 254, JObj [(''publicKey'', JStr ''mint1'')],
      JBool True]"

text \<open>The same release as a limited edition of 100, and the two through a hub.\<close>

definition limited_release :: "jsval list" where
  "limited_release =
     [JNum 5, JNum 100, JNum 10, JStr ''artist'', JStr ''title'', JStr ''CAT1'', JStr ''uri'',
      Undefined, JStr ''release1'', JNum 254, JObj [(''publicKey'', JStr ''mint1'')],
      JBool False]"

definition open_release_via_hub :: "jsval list" where
  "open_release_via_hub =
     [JStr ''hub1'', JNum 5, JNum 100, JNum 10, Undefined, JStr ''uri'', JStr ''artist'',
      JStr ''title'', JStr ''CAT1'', JStr ''release1'', JNum 254,
      JObj [(''publicKey'', JStr ''mint1'')], JBool True]"

definition limited_release_via_hub :: "jsval list" where
  "limited_release_via_hub =
     [JStr ''hub1'', JNum 5, JNum 100, JNum 10, Undefined, JStr ''uri'', JStr ''artist'',
      JStr ''title'', JStr ''CAT1'', JStr ''release1'', JNum 254,
      JObj [(''publicKey'', JStr ''mint1'')], JBool False]"

section \<open>What a call may change in the caller's objects\<close>

text \<open>The fields of \<open>hubParams\<close> that \<open>hubInit\<close> and \<open>hubInitWithCredit\<close> assign to.\<close>

definition rewritten :: "string list" where
  "rewritten = [''publishFee'', ''referralFee'', ''hubSignerBump'']"

text \<open>
  \<open>same_but a h h'\<close>: the heaps \<open>h\<close> and \<open>h'\<close> hold the same objects, except that in the
  object at the address \<open>a\<close> the fields named in \<open>rewritten\<close> may differ.
\<close>

definition same_but :: "nat \<Rightarrow> (nat \<Rightarrow> jsval) \<Rightarrow> (nat \<Rightarrow> jsval) \<Rightarrow> bool" where
  "same_but a h h' =
     ((\<forall>b. b \<noteq> a \<longrightarrow> h' b = h b)
      \<and> (\<forall>k. k \<notin> set rewritten \<longrightarrow> js_prop (h' a) k = js_prop (h a) k))"

definition frame :: "operation \<Rightarrow> (nat \<Rightarrow> jsval) \<Rightarrow> (nat \<Rightarrow> jsval) \<Rightarrow> bool" where
  "frame op h h' =
     (case op of
        HubInit c a \<Rightarrow> same_but a h h'
      | HubInitWithCredit a w cn ids \<Rightarrow> same_but a h h'
      | _ \<Rightarrow> h' = h)"

text \<open>
  What \<open>hubInit\<close> and \<open>hubInitWithCredit\<close> write: \<open>scaled e v\<close> is the library's
  \<open>new anchor.BN(v * 10000)\<close>, made in the environment \<open>e\<close>; \<open>has_own ob k\<close>: the object \<open>ob\<close>
  has a field \<open>k\<close> of its own.
\<close>

definition scaled :: "env \<Rightarrow> jsval \<Rightarrow> outcome" where
  "scaled e v =
     (case lib e (Arith ''*'' v (JNum 10000)) of
        Ok x \<Rightarrow> lib e (New ''anchor.BN'' [x])
      | Throw x \<Rightarrow> Throw x)"

definition has_own :: "jsval \<Rightarrow> string \<Rightarrow> bool" where
  "has_own ob k = (case ob of JObj kv \<Rightarrow> k \<in> fst ` set kv | _ \<Rightarrow> False)"

text \<open>
  \<open>fees_scaled e before after\<close>: in the object \<open>after\<close>, \<open>publishFee\<close> and \<open>referralFee\<close> are the
  scaled fees of the object \<open>before\<close>, and there is a field \<open>hubSignerBump\<close>.
\<close>

definition fees_scaled :: "env \<Rightarrow> jsval \<Rightarrow> jsval \<Rightarrow> bool" where
  "fees_scaled e before after =
     (js_prop after ''publishFee'' = scaled e (field before ''publishFee'')
      \<and> js_prop after ''referralFee'' = scaled e (field before ''referralFee'')
      \<and> has_own after ''hubSignerBump'')"

text \<open>
  The event is no request of the hub's creation (neither \<open>.transaction()\<close> nor \<open>.rpc()\<close> of
  the method builder), or the \<open>hubParams\<close> that it sends is the object \<open>after\<close>, rewritten
  from \<open>before\<close>.
\<close>

definition sends_hubParams :: "env \<Rightarrow> jsval \<Rightarrow> jsval \<Rightarrow> event \<Rightarrow> bool" where
  "sends_hubParams e before after ev =
     (case fst ev of
        Methods_transaction p n as acc pre sg \<Rightarrow> arg as 0 = after \<and> fees_scaled e before after
      | Methods_rpc p n as acc pre \<Rightarrow> arg as 0 = after \<and> fees_scaled e before after
      | _ \<Rightarrow> True)"

text \<open>The requests through \<open>.rpc()\<close> among the events.\<close>

definition rpc_requests :: "event list \<Rightarrow> event list" where
  "rpc_requests evs =
     filter (\<lambda>ev. case fst ev of Methods_rpc p n as acc pre \<Rightarrow> True | _ \<Rightarrow> False) evs"

text \<open>A sample \<open>hubParams\<close> at the address 0.\<close>

definition demo_hubParams :: jsval where
  "demo_hubParams =
     JObj [(''handle'', JStr ''ninas-picks''), (''publishFee'', JNum 5),
           (''referralFee'', JNum 5), (''uri'', JStr ''https://arweave.net/hub1'')]"

text \<open>
  The same \<open>hubParams\<close> with the fees scaled and the bump of the sample environment: what
  the sample calls of \<open>hubInit\<close> and \<open>hubInitWithCredit\<close> leave at the address 0.
\<close>

definition rewritten_hubParams :: jsval where
  "rewritten_hubParams =
     JObj [(''handle'', JStr ''ninas-picks''),
           (''publishFee'',
            JObj [(''new'', JStr ''anchor.BN''),
                  (''of'', JArr [JObj [(''op'', JStr ''*''), (''left'', JNum 5),
                                       (''right'', JNum 10000)]])]),
           (''referralFee'',
            JObj [(''new'', JStr ''anchor.BN''),
                  (''of'', JArr [JObj [(''op'', JStr ''*''), (''left'', JNum 5),
                                       (''right'', JNum 10000)]])]),
           (''uri'', JStr ''https://arweave.net/hub1''),
           (''hubSignerBump'', JNum 255)]"

definition hub_start :: state where
  "hub_start = \<lparr>trace = [], heap = (\<lambda>a. Undefined)(0 := demo_hubParams)\<rparr>"

section \<open>What an exchange request carries\<close>




section \<open>What a completed call has done and what it returns\<close>

text \<open>A call of \<open>wallet.sendTransaction\<close> that has returned a transaction id.\<close>

definition wallet_send :: "event \<Rightarrow> bool" where
  "wallet_send ev =
     (case fst ev of
        SendTransaction w tx cn \<Rightarrow> (case snd ev of Ok txid \<Rightarrow> True | Throw x \<Rightarrow> False)
      | _ \<Rightarrow> False)"

text \<open>The events after the first such call, if there is one.\<close>

primrec after_send :: "event list \<Rightarrow> event list option" where
  "after_send [] = None"
| "after_send (ev # evs) = (if wallet_send ev then Some evs else after_send evs)"

text \<open>The calls of \<open>NinaClient.get\<close> among the events.\<close>

definition gets :: "event list \<Rightarrow> event list" where
  "gets evs =
     filter (\<lambda>ev. case fst ev of NinaClient_get u q w \<Rightarrow> True | _ \<Rightarrow> False) evs"

text \<open>
  What a transaction function returns from its \<open>try\<close> block: the answer of the last
  \<open>NinaClient.get\<close> (\<open>Fetched\<close>), that answer as \<open>{release: answer}\<close> (\<open>FetchedRelease\<close>), or a
  value made of what the function has at hand, with no \<open>NinaClient.get\<close> after the
  submission (\<open>Local\<close>).
\<close>

datatype answer = Fetched | FetchedRelease | Local

definition answer_of :: "operation \<Rightarrow> answer" where
  "answer_of op =
     (case op of
        HubInit c p \<Rightarrow> Fetched
      | HubUpdateConfig c h u pf rf \<Rightarrow> Fetched
      | HubAddCollaborator c h cp cc cl a \<Rightarrow> Fetched
      | HubUpdateCollaboratorPermission c h cp cc cl a \<Rightarrow> Fetched
      | HubRemoveCollaborator c h cp \<Rightarrow> Fetched
      | HubAddRelease c h r f \<Rightarrow> Fetched
      | PurchaseViaHub c r h \<Rightarrow> FetchedRelease
      | ReleasePurchase c r \<Rightarrow> FetchedRelease
      | ReleaseInitViaHub c as \<Rightarrow> FetchedRelease
      | ReleaseInit c as \<Rightarrow> FetchedRelease
      | CloseRelease c r \<Rightarrow> FetchedRelease
      | CollectRoyaltyForRelease c rc r \<Rightarrow> FetchedRelease
      | AddRoyaltyRecipient c ra ps r \<Rightarrow> FetchedRelease
      | _ \<Rightarrow> Local)"

definition returned :: "answer \<Rightarrow> jsval \<Rightarrow> event list \<Rightarrow> bool" where
  "returned a v rest =
     (case a of
        Fetched \<Rightarrow> gets rest \<noteq> [] \<and> snd (last (gets rest)) = Ok v
      | FetchedRelease \<Rightarrow>
          gets rest \<noteq> [] \<and>
          (case snd (last (gets rest)) of
             Ok x \<Rightarrow> v = JObj [(''release'', x)]
           | Throw x \<Rightarrow> False)
      | Local \<Rightarrow> gets rest = [])"

text \<open>
  \<open>completes op v evs\<close>: among the events \<open>evs\<close> of the call there is a transaction sent
  through the wallet, and \<open>v\<close> is the value that \<open>op\<close> returns after it.
\<close>

definition completes :: "operation \<Rightarrow> jsval \<Rightarrow> event list \<Rightarrow> bool" where
  "completes op v evs =
     (case after_send evs of None \<Rightarrow> False | Some rest \<Rightarrow> returned (answer_of op) v rest)"

text \<open>
  The functions whose \<open>try\<close> block returns only after a submission through the wallet:
  all but \<open>initializeReleaseAndMint\<close>, which builds no transaction, \<open>hubInitWithCredit\<close>, which
  sends through \<open>rpc()\<close>, and \<open>collectRoyaltyForRelease\<close> when its guard returns at once (one
  of its two arguments is falsy).
\<close>

definition submits :: "operation \<Rightarrow> bool" where
  "submits op =
     (case op of
        InitializeReleaseAndMint c h \<Rightarrow> False
      | HubInitWithCredit p w cn ids \<Rightarrow> False
      | CollectRoyaltyForRelease c rc r \<Rightarrow> truthy r \<and> truthy rc
      | _ \<Rightarrow> True)"

section \<open>Basic facts about the steps\<close>

lemma bnd_lift_Ok [simp]: "bnd (lift (Ok v)) k = k v"
  by (simp add: bnd_def lift_def)

lemma bnd_ret [simp]: "bnd (ret v) k = k v"
  by (simp add: bnd_def ret_def)

lemma js_prop_field:
  "v \<noteq> Undefined \<Longrightarrow> v \<noteq> Null \<Longrightarrow> k \<noteq> ''caller'' \<Longrightarrow> k \<noteq> ''arguments'' \<Longrightarrow>
   js_prop v k = Ok (field v k)"
  by (cases v) (simp_all add: field_def split: option.splits)

lemma handledI:
  "handled lvl snt (try_catch m (\<lambda>error. bnd (console lvl [error]) (\<lambda>_. ret (snt error)))) m"
  by (auto simp: handled_def try_catch_def bnd_def console_def ret_def
           split: prod.splits outcome.splits)


text \<open>The definitions of the steps, for running a function on a sample environment.\<close>

lemmas steps =
  bnd_def ret_def thrw_def lift_def call_def libc_def try_catch_def to_str_def prp_def
  pth_def el_def setp_def nina_def process_env_get_def konst_def heap_obj_def heap_prp_def
  heap_setp_def console_def meth_def obj_def new_PublicKey_def new_BN_def arith_def
  utf8_buffer_def toBuffer_def toBase58_def findProgramAddress_def wallet_publicKey_def
  connection_def findOrCreateAssociatedTokenAccount_def methods_transaction_def stamp_def
  sendTransaction_def getConfirmTransaction_def getParsedTransaction_def Hub_fetch_def
  Release_fetch_def Exchange_fetch_def Hub_fetchHubCollaborator_def Hub_fetchHubRelease_def
  dflt_def arg_def Let_def

lemmas samples =
  demo_env_def demo_world_def demo_ids_def demo_wallet_def demo_provider_def
  demo_client_def demo_account_def down_env_def start_def from_Object_def inherited_def
  Object_prototype_def

section \<open>Rules for \<open>each\<close>: one per kind of step\<close>

lemma bnd_assoc: "bnd (bnd m f) g = bnd m (\<lambda>x. bnd (f x) g)"
  by (auto simp: bnd_def fun_eq_iff split: prod.splits outcome.splits)

lemma bnd_thrw [simp]: "bnd (thrw x) k = thrw x"
  by (simp add: bnd_def thrw_def)

lemma bnd_if: "bnd (if c then m else n) k = (if c then bnd m k else bnd n k)"
  by simp

lemma eachI:
  assumes "\<And>s r s'. I (heap s) \<Longrightarrow> m e s = (r, s') \<Longrightarrow>
             I (heap s') \<and> (\<exists>new. trace s' = trace s @ new \<and> list_all P new)"
  shows "each e I P m"
  using assms unfolding each_def by blast

lemma eachD:
  assumes "each e I P m" and "I (heap s)" and "m e s = (r, s')"
  shows "I (heap s') \<and> (\<exists>new. trace s' = trace s @ new \<and> list_all P new)"
  using assms unfolding each_def by blast

lemma each_trace:
  assumes "each e (\<lambda>h. True) P m"
  shows "\<exists>new. trace (snd (m e s)) = trace s @ new \<and> list_all P new"
proof -
  obtain r s' where "m e s = (r, s')" by (cases "m e s")
  with eachD [OF assms, of s r s'] show ?thesis by simp
qed

lemma each_bnd_gen:
  assumes m: "each e I P m"
      and k: "\<And>s x s'. I (heap s) \<Longrightarrow> m e s = (Ok x, s') \<Longrightarrow> each e I P (k x)"
  shows "each e I P (bnd m k)"
proof (rule eachI)
  fix s r s'
  assume I: "I (heap s)" and run: "bnd m k e s = (r, s')"
  obtain r1 s1 where m1: "m e s = (r1, s1)" by (cases "m e s")
  from eachD [OF m I m1] obtain new1
    where I1: "I (heap s1)" and t1: "trace s1 = trace s @ new1" and p1: "list_all P new1"
    by blast
  show "I (heap s') \<and> (\<exists>new. trace s' = trace s @ new \<and> list_all P new)"
  proof (cases r1)
    case (Ok x)
    with run m1 have kx: "k x e s1 = (r, s')" by (simp add: bnd_def)
    have "each e I P (k x)" using k I m1 Ok by blast
    from eachD [OF this I1 kx] obtain new2
      where "I (heap s')" and "trace s' = trace s1 @ new2" and "list_all P new2" by blast
    with t1 p1 show ?thesis by simp
  next
    case (Throw x)
    with run m1 have "s' = s1" by (simp add: bnd_def)
    with I1 t1 p1 show ?thesis by blast
  qed
qed

lemma each_bnd:
  "each e I P m \<Longrightarrow> (\<And>x. each e I P (k x)) \<Longrightarrow> each e I P (bnd m k)"
  by (rule each_bnd_gen)

lemma each_ret: "each e I P (ret v)"
  by (rule eachI) (auto simp: ret_def)

lemma each_thrw: "each e I P (thrw v)"
  by (rule eachI) (auto simp: thrw_def)

lemma each_lift: "each e I P (lift r)"
  by (rule eachI) (auto simp: lift_def)

lemma each_libc: "each e I P (libc c)"
  by (rule eachI) (auto simp: libc_def)

lemma each_meth: "each e I P (meth recv n as)"
  by (simp add: meth_def each_thrw each_libc)

lemma each_nina: "each e I P (nina ks)"
  by (rule eachI) (auto simp: nina_def)

lemma each_process_env_get: "each e I P (process_env_get k)"
  by (rule eachI) (auto simp: process_env_get_def)

lemma each_konst: "each e I P (konst n)"
  by (rule eachI) (auto simp: konst_def)

lemma each_heap_obj: "each e I P (heap_obj a)"
  by (rule eachI) (auto simp: heap_obj_def)

lemma each_heap_prp: "each e I P (heap_prp a k)"
  by (rule eachI) (auto simp: heap_prp_def)

lemma each_to_str: "each e I P (to_str v)"
  by (cases v) (auto simp: to_str_def each_ret each_thrw each_libc intro!: each_bnd split: jsval.splits)

lemma each_call: "(\<And>r. P (c, r)) \<Longrightarrow> each e I P (call c)"
  by (rule eachI) (auto simp: call_def)

lemma each_console: "P (Console lvl as, Ok Undefined) \<Longrightarrow> each e I P (console lvl as)"
  by (rule eachI) (auto simp: console_def)

lemma each_heap_setp:
  "(\<And>h v. I h \<Longrightarrow> set_prop (h a) k x = Ok v \<Longrightarrow> I (h(a := v))) \<Longrightarrow>
   each e I P (heap_setp a k x)"
  by (rule eachI) (auto simp: heap_setp_def split: outcome.splits)

lemma each_if: "each e I P m \<Longrightarrow> each e I P n \<Longrightarrow> each e I P (if c then m else n)"
  by simp

lemma each_try_catch:
  assumes m: "each e I P m" and h: "\<And>x. each e I P (h x)"
  shows "each e I P (try_catch m h)"
proof (rule eachI)
  fix s r s'
  assume I: "I (heap s)" and run: "try_catch m h e s = (r, s')"
  obtain r1 s1 where m1: "m e s = (r1, s1)" by (cases "m e s")
  from eachD [OF m I m1] obtain new1
    where I1: "I (heap s1)" and t1: "trace s1 = trace s @ new1" and p1: "list_all P new1"
    by blast
  show "I (heap s') \<and> (\<exists>new. trace s' = trace s @ new \<and> list_all P new)"
  proof (cases r1)
    case (Ok x)
    with run m1 have "s' = s1" by (simp add: try_catch_def)
    with I1 t1 p1 show ?thesis by blast
  next
    case (Throw x)
    with run m1 have hx: "h x e s1 = (r, s')" by (simp add: try_catch_def)
    from eachD [OF h I1 hx] obtain new2
      where "I (heap s')" and "trace s' = trace s1 @ new2" and "list_all P new2" by blast
    with t1 p1 show ?thesis by simp
  qed
qed

text \<open>Steps whose result does not depend on the state pass it on as a fact.\<close>

lemma each_bnd_lift:
  "(\<And>x. r = Ok x \<Longrightarrow> each e I P (k x)) \<Longrightarrow> each e I P (bnd (lift r) k)"
  by (rule each_bnd_gen [OF each_lift]) (simp add: lift_def)

lemma each_bnd_libc:
  "(\<And>x. lib e c = Ok x \<Longrightarrow> each e I P (k x)) \<Longrightarrow> each e I P (bnd (libc c) k)"
  by (rule each_bnd_gen [OF each_libc]) (simp add: libc_def)

lemma each_bnd_meth:
  "(\<And>x. lib e (Method recv n as) = Ok x \<Longrightarrow> each e I P (k x)) \<Longrightarrow>
   each e I P (bnd (meth recv n as) k)"
  by (rule each_bnd_gen [OF each_meth]) (simp add: meth_def libc_def thrw_def split: if_splits)

lemma each_bnd_nina:
  "(\<And>x. js_path (NinaClient e) ks = Ok x \<Longrightarrow> each e I P (k x)) \<Longrightarrow>
   each e I P (bnd (nina ks) k)"
  by (rule each_bnd_gen [OF each_nina]) (simp add: nina_def)

lemma each_bnd_konst: "each e I P (k (libconst e n)) \<Longrightarrow> each e I P (bnd (konst n) k)"
  by (rule each_bnd_gen [OF each_konst]) (auto simp: konst_def)

lemma each_bnd_heap_prp:
  "(\<And>x h. I h \<Longrightarrow> js_prop (h a) f = Ok x \<Longrightarrow> each e I P (k x)) \<Longrightarrow>
   each e I P (bnd (heap_prp a f) k)"
  by (rule each_bnd_gen [OF each_heap_prp]) (auto simp: heap_prp_def)

lemma each_bnd_call:
  "(\<And>r. P (c, r)) \<Longrightarrow> (\<And>x. each e I P (k x)) \<Longrightarrow> each e I P (bnd (call c) k)"
  by (rule each_bnd [OF each_call])


text \<open>
  Unfolding the idioms and re-associating turns a function into one chain of steps, to which
  the rules apply one after the other.
\<close>

lemmas flat =
  Let_def bnd_assoc bnd_ret bnd_lift_Ok seq.simps obj_def list.map fst_conv snd_conv
  zip_Cons_Cons zip_Nil append_Cons append_Nil
  prp_def pth_def el_def setp_def new_PublicKey_def new_BN_def arith_def utf8_buffer_def
  toBuffer_def toBase58_def findProgramAddress_def wallet_publicKey_def connection_def
  findOrCreateAssociatedTokenAccount_def methods_transaction_def stamp_def
  sendTransaction_def getConfirmTransaction_def getParsedTransaction_def

lemmas each_quiet =
  each_bnd each_ret each_thrw each_lift each_libc each_meth each_nina each_konst each_to_str
  each_process_env_get each_heap_obj each_heap_prp each_if each_call

lemma each_bnd_BN:
  "(\<And>x. lib e (New ''anchor.BN'' as) = Ok x \<Longrightarrow> each e I P (k x)) \<Longrightarrow>
   each e I P (bnd (libc (New ''anchor.BN'' as)) k)"
  by (rule each_bnd_libc)

lemma arg_0: "arg (x # xs) 0 = x"
  by (simp add: arg_def)

section \<open>The fetch helpers\<close>

lemma fetchAll_calls:
  assumes "pagination \<noteq> Null"
  shows "(let query =
            JObj [(''limit'', if truthy (field pagination ''limit'')
                              then field pagination ''limit'' else JNum 20),
                  (''offset'', if truthy (field pagination ''offset'')
                               then field pagination ''offset'' else JNum 0),
                  (''sort'', if truthy (field pagination ''sort'')
                             then field pagination ''sort'' else JStr ''desc'')];
              flag = dflt withAccountData (JBool False)
          in Hub_fetchAll pagination withAccountData e s =
               call (NinaClient_get (JStr ''/hubs'') query flag) e s
           \<and> Release_fetchAll pagination withAccountData e s =
               call (NinaClient_get (JStr ''/releases'') query flag) e s
           \<and> Exchange_fetchAll pagination withAccountData e s =
               call (NinaClient_get (JStr ''/exchanges'') query flag) e s)"
proof (cases "pagination = Undefined")
  case True
  then show ?thesis
    by (simp add: Hub_fetchAll_def Release_fetchAll_def Exchange_fetchAll_def
        dflt_def field_def js_or_def from_Object_def inherited_def Object_prototype_def)
next
  case False
  with assms show ?thesis
    by (simp add: Hub_fetchAll_def Release_fetchAll_def Exchange_fetchAll_def
        dflt_def js_or_def js_prop_field Let_def)
qed

lemma fetchAll_Null:
  "Hub_fetchAll Null withAccountData e s = (Throw TypeError, s)"
  "Release_fetchAll Null withAccountData e s = (Throw TypeError, s)"
  "Exchange_fetchAll Null withAccountData e s = (Throw TypeError, s)"
  by (simp_all add: Hub_fetchAll_def Release_fetchAll_def Exchange_fetchAll_def dflt_def
        lift_def bnd_def Let_def)

text \<open>
  C6, as stated, fails for the three \<open>fetchAll\<close> helpers: called with \<open>null\<close> as the
  pagination, \<open>Release.fetchAll\<close> throws a TypeError (the destructuring of \<open>null\<close>) and makes
  no request at all.
\<close>

theorem fetchAll_null_makes_no_request:
  "Release_fetchAll Null Undefined echo_env start = (Throw TypeError, start)"
  by (simp add: Release_fetchAll_def dflt_def lift_def bnd_def Let_def)

text \<open>
  C6, amended. Every exported fetch helper is exactly one call of \<open>NinaClient.get\<close> on the
  path built from its arguments (\<open>p\<close> and \<open>q\<close> are the first and the second argument as
  text), and what the helper returns is what that call returns, with one event added to
  the trace; the one exception is a \<open>fetchAll\<close> called with \<open>null\<close>, which throws a TypeError
  before any request. \<open>Hub.fetch\<close>, \<open>Release.fetch\<close> and the helpers for the collections of
  a hub or a release send no query; \<open>Exchange.fetch\<close> sends the query \<open>{transactionId}\<close> when
  a transaction id is given (a truthy value) and no query otherwise; \<open>fetchExchanges\<close> passes
  its pagination on; the \<open>fetchAll\<close> helpers send the query \<open>{limit, offset, sort}\<close> of the
  next section. The \<open>withAccountData\<close> flag is passed on, \<open>false\<close> when it is omitted;
  \<open>fetchCollaborators\<close> and \<open>fetchCollectors\<close> pass the path alone.
\<close>

theorem fetch_is_one_get:
  assumes "to_str publicKey e s = (Ok (JStr p), s)"
      and "to_str second e s = (Ok (JStr q), s)"
  shows "Hub_fetch publicKey withAccountData e s =
           call (NinaClient_get (JStr (''/hubs/'' @ p)) Undefined
                   (dflt withAccountData (JBool False))) e s
       \<and> Release_fetch publicKey withAccountData e s =
           call (NinaClient_get (JStr (''/releases/'' @ p)) Undefined
                   (dflt withAccountData (JBool False))) e s
       \<and> Exchange_fetch publicKey withAccountData transactionId e s =
           call (NinaClient_get (JStr (''/exchanges/'' @ p))
                   (if truthy transactionId then JObj [(''transactionId'', transactionId)]
                    else Undefined)
                   (dflt withAccountData (JBool False))) e s
       \<and> Hub_fetchCollaborators publicKey e s =
           call (NinaClient_get (JStr (''/hubs/'' @ p @ ''/collaborators'')) Undefined
                   Undefined) e s
       \<and> Hub_fetchReleases publicKey withAccountData e s =
           call (NinaClient_get (JStr (''/hubs/'' @ p @ ''/releases'')) Undefined
                   (dflt withAccountData (JBool False))) e s
       \<and> Hub_fetchPosts publicKey withAccountData e s =
           call (NinaClient_get (JStr (''/hubs/'' @ p @ ''/posts'')) Undefined
                   (dflt withAccountData (JBool False))) e s
       \<and> Hub_fetchHubRelease publicKey second withAccountData e s =
           call (NinaClient_get (JStr (''/hubs/'' @ p @ ''/hubReleases/'' @ q)) Undefined
                   (dflt withAccountData (JBool False))) e s
       \<and> Hub_fetchHubPost publicKey second withAccountData e s =
           call (NinaClient_get (JStr (''/hubs/'' @ p @ ''/hubPosts/'' @ q)) Undefined
                   (dflt withAccountData (JBool False))) e s
       \<and> Hub_fetchSubscriptions publicKey withAccountData e s =
           call (NinaClient_get (JStr (''/hubs/'' @ p @ ''/subscriptions'')) Undefined
                   (dflt withAccountData (JBool False))) e s
       \<and> Release_fetchCollectors publicKey withCollection e s =
           call (NinaClient_get
                   (JStr (''/releases/'' @ p @ ''/collectors'' @
                          (if truthy (dflt withCollection (JBool False))
                           then ''?withCollection=true'' else [])))
                   Undefined Undefined) e s
       \<and> Release_fetchHubs publicKey withAccountData e s =
           call (NinaClient_get (JStr (''/releases/'' @ p @ ''/hubs'')) Undefined
                   (dflt withAccountData (JBool False))) e s
       \<and> Release_fetchExchanges publicKey withAccountData pagination e s =
           call (NinaClient_get (JStr (''/releases/'' @ p @ ''/exchanges'')) pagination
                   (dflt withAccountData (JBool False))) e s
       \<and> Release_fetchRevenueShareRecipients publicKey withAccountData e s =
           call (NinaClient_get (JStr (''/releases/'' @ p @ ''/revenueShareRecipients''))
                   Undefined (dflt withAccountData (JBool False))) e s
       \<and> (pagination \<noteq> Null \<longrightarrow>
         (let query =
             JObj [(''limit'', if truthy (field pagination ''limit'')
                               then field pagination ''limit'' else JNum 20),
                   (''offset'', if truthy (field pagination ''offset'')
                                then field pagination ''offset'' else JNum 0),
                   (''sort'', if truthy (field pagination ''sort'')
                              then field pagination ''sort'' else JStr ''desc'')];
               flag = dflt withAccountData (JBool False)
           in Hub_fetchAll pagination withAccountData e s =
                call (NinaClient_get (JStr ''/hubs'') query flag) e s
            \<and> Release_fetchAll pagination withAccountData e s =
                call (NinaClient_get (JStr ''/releases'') query flag) e s
            \<and> Exchange_fetchAll pagination withAccountData e s =
                call (NinaClient_get (JStr ''/exchanges'') query flag) e s))
       \<and> Hub_fetchAll Null withAccountData e s = (Throw TypeError, s)
       \<and> Release_fetchAll Null withAccountData e s = (Throw TypeError, s)
       \<and> Exchange_fetchAll Null withAccountData e s = (Throw TypeError, s)
       \<and> (\<forall>c. call c e s =
              (world e (trace s) c, s\<lparr>trace := trace s @ [(c, world e (trace s) c)]\<rparr>))"
proof -
  have all: "pagination \<noteq> Null \<longrightarrow>
         (let query =
             JObj [(''limit'', if truthy (field pagination ''limit'')
                               then field pagination ''limit'' else JNum 20),
                   (''offset'', if truthy (field pagination ''offset'')
                                then field pagination ''offset'' else JNum 0),
                   (''sort'', if truthy (field pagination ''sort'')
                              then field pagination ''sort'' else JStr ''desc'')];
               flag = dflt withAccountData (JBool False)
           in Hub_fetchAll pagination withAccountData e s =
                call (NinaClient_get (JStr ''/hubs'') query flag) e s
            \<and> Release_fetchAll pagination withAccountData e s =
                call (NinaClient_get (JStr ''/releases'') query flag) e s
            \<and> Exchange_fetchAll pagination withAccountData e s =
                call (NinaClient_get (JStr ''/exchanges'') query flag) e s)"
    using fetchAll_calls [of pagination withAccountData e s] by blast
  have null: "Hub_fetchAll Null withAccountData e s = (Throw TypeError, s)"
    "Release_fetchAll Null withAccountData e s = (Throw TypeError, s)"
    "Exchange_fetchAll Null withAccountData e s = (Throw TypeError, s)"
    by (rule fetchAll_Null)+
  have one: "Hub_fetch publicKey withAccountData e s =
           call (NinaClient_get (JStr (''/hubs/'' @ p)) Undefined
                   (dflt withAccountData (JBool False))) e s"
    "Release_fetch publicKey withAccountData e s =
           call (NinaClient_get (JStr (''/releases/'' @ p)) Undefined
                   (dflt withAccountData (JBool False))) e s"
    "Exchange_fetch publicKey withAccountData transactionId e s =
           call (NinaClient_get (JStr (''/exchanges/'' @ p))
                   (if truthy transactionId then JObj [(''transactionId'', transactionId)]
                    else Undefined)
                   (dflt withAccountData (JBool False))) e s"
    using assms
    by (simp_all add: Hub_fetch_def Release_fetch_def Exchange_fetch_def bnd_def dflt_def
          call_def Let_def)
  have hub: "Hub_fetchCollaborators publicKey e s =
           call (NinaClient_get (JStr (''/hubs/'' @ p @ ''/collaborators'')) Undefined
                   Undefined) e s"
    "Hub_fetchReleases publicKey withAccountData e s =
           call (NinaClient_get (JStr (''/hubs/'' @ p @ ''/releases'')) Undefined
                   (dflt withAccountData (JBool False))) e s"
    "Hub_fetchPosts publicKey withAccountData e s =
           call (NinaClient_get (JStr (''/hubs/'' @ p @ ''/posts'')) Undefined
                   (dflt withAccountData (JBool False))) e s"
    "Hub_fetchHubRelease publicKey second withAccountData e s =
           call (NinaClient_get (JStr (''/hubs/'' @ p @ ''/hubReleases/'' @ q)) Undefined
                   (dflt withAccountData (JBool False))) e s"
    "Hub_fetchHubPost publicKey second withAccountData e s =
           call (NinaClient_get (JStr (''/hubs/'' @ p @ ''/hubPosts/'' @ q)) Undefined
                   (dflt withAccountData (JBool False))) e s"
    "Hub_fetchSubscriptions publicKey withAccountData e s =
           call (NinaClient_get (JStr (''/hubs/'' @ p @ ''/subscriptions'')) Undefined
                   (dflt withAccountData (JBool False))) e s"
    using assms
    by (simp_all add: Hub_fetchCollaborators_def Hub_fetchReleases_def Hub_fetchPosts_def
          Hub_fetchHubRelease_def Hub_fetchHubPost_def Hub_fetchSubscriptions_def bnd_def
          dflt_def call_def Let_def)
  have release: "Release_fetchCollectors publicKey withCollection e s =
           call (NinaClient_get
                   (JStr (''/releases/'' @ p @ ''/collectors'' @
                          (if truthy (dflt withCollection (JBool False))
                           then ''?withCollection=true'' else [])))
                   Undefined Undefined) e s"
    "Release_fetchHubs publicKey withAccountData e s =
           call (NinaClient_get (JStr (''/releases/'' @ p @ ''/hubs'')) Undefined
                   (dflt withAccountData (JBool False))) e s"
    "Release_fetchExchanges publicKey withAccountData pagination e s =
           call (NinaClient_get (JStr (''/releases/'' @ p @ ''/exchanges'')) pagination
                   (dflt withAccountData (JBool False))) e s"
    "Release_fetchRevenueShareRecipients publicKey withAccountData e s =
           call (NinaClient_get (JStr (''/releases/'' @ p @ ''/revenueShareRecipients''))
                   Undefined (dflt withAccountData (JBool False))) e s"
    using assms
    by (simp_all add: Release_fetchCollectors_def Release_fetchHubs_def
          Release_fetchExchanges_def Release_fetchRevenueShareRecipients_def bnd_def
          dflt_def call_def Let_def)
  have c: "\<forall>c. call c e s =
              (world e (trace s) c, s\<lparr>trace := trace s @ [(c, world e (trace s) c)]\<rparr>)"
    by (simp add: call_def)
  from one hub release all null c show ?thesis by blast
qed

theorem fetch_is_one_get_witness:
  "to_str (JStr ''ninas-picks'') echo_env start = (Ok (JStr ''ninas-picks''), start)
   \<and> to_str (JStr ''post1'') echo_env start = (Ok (JStr ''post1''), start)
   \<and> Hub_fetch (JStr ''ninas-picks'') Undefined echo_env start =
       (Ok (JStr ''answer''),
        start\<lparr>trace := [(NinaClient_get (JStr ''/hubs/ninas-picks'') Undefined (JBool False),
                            Ok (JStr ''answer''))]\<rparr>)
   \<and> Exchange_fetch (JStr ''ninas-picks'') (JBool True) (JStr ''tx1'') echo_env start =
       (Ok (JStr ''answer''),
        start\<lparr>trace := [(NinaClient_get (JStr ''/exchanges/ninas-picks'')
                             (JObj [(''transactionId'', JStr ''tx1'')]) (JBool True),
                            Ok (JStr ''answer''))]\<rparr>)
   \<and> Hub_fetchHubPost (JStr ''ninas-picks'') (JStr ''post1'') (JBool True) echo_env start =
       (Ok (JStr ''answer''),
        start\<lparr>trace := [(NinaClient_get (JStr ''/hubs/ninas-picks/hubPosts/post1'')
                             Undefined (JBool True),
                            Ok (JStr ''answer''))]\<rparr>)
   \<and> Release_fetchCollectors (JStr ''ninas-picks'') (JBool True) echo_env start =
       (Ok (JStr ''answer''),
        start\<lparr>trace := [(NinaClient_get
                             (JStr ''/releases/ninas-picks/collectors?withCollection=true'')
                             Undefined Undefined,
                            Ok (JStr ''answer''))]\<rparr>)
   \<and> JObj [(''offset'', JNum 40)] \<noteq> Null
   \<and> Release_fetchAll (JObj [(''offset'', JNum 40)]) (JBool True) echo_env start =
       (Ok (JStr ''answer''),
        start\<lparr>trace := [(NinaClient_get (JStr ''/releases'')
                             (JObj [(''limit'', JNum 20), (''offset'', JNum 40),
                                    (''sort'', JStr ''desc'')])
                             (JBool True),
                            Ok (JStr ''answer''))]\<rparr>)"
proof -
  have h: "to_str (JStr ''ninas-picks'') echo_env start = (Ok (JStr ''ninas-picks''), start)"
    by (simp add: to_str_def ret_def)
  have k: "to_str (JStr ''post1'') echo_env start = (Ok (JStr ''post1''), start)"
    by (simp add: to_str_def ret_def)
  show ?thesis
    using h k
          fetch_is_one_get [OF h k, where withAccountData = Undefined
                            and transactionId = Undefined and withCollection = Undefined
                            and pagination = "JObj []"]
          fetch_is_one_get [OF h k, where withAccountData = "JBool True"
                            and transactionId = "JStr ''tx1''" and withCollection = "JBool True"
                            and pagination = "JObj [(''offset'', JNum 40)]"]
    by (simp add: call_def echo_env_def start_def dflt_def field_def from_Object_def
          inherited_def Object_prototype_def Let_def)
qed

section \<open>The query of \<open>fetchAll\<close>\<close>

text \<open>
  C7, as stated, fails at \<open>null\<close>: the destructuring \<open>const {limit, offset, sort} = null\<close>
  throws a TypeError, and \<open>Hub.fetchAll(null)\<close> issues no request.
\<close>

theorem fetchAll_null_throws:
  "Hub_fetchAll Null Undefined echo_env start = (Throw TypeError, start)"
  by (simp add: Hub_fetchAll_def dflt_def lift_def bnd_def Let_def)

text \<open>
  C7, amended. For every pagination argument other than \<open>null\<close> (omitted, or any value;
  \<open>field\<close> reads a property of it, own or inherited), each \<open>fetchAll\<close> is one call of
  \<open>NinaClient.get\<close> on its collection with the query \<open>limit\<close>, \<open>offset\<close>, \<open>sort\<close>, where
  each is the caller's value when that is truthy and 20, 0, \<open>'desc'\<close> otherwise. In
  particular a limit of 0 becomes 20 and an offset of 0 stays 0; for an array as pagination
  the sort that is sent is the array's method \<open>sort\<close>.
\<close>

theorem fetchAll_query:
  assumes "pagination \<noteq> Null"
  shows "(let query =
            JObj [(''limit'', if truthy (field pagination ''limit'')
                              then field pagination ''limit'' else JNum 20),
                  (''offset'', if truthy (field pagination ''offset'')
                               then field pagination ''offset'' else JNum 0),
                  (''sort'', if truthy (field pagination ''sort'')
                             then field pagination ''sort'' else JStr ''desc'')];
              flag = dflt withAccountData (JBool False)
          in Hub_fetchAll pagination withAccountData e s =
               call (NinaClient_get (JStr ''/hubs'') query flag) e s
           \<and> Release_fetchAll pagination withAccountData e s =
               call (NinaClient_get (JStr ''/releases'') query flag) e s
           \<and> Exchange_fetchAll pagination withAccountData e s =
               call (NinaClient_get (JStr ''/exchanges'') query flag) e s)"
  using assms by (rule fetchAll_calls)

theorem fetchAll_query_witness:
  "JObj [(''limit'', JNum 0), (''offset'', JNum 0)] \<noteq> Null
   \<and> Hub_fetchAll (JObj [(''limit'', JNum 0), (''offset'', JNum 0)]) Undefined echo_env start =
       call (NinaClient_get (JStr ''/hubs'')
               (JObj [(''limit'', JNum 20), (''offset'', JNum 0), (''sort'', JStr ''desc'')])
               (JBool False)) echo_env start
   \<and> Release_fetchAll (JObj [(''limit'', JNum 0), (''offset'', JNum 0)]) Undefined echo_env start =
       call (NinaClient_get (JStr ''/releases'')
               (JObj [(''limit'', JNum 20), (''offset'', JNum 0), (''sort'', JStr ''desc'')])
               (JBool False)) echo_env start
   \<and> Exchange_fetchAll (JArr []) (JBool True) echo_env start =
       call (NinaClient_get (JStr ''/exchanges'')
               (JObj [(''limit'', JNum 20), (''offset'', JNum 0),
                      (''sort'', JFun ''Array.prototype.sort'' 1)])
               (JBool True)) echo_env start"
  using fetchAll_query [of "JObj [(''limit'', JNum 0), (''offset'', JNum 0)]" Undefined echo_env start]
        fetchAll_query [of "JArr []" "JBool True" echo_env start]
  by (simp add: field_def dflt_def Let_def from_Object_def inherited_def Object_prototype_def
        Array_prototype_def index_name_def)

section \<open>Error handling\<close>

lemma handled_ret: "handled lvl snt (ret v) (ret v)"
  by (simp add: handled_def ret_def)

text \<open>
  C1, as stated, fails in the Release module: when the first outside call of
  \<open>purchaseViaHub\<close> throws \<open>'rpc down'\<close>, the caller receives the object
  \<open>{error: 'rpc down'}\<close>, which carries the caught error and is no boolean.
\<close>

theorem purchaseViaHub_returns_error_object:
  "fst (purchaseViaHub demo_client (JStr ''release1'') (JStr ''hub1'') down_env start) =
     Ok (JObj [(''error'', JStr ''rpc down'')])"
  by (simp add: purchaseViaHub_def purchaseViaHub_body_def steps samples)

text \<open>
  \<open>exchangeCancel\<close> is the one transaction function without a handler; in the same
  environment its call throws.
\<close>

lemma exchangeCancel_throws:
  "fst (exchangeCancel demo_client (JObj [(''publicKey'', JStr ''exchange1'')])
          (JStr ''release1'') down_env start) = Throw (JStr ''rpc down'')"
  by (simp add: exchangeCancel_def steps samples)

text \<open>
  C1, amended. Every transaction function that has a handler (all but \<open>exchangeCancel\<close>)
  never throws, in any environment and state. Where its \<open>try\<close> block returns, the call
  returns the same value in the same state. Where the block throws \<open>x\<close>, the call writes
  \<open>x\<close> to the console (one line, at the \<open>level\<close> of the function) and returns the function's
  \<open>sentinel\<close>: \<open>false\<close> in the Hub and Exchange modules and in \<open>initializeReleaseAndMint\<close>,
  \<open>undefined\<close> in \<open>hubInit\<close>, and the object \<open>{error: x}\<close> in the other functions of the
  Release module.
\<close>

theorem errors_are_caught:
  "has_handler op \<Longrightarrow> handled (level op) (sentinel op) (run op) (body op)"
  by (cases op)
     (simp_all add: has_handler_def level_def sentinel_def module_of_def handledI handled_ret
        hubInit_def hubUpdateConfig_def hubAddCollaborator_def
        hubUpdateCollaboratorPermission_def hubRemoveCollaborator_def
        hubContentToggleVisibility_def hubAddRelease_def postInitViaHub_def
        postUpdateViaHub_def collectRoyaltyForReleaseViaHub_def hubWithdraw_def
        exchangeInit_def exchangeAccept_def purchaseViaHub_def releasePurchase_def
        releaseInitViaHub_def initializeReleaseAndMint_def releaseInit_def closeRelease_def
        collectRoyaltyForRelease_def addRoyaltyRecipient_def hubInitWithCredit_def)

theorem errors_are_caught_witness:
  "has_handler (CloseRelease demo_client (JStr ''release1''))
   \<and> handled ''warn'' (\<lambda>x. JObj [(''error'', x)])
        (closeRelease demo_client (JStr ''release1''))
        (closeRelease_body demo_client (JStr ''release1''))"
  using errors_are_caught [of "CloseRelease demo_client (JStr ''release1'')"]
  by (simp add: has_handler_def level_def sentinel_def module_of_def)

section \<open>The caller's objects\<close>

lemma lookup_obj_update: "lookup (obj_update k x kv) k' = (if k' = k then x else lookup kv k')"
  by (induction kv) auto

lemma js_prop_set_prop:
  "set_prop v k x = Ok v' \<Longrightarrow> k' \<noteq> k \<Longrightarrow> js_prop v' k' = js_prop v k'"
  by (cases v) (auto simp: lookup_obj_update)

lemma same_but_set:
  assumes "same_but a h0 h" and "set_prop (h a) k x = Ok v" and "k \<in> set rewritten"
  shows "same_but a h0 (h(a := v))"
  using assms js_prop_set_prop [of "h a" k x v]
  unfolding same_but_def by (metis fun_upd_apply)

lemma each_call_any: "each e I (\<lambda>ev. True) (call c)"
  by (rule each_call) simp

lemma each_console_any: "each e I (\<lambda>ev. True) (console lvl as)"
  by (rule each_console) simp

lemma each_case_JArr:
  "(\<And>xs. each e I P (f xs)) \<Longrightarrow> each e I P g \<Longrightarrow>
   each e I P (case v of JArr xs \<Rightarrow> f xs | _ \<Rightarrow> g)"
  by (cases v) simp_all

lemma each_find_recipient: "each e I P (find_recipient hub xs)"
  by (induction xs)
     (auto simp: prp_def toBase58_def intro!: each_ret each_bnd each_lift each_meth)

lemma each_count_keys: "each e I P (count_keys n ixs)"
  by (induction ixs arbitrary: n)
     (auto simp: pth_def arith_def intro!: each_ret each_bnd each_lift each_libc)

lemma each_account_count: "each e I P (account_count v)"
  unfolding account_count_def by (intro each_case_JArr each_count_keys each_thrw)

lemma each_swap_instructions: "each e I P (swap_instructions v)"
  unfolding swap_instructions_def pth_def prp_def
  by (intro each_bnd each_lift each_libc)

lemma each_swap_routes:
  "(\<And>u b r. P (Axios_post u b, r)) \<Longrightarrow> each e I P (swap_routes provider ti ds)"
proof (induction ds arbitrary: ti)
  case Nil
  show ?case by (simp add: each_ret)
next
  case (Cons d ds)
  show ?case
    unfolding swap_routes.simps wallet_publicKey_def pth_def toBase58_def arith_def
    by (intro each_bnd each_lift each_meth each_call each_if each_swap_instructions
          each_account_count each_libc Cons)
qed

lemmas each_any =
  each_call_any each_console_any each_case_JArr each_find_recipient each_swap_routes
  each_bnd each_ret each_thrw each_lift each_libc each_meth each_nina each_konst each_to_str
  each_process_env_get each_heap_obj each_heap_prp each_if

lemma addRoyaltyRecipient_body_any: "each e I (\<lambda>ev. True) (addRoyaltyRecipient_body c ra ps r)"
  unfolding addRoyaltyRecipient_body_def
  by (simp only: flat dflt_def Release_fetch_def) (intro each_any TrueI)

lemma closeRelease_body_any: "each e I (\<lambda>ev. True) (closeRelease_body c r)"
  unfolding closeRelease_body_def
  by (simp only: flat dflt_def Release_fetch_def) (intro each_any TrueI)

lemma collectRoyaltyForReleaseViaHub_body_any: "each e I (\<lambda>ev. True) (collectRoyaltyForReleaseViaHub_body c r h sl u)"
  unfolding collectRoyaltyForReleaseViaHub_body_def
  by (simp only: flat dflt_def Hub_fetch_def Hub_fetchHubRelease_def royaltyRecipients_find_def) (intro each_any TrueI)

lemma collectRoyaltyForRelease_body_any: "each e I (\<lambda>ev. True) (collectRoyaltyForRelease_body c rc r)"
  unfolding collectRoyaltyForRelease_body_def
  by (simp only: flat dflt_def Release_fetch_def) (intro each_any TrueI)

lemma exchangeAccept_body_any: "each e I (\<lambda>ev. True) (exchangeAccept_body c x r)"
  unfolding exchangeAccept_body_def
  by (simp only: flat dflt_def Exchange_fetch_def) (intro each_any TrueI)

lemma exchangeCancel_any: "each e I (\<lambda>ev. True) (exchangeCancel c x r)"
  unfolding exchangeCancel_def
  by (simp only: flat dflt_def) (intro each_any TrueI)

lemma exchangeInit_body_any: "each e I (\<lambda>ev. True) (exchangeInit_body c a sel r)"
  unfolding exchangeInit_body_def
  by (simp only: flat dflt_def ) (intro each_any TrueI)

lemma hubAddCollaborator_body_any: "each e I (\<lambda>ev. True) (hubAddCollaborator_body c h cp cc cl a)"
  unfolding hubAddCollaborator_body_def
  by (simp only: flat dflt_def Hub_fetch_def Hub_fetchHubCollaborator_def) (intro each_any TrueI)

lemma hubAddRelease_body_any: "each e I (\<lambda>ev. True) (hubAddRelease_body c h r f)"
  unfolding hubAddRelease_body_def
  by (simp only: flat dflt_def Hub_fetch_def Hub_fetchHubRelease_def) (intro each_any TrueI)

lemma hubContentToggleVisibility_body_any: "each e I (\<lambda>ev. True) (hubContentToggleVisibility_body c h ca t)"
  unfolding hubContentToggleVisibility_body_def
  by (simp only: flat dflt_def Hub_fetch_def) (intro each_any TrueI)

lemma hubRemoveCollaborator_body_any: "each e I (\<lambda>ev. True) (hubRemoveCollaborator_body c h cp)"
  unfolding hubRemoveCollaborator_body_def
  by (simp only: flat dflt_def Hub_fetch_def Hub_fetchHubCollaborator_def) (intro each_any TrueI)

lemma hubUpdateCollaboratorPermission_body_any: "each e I (\<lambda>ev. True) (hubUpdateCollaboratorPermission_body c h cp cc cl a)"
  unfolding hubUpdateCollaboratorPermission_body_def
  by (simp only: flat dflt_def Hub_fetch_def Hub_fetchHubCollaborator_def) (intro each_any TrueI)

lemma hubUpdateConfig_body_any: "each e I (\<lambda>ev. True) (hubUpdateConfig_body c h u pf rf)"
  unfolding hubUpdateConfig_body_def
  by (simp only: flat dflt_def Hub_fetch_def) (intro each_any TrueI)

lemma hubWithdraw_body_any: "each e I (\<lambda>ev. True) (hubWithdraw_body c h)"
  unfolding hubWithdraw_body_def
  by (simp only: flat dflt_def Hub_fetch_def) (intro each_any TrueI)

lemma initializeReleaseAndMint_body_any: "each e I (\<lambda>ev. True) (initializeReleaseAndMint_body c h)"
  unfolding initializeReleaseAndMint_body_def
  by (simp only: flat dflt_def ) (intro each_any TrueI)

lemma postInitViaHub_body_any: "each e I (\<lambda>ev. True) (postInitViaHub_body c h sl u r f)"
  unfolding postInitViaHub_body_def
  by (simp only: flat dflt_def Hub_fetch_def) (intro each_any TrueI)

lemma postUpdateViaHub_body_any: "each e I (\<lambda>ev. True) (postUpdateViaHub_body c h sl u)"
  unfolding postUpdateViaHub_body_def
  by (simp only: flat dflt_def ) (intro each_any TrueI)

lemma purchaseViaHub_body_any: "each e I (\<lambda>ev. True) (purchaseViaHub_body c r h)"
  unfolding purchaseViaHub_body_def
  by (simp only: flat dflt_def Release_fetch_def) (intro each_any TrueI)

lemma releaseInitViaHub_body_any: "each e I (\<lambda>ev. True) (releaseInitViaHub_body c as)"
  unfolding releaseInitViaHub_body_def
  by (simp only: flat dflt_def metadataData_def buffer_text_def metadata_address_def Hub_fetchHubRelease_def) (intro each_any TrueI)

lemma releaseInit_body_any: "each e I (\<lambda>ev. True) (releaseInit_body c as)"
  unfolding releaseInit_body_def
  by (simp only: flat dflt_def metadataData_def buffer_text_def metadata_address_def Release_fetch_def) (intro each_any TrueI)

lemma releasePurchase_body_any: "each e I (\<lambda>ev. True) (releasePurchase_body c r)"
  unfolding releasePurchase_body_def
  by (simp only: flat dflt_def ) (intro each_any TrueI)

lemma each_heap_setp_frame:
  "k \<in> set rewritten \<Longrightarrow> each e (same_but a h0) P (heap_setp a k x)"
  by (rule each_heap_setp) (rule same_but_set)

lemma hubInit_body_frame: "each e (same_but a h0) (\<lambda>ev. True) (hubInit_body c a)"
  unfolding hubInit_body_def
  by (simp only: flat dflt_def Hub_fetch_def)
     (intro each_any TrueI each_heap_setp_frame; simp add: rewritten_def)

lemma hubInitWithCredit_body_frame:
  "each e (same_but a h0) (\<lambda>ev. True) (hubInitWithCredit_body a w cn ids)"
  unfolding hubInitWithCredit_body_def
  by (simp only: flat dflt_def Hub_fetch_def)
     (intro each_any TrueI each_heap_setp_frame; simp add: rewritten_def)

lemma each_handler_any: "each e I (\<lambda>ev. True) (bnd (console lvl [x]) (\<lambda>_. ret v))"
  by (intro each_bnd each_console_any each_ret)

lemma run_any:
  assumes "case op of HubInit c a \<Rightarrow> False | HubInitWithCredit a w cn ids \<Rightarrow> False | _ \<Rightarrow> True"
  shows "each e I (\<lambda>ev. True) (run op)"
  using assms
  by (cases op)
     (simp_all add: hubUpdateConfig_def hubAddCollaborator_def
        hubUpdateCollaboratorPermission_def hubRemoveCollaborator_def
        hubContentToggleVisibility_def hubAddRelease_def postInitViaHub_def
        postUpdateViaHub_def collectRoyaltyForReleaseViaHub_def hubWithdraw_def
        exchangeInit_def exchangeAccept_def purchaseViaHub_def releasePurchase_def
        releaseInitViaHub_def initializeReleaseAndMint_def releaseInit_def closeRelease_def
        collectRoyaltyForRelease_def addRoyaltyRecipient_def
        each_try_catch each_handler_any each_ret exchangeCancel_any
        hubUpdateConfig_body_any hubAddCollaborator_body_any
        hubUpdateCollaboratorPermission_body_any hubRemoveCollaborator_body_any
        hubContentToggleVisibility_body_any hubAddRelease_body_any postInitViaHub_body_any
        postUpdateViaHub_body_any collectRoyaltyForReleaseViaHub_body_any
        hubWithdraw_body_any exchangeInit_body_any exchangeAccept_body_any
        purchaseViaHub_body_any releasePurchase_body_any releaseInitViaHub_body_any
        initializeReleaseAndMint_body_any releaseInit_body_any closeRelease_body_any
        collectRoyaltyForRelease_body_any addRoyaltyRecipient_body_any)

lemma same_but_refl: "same_but a h h"
  by (simp add: same_but_def)

lemma each_heap:
  assumes "each e I P m" and "I (heap s)"
  shows "I (heap (snd (m e s)))"
proof -
  obtain r s' where "m e s = (r, s')" by (cases "m e s")
  with eachD [OF assms(1) assms(2), of r s'] show ?thesis by simp
qed

section \<open>Rules for \<open>holds\<close>\<close>

lemma holdsI:
  assumes "\<And>s r s'. m e s = (r, s') \<Longrightarrow> \<exists>new. trace s' = trace s @ new \<and> Q r new"
  shows "holds e Q m"
  using assms unfolding holds_def by blast

lemma holdsD:
  assumes "holds e Q m" and "m e s = (r, s')"
  shows "\<exists>new. trace s' = trace s @ new \<and> Q r new"
  using assms unfolding holds_def by blast


text \<open>
  Sequencing: the events of the first step come before those of the rest; if the first
  step throws, its events are all there are.
\<close>

lemma holds_bnd_gen:
  assumes "\<And>s r s'. m e s = (r, s') \<Longrightarrow>
             \<exists>new. trace s' = trace s @ new \<and>
               (case r of Ok x \<Rightarrow> holds e (\<lambda>r' evs. Q r' (new @ evs)) (k x)
                | Throw x \<Rightarrow> Q (Throw x) new)"
  shows "holds e Q (bnd m k)"
proof (rule holdsI)
  fix s r s'
  assume run: "bnd m k e s = (r, s')"
  obtain r1 s1 where m1: "m e s = (r1, s1)" by (cases "m e s")
  from assms [OF m1] obtain new1 where t1: "trace s1 = trace s @ new1"
    and c: "case r1 of Ok x \<Rightarrow> holds e (\<lambda>r' evs. Q r' (new1 @ evs)) (k x)
            | Throw x \<Rightarrow> Q (Throw x) new1"
    by blast
  show "\<exists>new. trace s' = trace s @ new \<and> Q r new"
  proof (cases r1)
    case (Ok x)
    with run m1 have kx: "k x e s1 = (r, s')" by (simp add: bnd_def)
    from c Ok have "holds e (\<lambda>r' evs. Q r' (new1 @ evs)) (k x)" by simp
    from holdsD [OF this kx] obtain new2
      where "trace s' = trace s1 @ new2" and "Q r (new1 @ new2)" by blast
    with t1 show ?thesis by auto
  next
    case (Throw x)
    with run m1 have "s' = s1" and "r = Throw x" by (simp_all add: bnd_def)
    with c t1 Throw show ?thesis by auto
  qed
qed

text \<open>A step without events: its result is known from the environment alone.\<close>

lemma holds_bnd_pure:
  assumes pure: "\<And>s. m e s = (r, s)"
      and stop: "\<And>x. r = Throw x \<Longrightarrow> Q (Throw x) []"
      and go: "\<And>x. r = Ok x \<Longrightarrow> holds e Q (k x)"
  shows "holds e Q (bnd m k)"
proof (rule holds_bnd_gen)
  fix s r' s'
  assume "m e s = (r', s')"
  with pure [of s] have "r' = r" and "s' = s" by simp_all
  with stop go show "\<exists>new. trace s' = trace s @ new \<and>
           (case r' of Ok x \<Rightarrow> holds e (\<lambda>r' evs. Q r' (new @ evs)) (k x)
            | Throw x \<Rightarrow> Q (Throw x) new)"
    by (cases r) auto
qed

lemma holds_bnd_lift:
  assumes "\<And>x. Q (Throw x) []" and "\<And>x. r = Ok x \<Longrightarrow> holds e Q (k x)"
  shows "holds e Q (bnd (lift r) k)"
  by (rule holds_bnd_pure [where r = r]) (simp_all add: lift_def assms)

lemma holds_bnd_libc:
  assumes "\<And>x. Q (Throw x) []" and "\<And>x. lib e c = Ok x \<Longrightarrow> holds e Q (k x)"
  shows "holds e Q (bnd (libc c) k)"
  by (rule holds_bnd_pure [where r = "lib e c"]) (simp_all add: libc_def assms)

lemma holds_bnd_meth:
  assumes "\<And>x. Q (Throw x) []"
      and "\<And>x. lib e (Method recv n as) = Ok x \<Longrightarrow> holds e Q (k x)"
  shows "holds e Q (bnd (meth recv n as) k)"
  by (rule holds_bnd_pure [where r = "if recv = Undefined \<or> recv = Null then Throw TypeError
                                       else lib e (Method recv n as)"])
     (simp_all add: meth_def libc_def thrw_def assms split: if_splits)

lemma holds_bnd_nina:
  assumes "\<And>x. Q (Throw x) []"
      and "\<And>x. js_path (NinaClient e) ks = Ok x \<Longrightarrow> holds e Q (k x)"
  shows "holds e Q (bnd (nina ks) k)"
  by (rule holds_bnd_pure [where r = "js_path (NinaClient e) ks"]) (simp_all add: nina_def assms)

lemma holds_bnd_process_env_get:
  assumes "\<And>x. Q (Throw x) []" and "\<And>x. holds e Q (k x)"
  shows "holds e Q (bnd (process_env_get n) k)"
  by (rule holds_bnd_pure [where r = "js_prop (process_env e) n"])
     (simp_all add: process_env_get_def assms)

lemma holds_bnd_konst:
  assumes "holds e Q (k (libconst e n))"
  shows "holds e Q (bnd (konst n) k)"
  by (rule holds_bnd_pure [where r = "Ok (libconst e n)"]) (simp_all add: konst_def assms)

lemma to_str_pure: "to_str v e s = (fst (to_str v e s0), s)"
  by (cases v; cases "lib e (ToString v)")
     (auto simp: to_str_def ret_def thrw_def libc_def bnd_def split: jsval.splits)

lemma holds_bnd_to_str:
  assumes "\<And>x. Q (Throw x) []" and "\<And>x. holds e Q (k x)"
  shows "holds e Q (bnd (to_str v) k)"
  by (rule holds_bnd_pure [where r = "fst (to_str v e s0)" for s0])
     (simp_all add: assms to_str_pure [symmetric])

lemma holds_bnd_call:
  assumes "\<And>x. Q (Throw x) [(c, Throw x)]"
      and "\<And>x. holds e (\<lambda>r evs. Q r ((c, Ok x) # evs)) (k x)"
  shows "holds e Q (bnd (call c) k)"
  by (rule holds_bnd_gen) (use assms in \<open>auto simp: call_def split: outcome.splits\<close>)

lemma holds_bnd_console:
  assumes "holds e (\<lambda>r evs. Q r ((Console lvl as, Ok Undefined) # evs)) (k Undefined)"
  shows "holds e Q (bnd (console lvl as) k)"
  by (rule holds_bnd_gen) (use assms in \<open>auto simp: console_def\<close>)


lemma holds_if:
  "(c \<Longrightarrow> holds e Q m) \<Longrightarrow> (\<not> c \<Longrightarrow> holds e Q n) \<Longrightarrow> holds e Q (if c then m else n)"
  by simp



lemma holds_bnd_thrw: "Q (Throw x) [] \<Longrightarrow> holds e Q (bnd (thrw x) k)"
  by (rule holdsI) (auto simp: thrw_def bnd_def)

lemma holds_ret: "Q (Ok v) [] \<Longrightarrow> holds e Q (ret v)"
  by (rule holdsI) (auto simp: ret_def)

lemma holds_thrw: "Q (Throw x) [] \<Longrightarrow> holds e Q (thrw x)"
  by (rule holdsI) (auto simp: thrw_def)

lemma holds_lift: "Q r [] \<Longrightarrow> holds e Q (lift r)"
  by (rule holdsI) (auto simp: lift_def)

lemma holds_libc: "Q (lib e c) [] \<Longrightarrow> holds e Q (libc c)"
  by (rule holdsI) (auto simp: libc_def)

lemma holds_call: "(\<And>r. Q r [(c, r)]) \<Longrightarrow> holds e Q (call c)"
  by (rule holdsI) (auto simp: call_def)

text \<open>A step whose events are all of a kind that \<open>Q\<close> passes over.\<close>

lemma holds_bnd_each:
  assumes m: "each e (\<lambda>h. True) N m"
      and k: "\<And>x. holds e Q (k x)"
      and pass: "\<And>r pre evs. list_all N pre \<Longrightarrow> Q r evs \<Longrightarrow> Q r (pre @ evs)"
      and stop: "\<And>x pre. list_all N pre \<Longrightarrow> Q (Throw x) pre"
  shows "holds e Q (bnd m k)"
proof (rule holds_bnd_gen)
  fix s r s'
  assume run: "m e s = (r, s')"
  from eachD [OF m _ run] obtain new where t: "trace s' = trace s @ new" and n: "list_all N new"
    by auto
  have "holds e (\<lambda>r' evs. Q r' (new @ evs)) (k x)" for x
    by (rule holdsI) (use holdsD [OF k] pass [OF n] in blast)
  with t n stop show "\<exists>new. trace s' = trace s @ new \<and>
           (case r of Ok x \<Rightarrow> holds e (\<lambda>r' evs. Q r' (new @ evs)) (k x)
            | Throw x \<Rightarrow> Q (Throw x) new)"
    by (auto split: outcome.splits)
qed

text \<open>The handler of a transaction function adds its console line to a failed block.\<close>

lemma holds_try_catch:
  assumes "holds e (\<lambda>r evs. case r of Ok v \<Rightarrow> Q (Ok v) evs
                     | Throw x \<Rightarrow> Q (Ok (snt x)) (evs @ [(Console lvl [x], Ok Undefined)])) m"
  shows "holds e Q (try_catch m (\<lambda>error. bnd (console lvl [error]) (\<lambda>_. ret (snt error))))"
proof (rule holdsI)
  fix s r s'
  assume run: "try_catch m (\<lambda>error. bnd (console lvl [error]) (\<lambda>_. ret (snt error))) e s = (r, s')"
  obtain r1 s1 where m1: "m e s = (r1, s1)" by (cases "m e s")
  from holdsD [OF assms m1] obtain new where t: "trace s1 = trace s @ new"
    and c: "case r1 of Ok v \<Rightarrow> Q (Ok v) new
            | Throw x \<Rightarrow> Q (Ok (snt x)) (new @ [(Console lvl [x], Ok Undefined)])"
    by blast
  show "\<exists>new. trace s' = trace s @ new \<and> Q r new"
    using run m1 t c
    by (cases r1) (auto simp: try_catch_def bnd_def console_def ret_def)
qed

section \<open>Submission through the wallet\<close>

lemma js_prop_set_same: "set_prop v k x = Ok v' \<Longrightarrow> js_prop v' k = Ok x"
  by (cases v) (auto simp: lookup_obj_update)

lemma submitted_quiet_Cons:
  "quiet_event ev \<Longrightarrow> submitted p bhs (ev # evs) = submitted p bhs evs"
  by (cases "fst ev") (simp_all add: quiet_event_def submission_def)

lemma submitted_quiet_prefix:
  "list_all quiet_event pre \<Longrightarrow> submitted p bhs (pre @ evs) = submitted p bhs evs"
  by (induction pre) (simp_all add: submitted_quiet_Cons del: submitted.simps(2))

lemma submitted_quiet: "list_all quiet_event pre \<Longrightarrow> submitted p bhs pre"
  using submitted_quiet_prefix [of pre p bhs "[]"] by simp

lemma followed_snoc:
  "followed_by_confirmation txid evs \<Longrightarrow> followed_by_confirmation txid (evs @ [ev])"
  by (cases evs) (simp_all add: followed_by_confirmation_def)

lemma submitted_snoc_quiet:
  "submitted p bhs evs \<Longrightarrow> quiet_event ev \<Longrightarrow> submitted p bhs (evs @ [ev])"
proof (induction evs arbitrary: bhs)
  case Nil
  then show ?case by (simp add: submitted_quiet_Cons del: submitted.simps(2))
next
  case (Cons a evs)
  then show ?case
    by (cases "fst a"; cases "snd a") (auto simp: followed_snoc)
qed

lemma sub_quiet:
  assumes "each e (\<lambda>h. True) quiet_event m"
      and "\<And>x. holds e (\<lambda>r. submitted p bhs) (k x)"
  shows "holds e (\<lambda>r. submitted p bhs) (bnd m k)"
  using assms(1)
  by (rule holds_bnd_each) (simp_all add: assms(2) submitted_quiet_prefix submitted_quiet)

lemma sub_end:
  assumes "each e (\<lambda>h. True) quiet_event m"
  shows "holds e (\<lambda>r. submitted p bhs) m"
proof (rule holdsI)
  fix s r s'
  assume "m e s = (r, s')"
  from eachD [OF assms _ this] show "\<exists>new. trace s' = trace s @ new \<and> submitted p bhs new"
    by (auto intro: submitted_quiet)
qed

lemma sub_provider:
  assumes "\<And>p. holds e (\<lambda>r. submitted p bhs) (k p)"
  shows "holds e (\<lambda>r. submitted (field client ''provider'') bhs)
           (bnd (lift (js_prop client ''provider'')) k)"
  by (rule holds_bnd_lift) (simp_all add: field_def assms)

text \<open>
  The block \<open>tx.recentBlockhash = (await provider.connection.getRecentBlockhash()).blockhash;
  tx.feePayer = provider.wallet.publicKey\<close>: afterwards both fields of the transaction are
  set.
\<close>

lemma sub_stamp:
  assumes k: "\<And>tx1 bh. fee_payer_set p tx1 \<Longrightarrow> blockhash_set (bh # bhs) tx1 \<Longrightarrow>
                holds e (\<lambda>r. submitted p (bh # bhs)) (k tx1)"
  shows "holds e (\<lambda>r. submitted p bhs) (bnd (stamp p tx) k)"
  unfolding stamp_def connection_def prp_def setp_def wallet_publicKey_def pth_def bnd_assoc
proof (rule holds_bnd_lift)
  fix conn
  show "holds e (\<lambda>r. submitted p bhs)
          (bnd (call (GetRecentBlockhash conn))
             (\<lambda>x. bnd (lift (js_prop x ''blockhash''))
               (\<lambda>x. bnd (lift (set_prop tx ''recentBlockhash'' x))
                 (\<lambda>x. bnd (lift (js_path p [''wallet'', ''publicKey'']))
                   (\<lambda>xa. bnd (lift (set_prop x ''feePayer'' xa)) k)))))"
  proof (rule holds_bnd_call)
    fix bh
    show "holds e (\<lambda>r evs. submitted p bhs ((GetRecentBlockhash conn, Ok bh) # evs))
            (bnd (lift (js_prop bh ''blockhash''))
               (\<lambda>x. bnd (lift (set_prop tx ''recentBlockhash'' x))
                 (\<lambda>x. bnd (lift (js_path p [''wallet'', ''publicKey'']))
                   (\<lambda>xa. bnd (lift (set_prop x ''feePayer'' xa)) k))))"
    proof (simp only: submitted.simps fst_conv snd_conv call.case outcome.case,
           intro holds_bnd_lift)
      fix b tx1 payer tx2
      assume b: "js_prop bh ''blockhash'' = Ok b"
        and tx1: "set_prop tx ''recentBlockhash'' b = Ok tx1"
        and payer: "js_path p [''wallet'', ''publicKey''] = Ok payer"
        and tx2: "set_prop tx1 ''feePayer'' payer = Ok tx2"
      have "js_prop tx2 ''feePayer'' = Ok payer"
        using tx2 by (rule js_prop_set_same)
      then have fee: "fee_payer_set p tx2"
        using payer by (simp add: fee_payer_set_def)
      have "js_prop tx2 ''recentBlockhash'' = js_prop tx1 ''recentBlockhash''"
        using tx2 by (rule js_prop_set_prop) simp
      also have "\<dots> = Ok b" using tx1 by (rule js_prop_set_same)
      finally have "blockhash_set (bh # bhs) tx2"
        using b by (simp add: blockhash_set_def)
      with fee show "holds e (\<lambda>r. submitted p (bh # bhs)) (k tx2)" by (rule k)
    qed simp_all
  qed simp
qed simp

text \<open>
  The block \<open>txid = await provider.wallet.sendTransaction(tx, provider.connection)\<close> followed
  by the confirmation query, by the helper or by one \<open>getParsedTransaction\<close>.
\<close>

lemma sub_send_then:
  assumes fee: "fee_payer_set p tx" and bh: "blockhash_set bhs tx"
      and c: "\<And>txid cn. confirms (c txid cn) txid"
      and k: "\<And>txid y. holds e (\<lambda>r. submitted p bhs) (k txid y)"
  shows "holds e (\<lambda>r. submitted p bhs)
           (bnd (sendTransaction p tx)
              (\<lambda>txid. bnd (bnd (connection p) (\<lambda>cn. call (c txid cn))) (k txid)))"
  unfolding sendTransaction_def connection_def prp_def bnd_assoc
proof (rule holds_bnd_lift)
  fix w
  assume w: "js_prop p ''wallet'' = Ok w"
  show "holds e (\<lambda>r. submitted p bhs)
          (bnd (lift (js_prop p ''connection''))
             (\<lambda>x. bnd (call (SendTransaction w tx x))
               (\<lambda>x. bnd (lift (js_prop p ''connection''))
                 (\<lambda>xa. bnd (call (c x xa)) (k x)))))"
  proof (rule holds_bnd_lift)
    fix cn
    assume cn: "js_prop p ''connection'' = Ok cn"
    show "holds e (\<lambda>r. submitted p bhs)
            (bnd (call (SendTransaction w tx cn))
               (\<lambda>x. bnd (lift (js_prop p ''connection''))
                 (\<lambda>xa. bnd (call (c x xa)) (k x))))"
    proof (rule holds_bnd_call)
      fix txid
      have "holds e (\<lambda>r evs. submitted p bhs ((SendTransaction w tx cn, Ok txid) # evs))
              (bnd (call (c txid cn)) (k txid))"
      proof (rule holds_bnd_call)
        fix y
        from k [of txid y]
        show "holds e (\<lambda>r evs. submitted p bhs
                 ((SendTransaction w tx cn, Ok txid) # (c txid cn, Ok y) # evs)) (k txid y)"
          using w cn fee bh c [of txid cn]
          by (cases "c txid cn")
             (simp_all add: followed_by_confirmation_def confirms_def)
      next
        fix x
        show "submitted p bhs
                [(SendTransaction w tx cn, Ok txid), (c txid cn, Throw x)]"
          using w cn fee bh c [of txid cn]
          by (cases "c txid cn")
             (simp_all add: followed_by_confirmation_def confirms_def)
      qed
      then show "holds e (\<lambda>r evs. submitted p bhs ((SendTransaction w tx cn, Ok txid) # evs))
              (bnd (lift (js_prop p ''connection''))
                 (\<lambda>xa. bnd (call (c txid xa)) (k txid)))"
        by (simp add: cn)
    next
      fix x
      show "submitted p bhs [(SendTransaction w tx cn, Throw x)]"
        using w cn fee bh by simp
    qed
  qed simp
qed simp

lemma sub_send_confirm:
  assumes "fee_payer_set p tx" and "blockhash_set bhs tx"
      and "\<And>txid y. holds e (\<lambda>r. submitted p bhs) (k txid y)"
  shows "holds e (\<lambda>r. submitted p bhs)
           (bnd (sendTransaction p tx) (\<lambda>txid. bnd (getConfirmTransaction txid p) (k txid)))"
  unfolding getConfirmTransaction_def
  by (rule sub_send_then [where c = "\<lambda>txid cn. GetConfirmTransaction txid cn"])
     (simp_all add: assms confirms_def)

lemma sub_send_parsed:
  assumes "fee_payer_set p tx" and "blockhash_set bhs tx"
      and "\<And>txid y. holds e (\<lambda>r. submitted p bhs) (k txid y)"
  shows "holds e (\<lambda>r. submitted p bhs)
           (bnd (sendTransaction p tx)
              (\<lambda>txid. bnd (getParsedTransaction p txid lvl) (k txid)))"
  unfolding getParsedTransaction_def
  by (rule sub_send_then [where c = "\<lambda>txid cn. GetParsedTransaction cn txid (JStr lvl)"])
     (simp_all add: assms confirms_def)

lemmas flat0 =
  Let_def bnd_assoc bnd_ret bnd_lift_Ok seq.simps obj_def list.map fst_conv snd_conv
  zip_Cons_Cons zip_Nil append_Cons append_Nil
  prp_def pth_def el_def setp_def new_PublicKey_def new_BN_def arith_def utf8_buffer_def
  toBuffer_def toBase58_def findProgramAddress_def wallet_publicKey_def connection_def
  findOrCreateAssociatedTokenAccount_def methods_transaction_def dflt_def

lemma sub_ret: "holds e (\<lambda>r. submitted p bhs) (ret v)"
  by (rule holds_ret) simp

lemmas sub_steps =
  sub_provider sub_stamp sub_send_confirm sub_send_parsed sub_quiet sub_ret holds_if sub_end
  each_console each_case_JArr each_find_recipient each_swap_routes
  each_bnd each_ret each_thrw each_lift each_libc each_meth each_nina each_konst each_to_str
  each_process_env_get each_heap_obj each_heap_prp each_heap_setp each_if each_call

lemmas quiet_simps = quiet_event_def submission_def

lemma hubInit_body_submitted:
  "holds e (\<lambda>r. submitted (field c ''provider'') []) (hubInit_body c a)"
  unfolding hubInit_body_def
  by (simp only: flat0 Hub_fetch_def)
     (intro sub_steps; (assumption | simp add: quiet_simps))

lemma hubUpdateConfig_body_submitted:
  "holds e (\<lambda>r. submitted (field c ''provider'') []) (hubUpdateConfig_body c h u pf rf)"
  unfolding hubUpdateConfig_body_def
  by (simp only: flat0 Hub_fetch_def)
     (intro sub_steps; (assumption | simp add: quiet_simps))

lemma hubAddCollaborator_body_submitted:
  "holds e (\<lambda>r. submitted (field c ''provider'') []) (hubAddCollaborator_body c h cp cc cl a)"
  unfolding hubAddCollaborator_body_def
  by (simp only: flat0 Hub_fetch_def Hub_fetchHubCollaborator_def)
     (intro sub_steps; (assumption | simp add: quiet_simps))

lemma hubUpdateCollaboratorPermission_body_submitted:
  "holds e (\<lambda>r. submitted (field c ''provider'') []) (hubUpdateCollaboratorPermission_body c h cp cc cl a)"
  unfolding hubUpdateCollaboratorPermission_body_def
  by (simp only: flat0 Hub_fetch_def Hub_fetchHubCollaborator_def)
     (intro sub_steps; (assumption | simp add: quiet_simps))

lemma hubRemoveCollaborator_body_submitted:
  "holds e (\<lambda>r. submitted (field c ''provider'') []) (hubRemoveCollaborator_body c h cp)"
  unfolding hubRemoveCollaborator_body_def
  by (simp only: flat0 Hub_fetch_def Hub_fetchHubCollaborator_def)
     (intro sub_steps; (assumption | simp add: quiet_simps))

lemma hubContentToggleVisibility_body_submitted:
  "holds e (\<lambda>r. submitted (field c ''provider'') []) (hubContentToggleVisibility_body c h ca t)"
  unfolding hubContentToggleVisibility_body_def
  by (simp only: flat0 Hub_fetch_def)
     (intro sub_steps; (assumption | simp add: quiet_simps))

lemma hubAddRelease_body_submitted:
  "holds e (\<lambda>r. submitted (field c ''provider'') []) (hubAddRelease_body c h r f)"
  unfolding hubAddRelease_body_def
  by (simp only: flat0 Hub_fetch_def Hub_fetchHubRelease_def)
     (intro sub_steps; (assumption | simp add: quiet_simps))

lemma postInitViaHub_body_submitted:
  "holds e (\<lambda>r. submitted (field c ''provider'') []) (postInitViaHub_body c h sl u r f)"
  unfolding postInitViaHub_body_def
  by (simp only: flat0 Hub_fetch_def)
     (intro sub_steps; (assumption | simp add: quiet_simps))

lemma postUpdateViaHub_body_submitted:
  "holds e (\<lambda>r. submitted (field c ''provider'') []) (postUpdateViaHub_body c h sl u)"
  unfolding postUpdateViaHub_body_def
  by (simp only: flat0 )
     (intro sub_steps; (assumption | simp add: quiet_simps))

lemma collectRoyaltyForReleaseViaHub_body_submitted:
  "holds e (\<lambda>r. submitted (field c ''provider'') []) (collectRoyaltyForReleaseViaHub_body c r h sl u)"
  unfolding collectRoyaltyForReleaseViaHub_body_def
  by (simp only: flat0 Hub_fetch_def Hub_fetchHubRelease_def royaltyRecipients_find_def)
     (intro sub_steps; (assumption | simp add: quiet_simps))

lemma hubWithdraw_body_submitted:
  "holds e (\<lambda>r. submitted (field c ''provider'') []) (hubWithdraw_body c h)"
  unfolding hubWithdraw_body_def
  by (simp only: flat0 Hub_fetch_def)
     (intro sub_steps; (assumption | simp add: quiet_simps))

lemma exchangeInit_body_submitted:
  "holds e (\<lambda>r. submitted (field c ''provider'') []) (exchangeInit_body c a sel r)"
  unfolding exchangeInit_body_def
  by (simp only: flat0 )
     (intro sub_steps; (assumption | simp add: quiet_simps))

lemma exchangeAccept_body_submitted:
  "holds e (\<lambda>r. submitted (field c ''provider'') []) (exchangeAccept_body c x r)"
  unfolding exchangeAccept_body_def
  by (simp only: flat0 Exchange_fetch_def)
     (intro sub_steps; (assumption | simp add: quiet_simps))

lemma purchaseViaHub_body_submitted:
  "holds e (\<lambda>r. submitted (field c ''provider'') []) (purchaseViaHub_body c r h)"
  unfolding purchaseViaHub_body_def
  by (simp only: flat0 Release_fetch_def)
     (intro sub_steps; (assumption | simp add: quiet_simps))

lemma releasePurchase_body_submitted:
  "holds e (\<lambda>r. submitted (field c ''provider'') []) (releasePurchase_body c r)"
  unfolding releasePurchase_body_def
  by (simp only: flat0 )
     (intro sub_steps; (assumption | simp add: quiet_simps))

lemma releaseInitViaHub_body_submitted:
  "holds e (\<lambda>r. submitted (field c ''provider'') []) (releaseInitViaHub_body c as)"
  unfolding releaseInitViaHub_body_def
  by (simp only: flat0 metadataData_def buffer_text_def metadata_address_def Hub_fetchHubRelease_def)
     (intro sub_steps; (assumption | simp add: quiet_simps))

lemma initializeReleaseAndMint_body_submitted:
  "holds e (\<lambda>r. submitted (field c ''provider'') []) (initializeReleaseAndMint_body c h)"
  unfolding initializeReleaseAndMint_body_def
  by (simp only: flat0 )
     (intro sub_steps; (assumption | simp add: quiet_simps))

lemma releaseInit_body_submitted:
  "holds e (\<lambda>r. submitted (field c ''provider'') []) (releaseInit_body c as)"
  unfolding releaseInit_body_def
  by (simp only: flat0 metadataData_def buffer_text_def metadata_address_def Release_fetch_def)
     (intro sub_steps; (assumption | simp add: quiet_simps))

lemma closeRelease_body_submitted:
  "holds e (\<lambda>r. submitted (field c ''provider'') []) (closeRelease_body c r)"
  unfolding closeRelease_body_def
  by (simp only: flat0 Release_fetch_def)
     (intro sub_steps; (assumption | simp add: quiet_simps))

lemma collectRoyaltyForRelease_body_submitted:
  "holds e (\<lambda>r. submitted (field c ''provider'') []) (collectRoyaltyForRelease_body c rc r)"
  unfolding collectRoyaltyForRelease_body_def
  by (simp only: flat0 Release_fetch_def)
     (intro sub_steps; (assumption | simp add: quiet_simps))

lemma addRoyaltyRecipient_body_submitted:
  "holds e (\<lambda>r. submitted (field c ''provider'') []) (addRoyaltyRecipient_body c ra ps r)"
  unfolding addRoyaltyRecipient_body_def
  by (simp only: flat0 Release_fetch_def)
     (intro sub_steps; (assumption | simp add: quiet_simps))

lemma exchangeCancel_submitted:
  "holds e (\<lambda>r. submitted (field c ''provider'') []) (exchangeCancel c x r)"
  unfolding exchangeCancel_def
  by (simp only: flat0)
     (intro sub_steps; (assumption | simp add: quiet_simps))
lemma sub_try_catch:
  assumes "holds e (\<lambda>r. submitted p bhs) m"
  shows "holds e (\<lambda>r. submitted p bhs)
           (try_catch m (\<lambda>error. bnd (console lvl [error]) (\<lambda>_. ret (snt error))))"
proof (rule holds_try_catch, rule holdsI)
  fix s r s'
  assume "m e s = (r, s')"
  from holdsD [OF assms this] obtain new
    where "trace s' = trace s @ new" and "submitted p bhs new" by blast
  then show "\<exists>new. trace s' = trace s @ new \<and>
          (case r of Ok v \<Rightarrow> submitted p bhs new
           | Throw x \<Rightarrow> submitted p bhs (new @ [(Console lvl [x], Ok Undefined)]))"
    by (cases r) (auto intro: submitted_snoc_quiet simp: quiet_simps)
qed

lemma run_submitted:
  "\<not> sends_by_rpc op \<Longrightarrow> holds e (\<lambda>r. submitted (provider_of op) []) (run op)"
  by (cases op)
     (simp_all add: sends_by_rpc_def provider_of_def
        hubInit_def hubUpdateConfig_def hubAddCollaborator_def
        hubUpdateCollaboratorPermission_def hubRemoveCollaborator_def
        hubContentToggleVisibility_def hubAddRelease_def postInitViaHub_def
        postUpdateViaHub_def collectRoyaltyForReleaseViaHub_def hubWithdraw_def
        exchangeInit_def exchangeAccept_def purchaseViaHub_def releasePurchase_def
        releaseInitViaHub_def initializeReleaseAndMint_def releaseInit_def closeRelease_def
        collectRoyaltyForRelease_def addRoyaltyRecipient_def
        sub_try_catch sub_ret exchangeCancel_submitted
        hubInit_body_submitted hubUpdateConfig_body_submitted
        hubAddCollaborator_body_submitted hubUpdateCollaboratorPermission_body_submitted
        hubRemoveCollaborator_body_submitted hubContentToggleVisibility_body_submitted
        hubAddRelease_body_submitted postInitViaHub_body_submitted
        postUpdateViaHub_body_submitted collectRoyaltyForReleaseViaHub_body_submitted
        hubWithdraw_body_submitted exchangeInit_body_submitted exchangeAccept_body_submitted
        purchaseViaHub_body_submitted releasePurchase_body_submitted
        releaseInitViaHub_body_submitted initializeReleaseAndMint_body_submitted
        releaseInit_body_submitted closeRelease_body_submitted
        collectRoyaltyForRelease_body_submitted addRoyaltyRecipient_body_submitted)

section \<open>Rules for \<open>succ\<close>\<close>

lemma succ_bnd_lift:
  "(\<And>x. r = Ok x \<Longrightarrow> succ e S (k x)) \<Longrightarrow> succ e S (bnd (lift r) k)"
  unfolding succ_def by (rule holds_bnd_lift) simp_all

lemma succ_bnd_libc:
  "(\<And>x. lib e c = Ok x \<Longrightarrow> succ e S (k x)) \<Longrightarrow> succ e S (bnd (libc c) k)"
  unfolding succ_def by (rule holds_bnd_libc) simp_all

lemma succ_bnd_meth:
  "(\<And>x. lib e (Method recv n as) = Ok x \<Longrightarrow> succ e S (k x)) \<Longrightarrow>
   succ e S (bnd (meth recv n as) k)"
  unfolding succ_def by (rule holds_bnd_meth) simp_all

lemma succ_bnd_nina:
  "(\<And>x. js_path (NinaClient e) ks = Ok x \<Longrightarrow> succ e S (k x)) \<Longrightarrow>
   succ e S (bnd (nina ks) k)"
  unfolding succ_def by (rule holds_bnd_nina) simp_all

lemma succ_bnd_process_env_get:
  "(\<And>x. succ e S (k x)) \<Longrightarrow> succ e S (bnd (process_env_get n) k)"
  unfolding succ_def by (rule holds_bnd_process_env_get) simp_all

lemma succ_bnd_konst: "succ e S (k (libconst e n)) \<Longrightarrow> succ e S (bnd (konst n) k)"
  unfolding succ_def by (rule holds_bnd_konst)

lemma succ_bnd_to_str: "(\<And>x. succ e S (k x)) \<Longrightarrow> succ e S (bnd (to_str v) k)"
  unfolding succ_def by (rule holds_bnd_to_str) simp_all

lemma succ_bnd_call:
  "(\<And>x. succ e (\<lambda>v evs. S v ((c, Ok x) # evs)) (k x)) \<Longrightarrow> succ e S (bnd (call c) k)"
  unfolding succ_def by (rule holds_bnd_call) simp_all

lemma succ_bnd_console:
  "succ e (\<lambda>v evs. S v ((Console lvl as, Ok Undefined) # evs)) (k Undefined) \<Longrightarrow>
   succ e S (bnd (console lvl as) k)"
  unfolding succ_def by (rule holds_bnd_console)

lemma succ_bnd_if:
  "(c \<Longrightarrow> succ e S (bnd m k)) \<Longrightarrow> (\<not> c \<Longrightarrow> succ e S (bnd n k)) \<Longrightarrow>
   succ e S (bnd (if c then m else n) k)"
  by simp

lemma succ_if:
  "(c \<Longrightarrow> succ e S m) \<Longrightarrow> (\<not> c \<Longrightarrow> succ e S n) \<Longrightarrow> succ e S (if c then m else n)"
  by simp

lemma succ_bnd_bnd: "succ e S (bnd m (\<lambda>x. bnd (f x) g)) \<Longrightarrow> succ e S (bnd (bnd m f) g)"
  by (simp add: bnd_assoc)

lemma succ_bnd_ret: "succ e S (k v) \<Longrightarrow> succ e S (bnd (ret v) k)"
  by simp

lemma succ_bnd_thrw: "succ e S (bnd (thrw x) k)"
  unfolding succ_def by (rule holds_bnd_thrw) simp

lemma succ_thrw: "succ e S (thrw x)"
  unfolding succ_def by (rule holds_thrw) simp

lemma succ_ret: "S v [] \<Longrightarrow> succ e S (ret v)"
  unfolding succ_def by (rule holds_ret) simp

lemma succ_call: "(\<And>x. S x [(c, Ok x)]) \<Longrightarrow> succ e S (call c)"
  unfolding succ_def by (rule holds_call) (simp split: outcome.splits)

lemma succ_lift: "(\<And>x. r = Ok x \<Longrightarrow> S x []) \<Longrightarrow> succ e S (lift r)"
  unfolding succ_def by (rule holds_lift) (simp split: outcome.splits)

text \<open>A step of which only the kind of its events is known.\<close>

lemma succ_bnd_each:
  assumes m: "each e (\<lambda>h. True) N m"
      and k: "\<And>x pre. list_all N pre \<Longrightarrow> succ e (\<lambda>v evs. S v (pre @ evs)) (k x)"
  shows "succ e S (bnd m k)"
  unfolding succ_def
proof (rule holds_bnd_gen)
  fix s r s'
  assume run: "m e s = (r, s')"
  from eachD [OF m _ run] obtain new where t: "trace s' = trace s @ new" and n: "list_all N new"
    by auto
  from k [OF n] t
  show "\<exists>new. trace s' = trace s @ new \<and>
          (case r of
             Ok x \<Rightarrow> holds e (\<lambda>r' evs. case r' of Ok v \<Rightarrow> S v (new @ evs) | Throw x \<Rightarrow> True) (k x)
           | Throw x \<Rightarrow> (case Throw x of Ok v \<Rightarrow> S v new | Throw x \<Rightarrow> True))"
    by (auto simp: succ_def split: outcome.splits)
qed

lemma succD:
  assumes "succ e S m" and "m e s = (Ok v, s')"
  shows "\<exists>new. trace s' = trace s @ new \<and> S v new"
  using holdsD [OF assms [unfolded succ_def]] by simp

lemma if_lift: "(if c then lift a else lift b) = lift (if c then a else b)"
  by simp

lemma after_send_prefix:
  "list_all (\<lambda>ev. \<not> wallet_send ev) pre \<Longrightarrow> after_send (pre @ evs) = after_send evs"
  by (induction pre) simp_all

lemmas succ_steps =
  succ_bnd_lift succ_bnd_libc succ_bnd_meth succ_bnd_nina succ_bnd_process_env_get
  succ_bnd_konst succ_bnd_to_str succ_bnd_call succ_bnd_console succ_bnd_if succ_bnd_bnd
  succ_bnd_ret succ_bnd_thrw succ_thrw succ_ret succ_call succ_lift succ_if
  succ_bnd_each [where N = "\<lambda>ev. \<not> wallet_send ev"]
  each_case_JArr each_find_recipient each_swap_routes
  each_bnd each_ret each_thrw each_lift each_libc each_meth each_nina each_konst each_to_str
  each_process_env_get each_heap_obj each_heap_prp each_heap_setp each_if each_call

lemmas completes_simps =
  completes_def returned_def answer_of_def gets_def wallet_send_def after_send_prefix

text \<open>
  When the \<open>try\<close> block returns, the handler does not run: the call has the events of the
  block, and they are as \<open>succ\<close> says.
\<close>

lemma returns_adds:
  assumes m: "succ e S m"
      and r: "returns (m e s)"
      and t: "trace (snd (try_catch m h e s)) = trace s @ new"
  shows "\<exists>v. fst (try_catch m h e s) = Ok v \<and> S v new"
proof -
  from r obtain v s' where run: "m e s = (Ok v, s')"
    by (cases "m e s") (auto simp: returns_def split: outcome.splits)
  then have tc: "try_catch m h e s = (Ok v, s')"
    by (simp add: try_catch_def)
  from succD [OF m run] obtain new' where "trace s' = trace s @ new'" and "S v new'"
    by blast
  with t tc show ?thesis by simp
qed

text \<open>The reads and the writes of a caller's object add no event.\<close>

lemma succ_bnd_silent:
  assumes m: "each e (\<lambda>h. True) (\<lambda>ev. False) m" and k: "\<And>x. succ e S (k x)"
  shows "succ e S (bnd m k)"
proof (rule succ_bnd_each [OF m])
  fix x and pre :: "event list"
  assume "list_all (\<lambda>ev. False) pre"
  then have "pre = []" by (cases pre) simp_all
  with k [of x] show "succ e (\<lambda>v evs. S v (pre @ evs)) (k x)" by simp
qed

lemma succ_bnd_heap_prp: "(\<And>x. succ e S (k x)) \<Longrightarrow> succ e S (bnd (heap_prp a f) k)"
  by (rule succ_bnd_silent [OF each_heap_prp])

lemma succ_bnd_heap_obj: "(\<And>x. succ e S (k x)) \<Longrightarrow> succ e S (bnd (heap_obj a) k)"
  by (rule succ_bnd_silent [OF each_heap_obj])

lemma succ_bnd_heap_setp: "(\<And>x. succ e S (k x)) \<Longrightarrow> succ e S (bnd (heap_setp a f v) k)"
  by (rule succ_bnd_silent [OF each_heap_setp]) simp

lemmas succ_heap = succ_bnd_heap_prp succ_bnd_heap_obj succ_bnd_heap_setp

section \<open>The supply of a release\<close>

lemma decimal_MAX_INT: "decimal MAX_INT = 2 ^ 64 - 1"
  by (simp add: decimal_def MAX_INT_def digit_def)

lemma releaseInit_body_supply:
  "each e (\<lambda>h. True) (sends_supply e (arg args 1) (arg args 11)) (releaseInit_body client args)"
  unfolding releaseInit_body_def
  apply (simp only: flat metadataData_def buffer_text_def metadata_address_def Release_fetch_def)
  apply (intro each_bnd_BN each_quiet)
  apply (simp_all add: sends_supply_def supply_config_def arg_0 split: if_splits)
  done

lemma releaseInitViaHub_body_supply:
  "each e (\<lambda>h. True) (sends_supply e (arg args 2) (arg args 12))
     (releaseInitViaHub_body client args)"
  unfolding releaseInitViaHub_body_def
  apply (simp only: flat metadataData_def buffer_text_def metadata_address_def
           Hub_fetchHubRelease_def dflt_def)
  apply (intro each_bnd_BN each_quiet)
  apply (simp_all add: sends_supply_def supply_config_def arg_0 split: if_splits)
  done

lemma each_handler:
  "P (Console lvl [x], Ok Undefined) \<Longrightarrow> each e I P (bnd (console lvl [x]) (\<lambda>_. ret v))"
  by (intro each_bnd each_console each_ret)

lemma releaseInit_body_one_request:
  "succ e (\<lambda>v evs. length (requests evs) = 1) (releaseInit_body client args)"
  unfolding releaseInit_body_def
  by (simp only: flat if_lift metadataData_def buffer_text_def metadata_address_def
        Release_fetch_def dflt_def)
     (intro succ_steps; simp (no_asm) add: requests_def)

lemma releaseInitViaHub_body_one_request:
  "succ e (\<lambda>v evs. length (requests evs) = 1) (releaseInitViaHub_body client args)"
  unfolding releaseInitViaHub_body_def
  by (simp only: flat if_lift metadataData_def buffer_text_def metadata_address_def
        Hub_fetchHubRelease_def dflt_def)
     (intro succ_steps; simp (no_asm) add: requests_def)

lemma releaseInit_supply:
  "each e (\<lambda>h. True) (sends_supply e (arg args 1) (arg args 11)) (releaseInit client args)"
  unfolding releaseInit_def
  by (intro each_try_catch releaseInit_body_supply each_handler) (simp add: sends_supply_def)

lemma releaseInitViaHub_supply:
  "each e (\<lambda>h. True) (sends_supply e (arg args 2) (arg args 12))
     (releaseInitViaHub client args)"
  unfolding releaseInitViaHub_def
  by (intro each_try_catch releaseInitViaHub_body_supply each_handler)
     (simp add: sends_supply_def)

text \<open>The sample runs return from the \<open>try\<close> block.\<close>

lemma releaseInit_open_returns:
  "returns (releaseInit_body demo_client open_release (demo_env ''fresh1'') start)"
  by (simp add: returns_def releaseInit_body_def metadataData_def buffer_text_def
        metadata_address_def open_release_def steps samples)

lemma releaseInit_limited_returns:
  "returns (releaseInit_body demo_client limited_release (demo_env ''fresh1'') start)"
  by (simp add: returns_def releaseInit_body_def metadataData_def buffer_text_def
        metadata_address_def limited_release_def steps samples)

lemma releaseInitViaHub_open_returns:
  "returns (releaseInitViaHub_body demo_client open_release_via_hub (demo_env ''fresh1'') start)"
  by (simp add: returns_def releaseInitViaHub_body_def metadataData_def buffer_text_def
        metadata_address_def open_release_via_hub_def steps samples)

lemma releaseInitViaHub_limited_returns:
  "returns (releaseInitViaHub_body demo_client limited_release_via_hub (demo_env ''fresh1'')
              start)"
  by (simp add: returns_def releaseInitViaHub_body_def metadataData_def buffer_text_def
        metadata_address_def limited_release_via_hub_def steps samples)

text \<open>
  C8. Whatever the environment, the state and the arguments: every request for a
  transaction that \<open>releaseInit\<close> or \<open>releaseInitViaHub\<close> makes (the events added to the trace
  that are calls of \<open>program.methods.releaseInit...(config, ...).transaction()\<close>) carries a
  \<open>config\<close> whose \<open>amountTotalSupply\<close> is \<open>new anchor.BN(MAX_INT)\<close> when \<open>isOpen\<close> is truthy,
  whatever \<open>amount\<close> is, and \<open>new anchor.BN(amount)\<close> otherwise, and whose
  \<open>amountToArtistTokenAccount\<close> and \<open>amountToVaultTokenAccount\<close> are \<open>new anchor.BN(0)\<close>; and
  whenever the \<open>try\<close> block of the function returns (the call has not failed), the call has
  made exactly one such request. The digits of \<open>MAX_INT\<close> denote \<open>2^64 - 1\<close>. (\<open>amount\<close> and
  \<open>isOpen\<close> are the arguments 1 and 11 after \<open>client\<close> of \<open>releaseInit\<close>, and 2 and 12 of
  \<open>releaseInitViaHub\<close>.)
\<close>

theorem release_supply:
  "(\<exists>new. trace (snd (releaseInit client args e s)) = trace s @ new
          \<and> list_all (sends_supply e (arg args 1) (arg args 11)) new
          \<and> (returns (releaseInit_body client args e s) \<longrightarrow> length (requests new) = 1))
   \<and> (\<exists>new. trace (snd (releaseInitViaHub client args e s)) = trace s @ new
            \<and> list_all (sends_supply e (arg args 2) (arg args 12)) new
            \<and> (returns (releaseInitViaHub_body client args e s) \<longrightarrow>
                 length (requests new) = 1))
   \<and> decimal MAX_INT = 2 ^ 64 - 1"
proof (intro conjI)
  from each_trace [OF releaseInit_supply [where e = e and args = args and client = client],
         where s = s]
  obtain new where t: "trace (snd (releaseInit client args e s)) = trace s @ new"
    and a: "list_all (sends_supply e (arg args 1) (arg args 11)) new"
    by auto
  have "length (requests new) = 1" if "returns (releaseInit_body client args e s)"
    using returns_adds [OF releaseInit_body_one_request that t [unfolded releaseInit_def]]
    by blast
  with t a
  show "\<exists>new. trace (snd (releaseInit client args e s)) = trace s @ new
          \<and> list_all (sends_supply e (arg args 1) (arg args 11)) new
          \<and> (returns (releaseInit_body client args e s) \<longrightarrow> length (requests new) = 1)"
    by blast
next
  from each_trace [OF releaseInitViaHub_supply [where e = e and args = args
         and client = client], where s = s]
  obtain new where t: "trace (snd (releaseInitViaHub client args e s)) = trace s @ new"
    and a: "list_all (sends_supply e (arg args 2) (arg args 12)) new"
    by auto
  have "length (requests new) = 1" if "returns (releaseInitViaHub_body client args e s)"
    using returns_adds [OF releaseInitViaHub_body_one_request that
            t [unfolded releaseInitViaHub_def]]
    by blast
  with t a
  show "\<exists>new. trace (snd (releaseInitViaHub client args e s)) = trace s @ new
          \<and> list_all (sends_supply e (arg args 2) (arg args 12)) new
          \<and> (returns (releaseInitViaHub_body client args e s) \<longrightarrow>
               length (requests new) = 1)"
    by blast
next
  show "decimal MAX_INT = 2 ^ 64 - 1" by (rule decimal_MAX_INT)
qed

text \<open>
  The theorem at four sample calls, an open and a limited edition of 100 by each function:
  each \<open>try\<close> block returns, so each call has made exactly one request, and every request
  of the call has the supply of the theorem, \<open>MAX_INT\<close> for the open editions and the amount
  100 for the limited ones.
\<close>

theorem release_supply_witness:
  "returns (releaseInit_body demo_client open_release (demo_env ''fresh1'') start)
   \<and> returns (releaseInit_body demo_client limited_release (demo_env ''fresh1'') start)
   \<and> returns (releaseInitViaHub_body demo_client open_release_via_hub (demo_env ''fresh1'')
                start)
   \<and> returns (releaseInitViaHub_body demo_client limited_release_via_hub (demo_env ''fresh1'')
                start)
   \<and> (let new = trace (snd (releaseInit demo_client open_release (demo_env ''fresh1'') start))
       in list_all (sends_supply (demo_env ''fresh1'') (JNum 100) (JBool True)) new
          \<and> length (requests new) = 1)
   \<and> (let new = trace (snd (releaseInit demo_client limited_release (demo_env ''fresh1'') start))
       in list_all (sends_supply (demo_env ''fresh1'') (JNum 100) (JBool False)) new
          \<and> length (requests new) = 1)
   \<and> (let new = trace (snd (releaseInitViaHub demo_client open_release_via_hub
                                (demo_env ''fresh1'') start))
       in list_all (sends_supply (demo_env ''fresh1'') (JNum 100) (JBool True)) new
          \<and> length (requests new) = 1)
   \<and> (let new = trace (snd (releaseInitViaHub demo_client limited_release_via_hub
                                (demo_env ''fresh1'') start))
       in list_all (sends_supply (demo_env ''fresh1'') (JNum 100) (JBool False)) new
          \<and> length (requests new) = 1)"
proof -
  have args: "arg open_release 1 = JNum 100" "arg open_release 11 = JBool True"
    "arg limited_release 1 = JNum 100" "arg limited_release 11 = JBool False"
    "arg open_release_via_hub 2 = JNum 100" "arg open_release_via_hub 12 = JBool True"
    "arg limited_release_via_hub 2 = JNum 100" "arg limited_release_via_hub 12 = JBool False"
    by (simp_all add: arg_def open_release_def limited_release_def open_release_via_hub_def
          limited_release_via_hub_def)
  have empty: "trace start = []"
    by (simp add: start_def)
  show ?thesis
    using release_supply [of demo_client open_release "demo_env ''fresh1''" start]
          release_supply [of demo_client limited_release "demo_env ''fresh1''" start]
          release_supply [of demo_client open_release_via_hub "demo_env ''fresh1''" start]
          release_supply [of demo_client limited_release_via_hub "demo_env ''fresh1''" start]
          releaseInit_open_returns releaseInit_limited_returns
          releaseInitViaHub_open_returns releaseInitViaHub_limited_returns
    by (simp only: args empty append_Nil Let_def) blast
qed

section \<open>The exchange request\<close>















section \<open>Rules for \<open>tracks\<close>\<close>

lemma tracksI:
  assumes "\<And>s r s'. heap s a = ob \<Longrightarrow> m e s = (r, s') \<Longrightarrow>
             \<exists>new. trace s' = trace s @ new \<and> Q r new (heap s' a)"
  shows "tracks e a ob Q m"
  using assms unfolding tracks_def by blast

lemma tracksD:
  assumes "tracks e a ob Q m" and "heap s a = ob" and "m e s = (r, s')"
  shows "\<exists>new. trace s' = trace s @ new \<and> Q r new (heap s' a)"
  using assms unfolding tracks_def by blast

lemma tracks_bnd_gen:
  assumes "\<And>s r s'. heap s a = ob \<Longrightarrow> m e s = (r, s') \<Longrightarrow>
             \<exists>new. trace s' = trace s @ new \<and>
               (case r of
                  Ok x \<Rightarrow> tracks e a (heap s' a) (\<lambda>r' evs. Q r' (new @ evs)) (k x)
                | Throw x \<Rightarrow> Q (Throw x) new (heap s' a))"
  shows "tracks e a ob Q (bnd m k)"
proof (rule tracksI)
  fix s r s'
  assume h: "heap s a = ob" and run: "bnd m k e s = (r, s')"
  obtain r1 s1 where m1: "m e s = (r1, s1)" by (cases "m e s")
  from assms [OF h m1] obtain new1 where t1: "trace s1 = trace s @ new1"
    and c: "case r1 of
              Ok x \<Rightarrow> tracks e a (heap s1 a) (\<lambda>r' evs. Q r' (new1 @ evs)) (k x)
            | Throw x \<Rightarrow> Q (Throw x) new1 (heap s1 a)"
    by blast
  show "\<exists>new. trace s' = trace s @ new \<and> Q r new (heap s' a)"
  proof (cases r1)
    case (Ok x)
    with run m1 have kx: "k x e s1 = (r, s')" by (simp add: bnd_def)
    from c Ok have "tracks e a (heap s1 a) (\<lambda>r' evs. Q r' (new1 @ evs)) (k x)" by simp
    from tracksD [OF this refl kx] obtain new2
      where "trace s' = trace s1 @ new2" and "Q r (new1 @ new2) (heap s' a)" by blast
    with t1 show ?thesis by auto
  next
    case (Throw x)
    with run m1 have "s' = s1" and "r = Throw x" by (simp_all add: bnd_def)
    with c t1 Throw show ?thesis by auto
  qed
qed

text \<open>A step without events and without writes.\<close>

lemma tracks_bnd_pure:
  assumes pure: "\<And>s. m e s = (r, s)"
      and stop: "\<And>x. r = Throw x \<Longrightarrow> Q (Throw x) [] ob"
      and go: "\<And>x. r = Ok x \<Longrightarrow> tracks e a ob Q (k x)"
  shows "tracks e a ob Q (bnd m k)"
proof (rule tracks_bnd_gen)
  fix s r' s'
  assume h: "heap s a = ob" and "m e s = (r', s')"
  with pure [of s] have "r' = r" and "s' = s" by simp_all
  with stop go h show "\<exists>new. trace s' = trace s @ new \<and>
           (case r' of
              Ok x \<Rightarrow> tracks e a (heap s' a) (\<lambda>r' evs. Q r' (new @ evs)) (k x)
            | Throw x \<Rightarrow> Q (Throw x) new (heap s' a))"
    by (cases r) auto
qed

lemma tracks_bnd_lift:
  assumes "\<And>x. Q (Throw x) [] ob" and "\<And>x. r = Ok x \<Longrightarrow> tracks e a ob Q (k x)"
  shows "tracks e a ob Q (bnd (lift r) k)"
  by (rule tracks_bnd_pure [where r = r]) (simp_all add: lift_def assms)

lemma tracks_bnd_libc:
  assumes "\<And>x. Q (Throw x) [] ob" and "\<And>x. lib e c = Ok x \<Longrightarrow> tracks e a ob Q (k x)"
  shows "tracks e a ob Q (bnd (libc c) k)"
  by (rule tracks_bnd_pure [where r = "lib e c"]) (simp_all add: libc_def assms)

lemma tracks_bnd_meth:
  assumes "\<And>x. Q (Throw x) [] ob"
      and "\<And>x. tracks e a ob Q (k x)"
  shows "tracks e a ob Q (bnd (meth recv n as) k)"
  by (rule tracks_bnd_pure [where r = "fst (meth recv n as e s0)" for s0])
     (auto simp: meth_def libc_def thrw_def assms)

lemma tracks_bnd_nina:
  assumes "\<And>x. Q (Throw x) [] ob" and "\<And>x. tracks e a ob Q (k x)"
  shows "tracks e a ob Q (bnd (nina ks) k)"
  by (rule tracks_bnd_pure [where r = "js_path (NinaClient e) ks"])
     (simp_all add: nina_def assms)

lemma tracks_bnd_konst: "tracks e a ob Q (k (libconst e n)) \<Longrightarrow> tracks e a ob Q (bnd (konst n) k)"
  by (rule tracks_bnd_pure [where r = "Ok (libconst e n)"]) (simp_all add: konst_def)

lemma tracks_bnd_to_str:
  assumes "\<And>x. Q (Throw x) [] ob" and "\<And>x. tracks e a ob Q (k x)"
  shows "tracks e a ob Q (bnd (to_str v) k)"
  by (rule tracks_bnd_pure [where r = "fst (to_str v e s0)" for s0])
     (simp_all add: assms to_str_pure [symmetric])

lemma tracks_bnd_call:
  assumes "\<And>x. Q (Throw x) [(c, Throw x)] ob"
      and "\<And>x. tracks e a ob (\<lambda>r evs. Q r ((c, Ok x) # evs)) (k x)"
  shows "tracks e a ob Q (bnd (call c) k)"
  by (rule tracks_bnd_gen) (use assms in \<open>auto simp: call_def split: outcome.splits\<close>)

text \<open>The reads and the writes of the object.\<close>

lemma tracks_bnd_heap_prp:
  assumes "\<And>x. Q (Throw x) [] ob"
      and "\<And>x. js_prop ob f = Ok x \<Longrightarrow> tracks e a ob Q (k x)"
  shows "tracks e a ob Q (bnd (heap_prp a f) k)"
  by (rule tracks_bnd_gen) (use assms in \<open>auto simp: heap_prp_def split: outcome.splits\<close>)

lemma tracks_bnd_heap_obj:
  assumes "tracks e a ob Q (k ob)"
  shows "tracks e a ob Q (bnd (heap_obj a) k)"
  by (rule tracks_bnd_gen) (use assms in \<open>auto simp: heap_obj_def\<close>)

lemma tracks_bnd_heap_setp:
  assumes "\<And>x. Q (Throw x) [] ob"
      and "\<And>ob'. set_prop ob f v = Ok ob' \<Longrightarrow> tracks e a ob' Q (k v)"
  shows "tracks e a ob Q (bnd (heap_setp a f v) k)"
  by (rule tracks_bnd_gen) (use assms in \<open>auto simp: heap_setp_def split: outcome.splits\<close>)

lemma tracks_bnd_if:
  "(c \<Longrightarrow> tracks e a ob Q (bnd m k)) \<Longrightarrow> (\<not> c \<Longrightarrow> tracks e a ob Q (bnd n k)) \<Longrightarrow>
   tracks e a ob Q (bnd (if c then m else n) k)"
  by simp

lemma tracks_bnd_bnd:
  "tracks e a ob Q (bnd m (\<lambda>x. bnd (f x) g)) \<Longrightarrow> tracks e a ob Q (bnd (bnd m f) g)"
  by (simp add: bnd_assoc)

lemma tracks_bnd_ret: "tracks e a ob Q (k v) \<Longrightarrow> tracks e a ob Q (bnd (ret v) k)"
  by simp

lemma tracks_ret: "Q (Ok v) [] ob \<Longrightarrow> tracks e a ob Q (ret v)"
  by (rule tracksI) (auto simp: ret_def)

lemma tracks_lift: "Q r [] ob \<Longrightarrow> tracks e a ob Q (lift r)"
  by (rule tracksI) (auto simp: lift_def)

lemma tracks_call: "(\<And>r. Q r [(c, r)] ob) \<Longrightarrow> tracks e a ob Q (call c)"
  by (rule tracksI) (auto simp: call_def)

lemma tracks_try_catch:
  assumes "tracks e a ob
             (\<lambda>r evs ob'. case r of
                  Ok v \<Rightarrow> Q (Ok v) evs ob'
                | Throw x \<Rightarrow> Q (Ok (snt x)) (evs @ [(Console lvl [x], Ok Undefined)]) ob') m"
  shows "tracks e a ob Q
           (try_catch m (\<lambda>error. bnd (console lvl [error]) (\<lambda>_. ret (snt error))))"
proof (rule tracksI)
  fix s r s'
  assume h: "heap s a = ob"
    and run: "try_catch m (\<lambda>error. bnd (console lvl [error]) (\<lambda>_. ret (snt error))) e s = (r, s')"
  obtain r1 s1 where m1: "m e s = (r1, s1)" by (cases "m e s")
  from tracksD [OF assms h m1] obtain new where t: "trace s1 = trace s @ new"
    and c: "case r1 of
              Ok v \<Rightarrow> Q (Ok v) new (heap s1 a)
            | Throw x \<Rightarrow> Q (Ok (snt x)) (new @ [(Console lvl [x], Ok Undefined)]) (heap s1 a)"
    by blast
  show "\<exists>new. trace s' = trace s @ new \<and> Q r new (heap s' a)"
    using run m1 t c
    by (cases r1) (auto simp: try_catch_def bnd_def console_def ret_def)
qed

lemma tracks_trace:
  assumes "tracks e a (heap s a) Q m"
  shows "\<exists>new. trace (snd (m e s)) = trace s @ new
               \<and> Q (fst (m e s)) new (heap (snd (m e s)) a)"
proof -
  obtain r s' where "m e s = (r, s')" by (cases "m e s")
  with tracksD [OF assms refl, of r s'] show ?thesis by simp
qed

lemmas tracks_steps =
  tracks_bnd_heap_prp tracks_bnd_heap_obj tracks_bnd_heap_setp
  tracks_bnd_call tracks_bnd_lift tracks_bnd_libc tracks_bnd_meth tracks_bnd_nina
  tracks_bnd_konst tracks_bnd_to_str tracks_bnd_if tracks_bnd_bnd tracks_bnd_ret
  tracks_ret tracks_lift tracks_call

section \<open>What \<open>hubInit\<close> and \<open>hubInitWithCredit\<close> write\<close>

lemma obj_update_key: "k \<in> fst ` set (obj_update k x kv)"
  by (induction kv) force+

lemma has_own_set_prop: "set_prop v k x = Ok v' \<Longrightarrow> has_own v' k"
  by (cases v) (auto simp: has_own_def obj_update_key)

lemma set_prop_written:
  assumes p: "js_prop ob ''publishFee'' = Ok pf"
      and p1: "lib e (Arith ''*'' pf (JNum 10000)) = Ok pf1"
      and p2: "lib e (New ''anchor.BN'' [pf1]) = Ok pfBN"
      and s1: "set_prop ob ''publishFee'' pfBN = Ok ob1"
      and r: "js_prop ob1 ''referralFee'' = Ok rf"
      and r1: "lib e (Arith ''*'' rf (JNum 10000)) = Ok rf1"
      and r2: "lib e (New ''anchor.BN'' [rf1]) = Ok rfBN"
      and s2: "set_prop ob1 ''referralFee'' rfBN = Ok ob2"
      and s3: "set_prop ob2 ''hubSignerBump'' b = Ok ob3"
  shows "fees_scaled e ob ob3"
proof -
  have "js_prop ob3 ''publishFee'' = js_prop ob2 ''publishFee''"
    using s3 by (rule js_prop_set_prop) simp
  also have "\<dots> = js_prop ob1 ''publishFee''"
    using s2 by (rule js_prop_set_prop) simp
  also have "\<dots> = Ok pfBN"
    using s1 by (rule js_prop_set_same)
  finally have a: "js_prop ob3 ''publishFee'' = scaled e (field ob ''publishFee'')"
    using p p1 p2 by (simp add: scaled_def field_def)
  have "js_prop ob1 ''referralFee'' = js_prop ob ''referralFee''"
    using s1 by (rule js_prop_set_prop) simp
  with r have rf: "field ob ''referralFee'' = rf"
    by (simp add: field_def)
  have "js_prop ob3 ''referralFee'' = js_prop ob2 ''referralFee''"
    using s3 by (rule js_prop_set_prop) simp
  also have "\<dots> = Ok rfBN"
    using s2 by (rule js_prop_set_same)
  finally have b: "js_prop ob3 ''referralFee'' = scaled e (field ob ''referralFee'')"
    using rf r1 r2 by (simp add: scaled_def)
  from a b has_own_set_prop [OF s3] show ?thesis
    by (simp add: fees_scaled_def)
qed

lemma hubInit_body_writes:
  "tracks e a ob (\<lambda>r evs after. list_all (sends_hubParams e ob after) evs) (hubInit_body c a)"
  unfolding hubInit_body_def
  by (simp only: flat dflt_def Hub_fetch_def)
     (intro tracks_steps; simp (no_asm_simp) add: sends_hubParams_def arg_0 set_prop_written)

lemma hubInitWithCredit_body_writes:
  "tracks e a ob (\<lambda>r evs after. list_all (sends_hubParams e ob after) evs)
     (hubInitWithCredit_body a w cn ids)"
  unfolding hubInitWithCredit_body_def
  by (simp only: flat dflt_def Hub_fetch_def)
     (intro tracks_steps; simp (no_asm_simp) add: sends_hubParams_def arg_0 set_prop_written)

section \<open>The caller's objects\<close>

lemma hubInit_body_one_request:
  "succ e (\<lambda>v evs. length (requests evs) = 1) (hubInit_body c a)"
  unfolding hubInit_body_def
  by (simp only: flat if_lift dflt_def Hub_fetch_def)
     (intro succ_heap succ_steps; simp (no_asm) add: requests_def)

lemma sends_hubParams_console:
  "sends_hubParams e before after (Console lvl as, r)"
  by (simp add: sends_hubParams_def)

lemma hubInit_writes:
  "tracks e a ob (\<lambda>r evs after. list_all (sends_hubParams e ob after) evs) (hubInit c a)"
  unfolding hubInit_def
  by (rule tracks_try_catch, rule tracksI)
     (use tracksD [OF hubInit_body_writes] in
       \<open>fastforce simp: sends_hubParams_console split: outcome.splits\<close>)

lemma hubInitWithCredit_writes:
  "tracks e a ob (\<lambda>r evs after. list_all (sends_hubParams e ob after) evs)
     (hubInitWithCredit a w cn ids)"
  unfolding hubInitWithCredit_def
  by (rule tracks_try_catch, rule tracksI)
     (use tracksD [OF hubInitWithCredit_body_writes] in
       \<open>fastforce simp: sends_hubParams_console split: outcome.splits\<close>)

lemma run_frame: "frame op (heap s) (heap (snd (run op e s)))"
proof (cases "case op of HubInit c a \<Rightarrow> False | HubInitWithCredit a w cn ids \<Rightarrow> False
                | _ \<Rightarrow> True")
  case True
  from each_heap [OF run_any [OF True], of "\<lambda>h. h = heap s" s e]
  have "heap (snd (run op e s)) = heap s" by simp
  with True show ?thesis by (cases op) (simp_all add: frame_def)
next
  case False
  then show ?thesis
  proof (cases op)
    case (HubInit c a)
    have "each e (same_but a (heap s)) (\<lambda>ev. True) (hubInit c a)"
      unfolding hubInit_def by (intro each_try_catch hubInit_body_frame each_handler_any)
    from each_heap [OF this same_but_refl] HubInit show ?thesis by (simp add: frame_def)
  next
    case (HubInitWithCredit a w cn ids)
    have "each e (same_but a (heap s)) (\<lambda>ev. True) (hubInitWithCredit a w cn ids)"
      unfolding hubInitWithCredit_def
      by (intro each_try_catch hubInitWithCredit_body_frame each_handler_any)
    from each_heap [OF this same_but_refl] HubInitWithCredit show ?thesis
      by (simp add: frame_def)
  qed simp_all
qed

text \<open>The sample runs: what is at the address of \<open>hubParams\<close> afterwards.\<close>

lemma hubInit_sample_returns:
  "returns (hubInit_body demo_client 0 (demo_env ''fresh1'') hub_start)"
  by (simp add: returns_def hubInit_body_def hub_start_def demo_hubParams_def steps samples)

lemma hubInit_sample_heap:
  "heap (snd (hubInit demo_client 0 (demo_env ''fresh1'') hub_start)) 0 = rewritten_hubParams"
  by (simp add: hubInit_def hubInit_body_def hub_start_def demo_hubParams_def
        rewritten_hubParams_def steps samples)

lemma hubInitWithCredit_sample_heap:
  "heap (snd (hubInitWithCredit 0 demo_wallet (JStr ''connection1'') demo_ids
                (demo_env ''fresh1'') hub_start)) 0 = rewritten_hubParams"
  by (simp add: hubInitWithCredit_def hubInitWithCredit_body_def hub_start_def
        demo_hubParams_def rewritten_hubParams_def module_this_def steps samples)

lemma hubInitWithCredit_sample_request:
  "length (rpc_requests (trace (snd (hubInitWithCredit 0 demo_wallet (JStr ''connection1'')
                                      demo_ids (demo_env ''fresh1'') hub_start)))) = 1"
  by (simp add: hubInitWithCredit_def hubInitWithCredit_body_def hub_start_def
        demo_hubParams_def rpc_requests_def module_this_def steps samples)

text \<open>
  C5, as stated, fails: a call of \<open>hubInit\<close> and a call of \<open>hubInitWithCredit\<close> in the sample
  environment each leave a different object at the address of \<open>hubParams\<close> than they found
  there.
\<close>

theorem hubInit_changes_hubParams:
  "heap (snd (hubInit demo_client 0 (demo_env ''fresh1'') hub_start)) 0 \<noteq> heap hub_start 0
   \<and> heap (snd (hubInitWithCredit 0 demo_wallet (JStr ''connection1'') demo_ids
                   (demo_env ''fresh1'') hub_start)) 0 \<noteq> heap hub_start 0"
  unfolding hubInit_sample_heap hubInitWithCredit_sample_heap
  by (simp add: rewritten_hubParams_def hub_start_def demo_hubParams_def)

text \<open>
  C5, amended. No transaction function other than \<open>hubInit\<close> and \<open>hubInitWithCredit\<close> changes
  an object of the heap. These two write to the caller's \<open>hubParams\<close>, and to nothing but
  its fields \<open>publishFee\<close>, \<open>referralFee\<close> and \<open>hubSignerBump\<close>: after the call, however it
  ends, every other field of \<open>hubParams\<close> reads as before and every other object of the heap
  is the same. Whenever the call gets as far as its request for the transaction
  (\<open>.transaction()\<close> in \<open>hubInit\<close>, \<open>.rpc()\<close> in \<open>hubInitWithCredit\<close>), the \<open>hubParams\<close> that the
  request sends is the object that the caller is left with, and in it \<open>publishFee\<close> and
  \<open>referralFee\<close> are \<open>new anchor.BN(v * 10000)\<close> of their values \<open>v\<close> before the call and there
  is a field \<open>hubSignerBump\<close>. A \<open>hubInit\<close> whose \<open>try\<close> block returns has made exactly one
  such request.
\<close>

theorem caller_objects_frame:
  "frame op (heap s) (heap (snd (run op e s)))
   \<and> (\<exists>new. trace (snd (hubInit c a e s)) = trace s @ new
          \<and> list_all (sends_hubParams e (heap s a) (heap (snd (hubInit c a e s)) a)) new
          \<and> (returns (hubInit_body c a e s) \<longrightarrow> length (requests new) = 1))
   \<and> (\<exists>new. trace (snd (hubInitWithCredit a w cn ids e s)) = trace s @ new
          \<and> list_all (sends_hubParams e (heap s a)
                         (heap (snd (hubInitWithCredit a w cn ids e s)) a)) new)"
proof (intro conjI)
  show "frame op (heap s) (heap (snd (run op e s)))"
    by (rule run_frame)
next
  from tracks_trace [OF hubInit_writes [where e = e and a = a and ob = "heap s a" and c = c]]
  obtain new where t: "trace (snd (hubInit c a e s)) = trace s @ new"
    and w: "list_all (sends_hubParams e (heap s a) (heap (snd (hubInit c a e s)) a)) new"
    by blast
  have "length (requests new) = 1" if "returns (hubInit_body c a e s)"
    using returns_adds [OF hubInit_body_one_request that t [unfolded hubInit_def]]
    by blast
  with t w
  show "\<exists>new. trace (snd (hubInit c a e s)) = trace s @ new
          \<and> list_all (sends_hubParams e (heap s a) (heap (snd (hubInit c a e s)) a)) new
          \<and> (returns (hubInit_body c a e s) \<longrightarrow> length (requests new) = 1)"
    by blast
next
  from tracks_trace [OF hubInitWithCredit_writes [where e = e and a = a and ob = "heap s a"
         and w = w and cn = cn and ids = ids]]
  show "\<exists>new. trace (snd (hubInitWithCredit a w cn ids e s)) = trace s @ new
          \<and> list_all (sends_hubParams e (heap s a)
                         (heap (snd (hubInitWithCredit a w cn ids e s)) a)) new"
    by blast
qed

text \<open>
  The theorem at the sample calls. The \<open>try\<close> block of \<open>hubInit\<close> returns, so the call has
  made one request, and \<open>hubInitWithCredit\<close> has made one through \<open>.rpc()\<close>; in both, the
  object sent and left to the caller is \<open>rewritten_hubParams\<close>, whose fees are the scaled
  fees of \<open>demo_hubParams\<close>; the handle is as before and so is every other object of the
  heap. A call of \<open>hubWithdraw\<close> leaves the heap as it was.
\<close>

theorem caller_objects_frame_witness:
  "returns (hubInit_body demo_client 0 (demo_env ''fresh1'') hub_start)
   \<and> same_but 0 (heap hub_start)
         (heap (snd (hubInit demo_client 0 (demo_env ''fresh1'') hub_start)))
   \<and> (let new = trace (snd (hubInit demo_client 0 (demo_env ''fresh1'') hub_start))
       in list_all (sends_hubParams (demo_env ''fresh1'') demo_hubParams rewritten_hubParams) new
          \<and> length (requests new) = 1)
   \<and> same_but 0 (heap hub_start)
         (heap (snd (hubInitWithCredit 0 demo_wallet (JStr ''connection1'') demo_ids
                       (demo_env ''fresh1'') hub_start)))
   \<and> (let new = trace (snd (hubInitWithCredit 0 demo_wallet (JStr ''connection1'') demo_ids
                                (demo_env ''fresh1'') hub_start))
       in list_all (sends_hubParams (demo_env ''fresh1'') demo_hubParams rewritten_hubParams) new
          \<and> length (rpc_requests new) = 1)
   \<and> heap (snd (hubWithdraw demo_client (JStr ''hub1'') (demo_env ''fresh1'') hub_start)) =
       heap hub_start"
proof -
  have empty: "trace hub_start = []" and before: "heap hub_start 0 = demo_hubParams"
    by (simp_all add: hub_start_def)
  show ?thesis
    using caller_objects_frame [where op = "HubInit demo_client 0" and c = demo_client
            and a = 0 and w = demo_wallet and cn = "JStr ''connection1''" and ids = demo_ids
            and e = "demo_env ''fresh1''" and s = hub_start]
          caller_objects_frame [where op = "HubInitWithCredit 0 demo_wallet
              (JStr ''connection1'') demo_ids" and c = demo_client
            and a = 0 and w = demo_wallet and cn = "JStr ''connection1''" and ids = demo_ids
            and e = "demo_env ''fresh1''" and s = hub_start]
          caller_objects_frame [where op = "HubWithdraw demo_client (JStr ''hub1'')"
            and c = demo_client
            and a = 0 and w = demo_wallet and cn = "JStr ''connection1''" and ids = demo_ids
            and e = "demo_env ''fresh1''" and s = hub_start]
          hubInit_sample_returns hubInitWithCredit_sample_request
    by (simp only: frame_def operation.case run.simps empty before append_Nil Let_def
          hubInit_sample_heap hubInitWithCredit_sample_heap) blast
qed

end
